theory Spec2Isabelle
  imports Main "HOL-Library.Word" "HOL-Library.Sublist"
begin

unbundle bit_operations_syntax

section \<open>Strings, bytes and the random source\<close>

text \<open>
  A Go string is a sequence of bytes holding UTF-8 text. It is modelled as \<open>string\<close>,
  one \<open>char\<close> per byte, so that \<open>length\<close> is Go's \<open>len\<close>.
\<close>

type_synonym byte = "8 word"

definition isLowerAlnum :: "char \<Rightarrow> bool" where
  "isLowerAlnum c \<longleftrightarrow>
     (of_char (CHR ''a'') \<le> (of_char c :: nat) \<and> (of_char c :: nat) \<le> of_char (CHR ''z'')) \<or>
     (of_char (CHR ''0'') \<le> (of_char c :: nat) \<and> (of_char c :: nat) \<le> of_char (CHR ''9''))"

text \<open>
  \<open>usernameNonAlnum = regexp.MustCompile(`[^a-z0-9]+`)\<close>: the character class of the
  expression. Every byte of a multi-byte UTF-8 sequence, and every byte of ill-formed
  input, is at least \<open>0x80\<close> and so belongs to the class.
\<close>

definition usernameNonAlnum :: "char \<Rightarrow> bool" where
  "usernameNonAlnum c \<longleftrightarrow> \<not> isLowerAlnum c"

text \<open>\<open>usernameNonAlnum.ReplaceAllString(s, "")\<close>: every maximal run of the class is deleted.\<close>

definition ReplaceAllString_empty :: "string \<Rightarrow> string" where
  "ReplaceAllString_empty s = filter (\<lambda>c. \<not> usernameNonAlnum c) s"

text \<open>The small letter of an ASCII capital (the byte plus \<open>'a' - 'A'\<close>), by position in the alphabet.\<close>

definition lowerASCII :: "char \<Rightarrow> char" where
  "lowerASCII c =
     (if of_char (CHR ''A'') \<le> (of_char c :: nat) \<and> (of_char c :: nat) \<le> of_char (CHR ''Z'')
      then ''abcdefghijklmnopqrstuvwxyz'' ! ((of_char c :: nat) - of_char (CHR ''A'')) else c)"

text \<open>
  \<open>strings.ToLower\<close>. ASCII capitals are mapped to their small letters. Two runes outside
  ASCII have an ASCII lower case in Go's Unicode tables and are mapped as Go maps them:
  U+0130 (bytes \<open>C4 B0\<close>) to \<open>i\<close> and U+212A (bytes \<open>E2 84 AA\<close>) to \<open>k\<close>. Every other
  rune outside ASCII has a lower case outside ASCII; its bytes are kept as they are here,
  which differs from Go only in bytes that \<open>usernameNonAlnum\<close> deletes afterwards.
\<close>

fun ToLower :: "string \<Rightarrow> string" where
  "ToLower [] = []"
| "ToLower [c] = [lowerASCII c]"
| "ToLower [c, d] =
     (if c = CHR 0xC4 \<and> d = CHR 0xB0 then ''i''
      else lowerASCII c # ToLower [d])"
| "ToLower (c # d # e # cs) =
     (if c = CHR 0xC4 \<and> d = CHR 0xB0 then CHR ''i'' # ToLower (e # cs)
      else if c = CHR 0xE2 \<and> d = CHR 0x84 \<and> e = CHR 0xAA
      then CHR ''k'' # ToLower cs
      else lowerASCII c # ToLower (d # e # cs))"

definition isSpaceASCII :: "char \<Rightarrow> bool" where
  "isSpaceASCII c \<longleftrightarrow> (of_char c :: nat) \<in> {9, 10, 11, 12, 13, 32}"

text \<open>
  \<open>strings.TrimSpace\<close>: leading and trailing white space is cut off. The ASCII white space
  is modelled; Unicode white space outside ASCII is left in place, and is deleted by
  \<open>usernameNonAlnum\<close> in the only place where \<open>TrimSpace\<close> is called.
\<close>

definition TrimSpace :: "string \<Rightarrow> string" where
  "TrimSpace s = rev (dropWhile isSpaceASCII (rev (dropWhile isSpaceASCII s)))"

text \<open>\<open>strings.Split(s, "@")[0]\<close>: the part before the first \<open>@\<close>, all of \<open>s\<close> if there is none.\<close>

definition Split_at_0 :: "string \<Rightarrow> string" where
  "Split_at_0 s = takeWhile (\<lambda>c. c \<noteq> CHR ''@'') s"

subsection \<open>encoding/hex and google/uuid\<close>

definition hextable :: string where
  "hextable = ''0123456789abcdef''"

definition hex_byte :: "byte \<Rightarrow> string" where
  "hex_byte b = [hextable ! unat (drop_bit 4 b), hextable ! unat (b AND 0x0f)]"

definition EncodeToString :: "byte list \<Rightarrow> string" where
  "EncodeToString bs = concat (map hex_byte bs)"

text \<open>
  The random source (\<open>crypto/rand\<close>) is an unbounded supply of bytes: \<open>src r i\<close> is the
  \<open>i\<close>-th byte it will ever deliver and \<open>pos r\<close> the number of bytes read so far.
\<close>

record rander =
  src :: "nat \<Rightarrow> byte"
  pos :: nat

type_synonym UUID = "byte list"

text \<open>
  \<open>uuid.New()\<close>: sixteen random bytes, with the version (4) and variant bits set in
  bytes 6 and 8.
\<close>

definition uuid_New :: "rander \<Rightarrow> UUID \<times> rander" where
  "uuid_New r =
     (let b = map (src r) [pos r ..< pos r + 16];
          b = b[6 := (b ! 6 AND 0x0f) OR 0x40];
          b = b[8 := (b ! 8 AND 0x3f) OR 0x80]
      in (b, r\<lparr>pos := pos r + 16\<rparr>))"

text \<open>\<open>UUID.String()\<close>: the form \<open>xxxxxxxx-xxxx-xxxx-xxxx-xxxxxxxxxxxx\<close>.\<close>

definition uuid_String :: "UUID \<Rightarrow> string" where
  "uuid_String u =
     EncodeToString (take 4 u) @ ''-'' @
     EncodeToString (take 2 (drop 4 u)) @ ''-'' @
     EncodeToString (take 2 (drop 6 u)) @ ''-'' @
     EncodeToString (take 2 (drop 8 u)) @ ''-'' @
     EncodeToString (drop 10 u)"

text \<open>
  The bits of the sixteen random bytes that \<open>uuid.New()\<close> keeps as they were drawn:
  all of them but the high four of byte 6 and the high two of byte 8, which it overwrites
  with the version and the variant. That is \<open>14 * 8 + 4 + 6 = 122\<close> bits.
\<close>

definition token_bits :: "rander \<Rightarrow> byte list" where
  "token_bits r =
     (let b = map (src r) [pos r ..< pos r + 16];
          b = b[6 := b ! 6 AND 0x0f];
          b = b[8 := b ! 8 AND 0x3f]
      in b)"

section \<open>The username allocator\<close>

text \<open>
  \<open>generateUsername(firstName, lastName, email)\<close>. Each path through the function draws
  one UUID; the random source is passed in and returned.
\<close>

definition generateUsername :: "string \<Rightarrow> string \<Rightarrow> string \<Rightarrow> rander \<Rightarrow> string \<times> rander" where
  "generateUsername firstName lastName email r =
     (let base = TrimSpace (ToLower (firstName @ ''.'' @ lastName));
          base = ReplaceAllString_empty base;
          base = (if base = [] then ReplaceAllString_empty (ToLower (Split_at_0 email)) else base)
      in if base = [] then
           (let (u, r') = uuid_New r in (take 12 (uuid_String u), r'))
         else
           (let base = (if length base > 20 then take 20 base else base);
                (u, r') = uuid_New r;
                suffix = take 6 (uuid_String u)
            in (base @ suffix, r')))"


section \<open>UTF-8 decoding\<close>

text \<open>
  Go's \<open>range\<close> over a string and \<open>utf8.RuneCountInString\<close> decode UTF-8: a well-formed
  sequence of one to four bytes is one rune, and every byte that does not start a
  well-formed sequence is the rune U+FFFD of width 1.
\<close>

definition isCont :: "nat \<Rightarrow> bool" where
  "isCont b \<longleftrightarrow> 0x80 \<le> b \<and> b \<le> 0xBF"

definition RuneError :: nat where
  "RuneError = 0xFFFD"

fun DecodeRune :: "nat list \<Rightarrow> nat \<times> nat" where
  "DecodeRune [] = (RuneError, 0)"
| "DecodeRune (b0 # bs) =
     (if b0 < 0x80 then (b0, 1)
      else if 0xC2 \<le> b0 \<and> b0 \<le> 0xDF then
        (case bs of
           b1 # _ \<Rightarrow> if isCont b1 then ((b0 mod 32) * 64 + b1 mod 64, 2) else (RuneError, 1)
         | _ \<Rightarrow> (RuneError, 1))
      else if 0xE0 \<le> b0 \<and> b0 \<le> 0xEF then
        (case bs of
           b1 # b2 # _ \<Rightarrow>
             if (if b0 = 0xE0 then 0xA0 else 0x80) \<le> b1 \<and> b1 \<le> (if b0 = 0xED then 0x9F else 0xBF)
                \<and> isCont b2
             then (((b0 mod 16) * 64 + b1 mod 64) * 64 + b2 mod 64, 3) else (RuneError, 1)
         | _ \<Rightarrow> (RuneError, 1))
      else if 0xF0 \<le> b0 \<and> b0 \<le> 0xF4 then
        (case bs of
           b1 # b2 # b3 # _ \<Rightarrow>
             if (if b0 = 0xF0 then 0x90 else 0x80) \<le> b1 \<and> b1 \<le> (if b0 = 0xF4 then 0x8F else 0xBF)
                \<and> isCont b2 \<and> isCont b3
             then ((((b0 mod 8) * 64 + b1 mod 64) * 64 + b2 mod 64) * 64 + b3 mod 64, 4)
             else (RuneError, 1)
         | _ \<Rightarrow> (RuneError, 1))
      else (RuneError, 1))"

declare DecodeRune.simps(2) [simp del]

function DecodeRunes :: "nat list \<Rightarrow> nat list" where
  "DecodeRunes [] = []"
| "DecodeRunes (b # bs) =
     fst (DecodeRune (b # bs)) # DecodeRunes (drop (snd (DecodeRune (b # bs)) - 1) bs)"
  by pat_completeness auto
termination
  by (relation "measure length") simp_all

definition runes :: "string \<Rightarrow> nat list" where
  "runes s = DecodeRunes (map of_char s)"

definition RuneCountInString :: "string \<Rightarrow> nat" where
  "RuneCountInString s = length (runes s)"


section \<open>Errors, request bodies and the JSON reader\<close>

datatype tag = required | omitempty | max_tag nat | min_tag nat | email_tag | eqfield string

text \<open>
  Go's \<open>error\<close> values the handlers can meet. The first three are the sentinels of the
  \<open>store\<close> package, which the handlers compare with \<open>==\<close>; \<open>Err\<close> stands for any other
  error, with its message.
\<close>

datatype error =
    ErrDuplicateEmail
  | ErrDuplicateUsername
  | ErrNotFound
  | ErrBodyTooLarge
  | ErrSyntax
  | ErrUnknownField string
  | ErrUnmarshalType string
  | ValidationErrors "(string \<times> tag) list"
  | Err string

datatype json =
    JNull
  | JBool bool
  | JNumber string
  | JString string
  | JArray "json list"
  | JObject "(string \<times> json) list"

text \<open>
  A request body as \<open>json.Decoder.Decode\<close> meets it. The decoder reads the stream only up
  to the end of its first JSON value: \<open>json_value\<close> is that value (\<open>None\<close> when the body
  does not begin with a well-formed one) and \<open>json_len\<close> the number of bytes the decoder
  has to read to reach its end, or to reach the syntax error. Bytes after the first value
  are never read and are not part of the model.
\<close>

record request_body =
  json_value :: "json option"
  json_len :: nat

text \<open>
  What the handlers take from libraries and from packages whose sources are not at hand:
  the key folding of \<open>encoding/json\<close>, the \<open>email\<close> rule of the validator, SHA-256, the
  bcrypt-backed \<open>Set\<close> and \<open>Compare\<close> of \<open>store.password\<close>, and the Unicode tables.
\<close>

record password =
  pw_hash :: "byte list"

record library =
  EqualFold :: "string \<Rightarrow> string \<Rightarrow> bool"
  isEmail :: "string \<Rightarrow> bool"
  Sum256 :: "string \<Rightarrow> byte list"
  password_Set :: "string \<Rightarrow> error + password"
  password_Compare :: "password \<Rightarrow> string \<Rightarrow> error option"
  IsLower :: "nat \<Rightarrow> bool"
  IsUpper :: "nat \<Rightarrow> bool"
  IsDigit :: "nat \<Rightarrow> bool"
  IsPunct :: "nat \<Rightarrow> bool"
  IsSymbol :: "nat \<Rightarrow> bool"

text \<open>
  The field of a struct that a JSON key names: the field whose JSON name is the key, and
  failing that the first field whose name matches it under the decoder's case folding.
\<close>

definition find_field :: "library \<Rightarrow> string list \<Rightarrow> string \<Rightarrow> string option" where
  "find_field lib flds k =
     (case find (\<lambda>f. f = k) flds of
        Some f \<Rightarrow> Some f
      | None \<Rightarrow> find (\<lambda>f. EqualFold lib k f) flds)"

text \<open>
  Decoding the members of a JSON object into a struct whose flds are all strings, with
  \<open>DisallowUnknownFields\<close>. The result maps JSON field names to the strings stored. A
  \<open>null\<close> leaves the field as it is; the first error met is the error returned.
\<close>

fun decode_members ::
  "library \<Rightarrow> string list \<Rightarrow> (string \<times> json) list \<Rightarrow> (string \<rightharpoonup> string) \<Rightarrow> error + (string \<rightharpoonup> string)"
where
  "decode_members lib flds [] acc = Inr acc"
| "decode_members lib flds ((k, v) # ms) acc =
     (case find_field lib flds k of
        None \<Rightarrow> Inl (ErrUnknownField k)
      | Some f \<Rightarrow>
          (case v of
             JString str \<Rightarrow> decode_members lib flds ms (acc(f \<mapsto> str))
           | JNull \<Rightarrow> decode_members lib flds ms acc
           | _ \<Rightarrow> Inl (ErrUnmarshalType f)))"

definition Decode :: "library \<Rightarrow> string list \<Rightarrow> json \<Rightarrow> error + (string \<rightharpoonup> string)" where
  "Decode lib flds v =
     (case v of
        JNull \<Rightarrow> Inr Map.empty
      | JObject ms \<Rightarrow> decode_members lib flds ms Map.empty
      | _ \<Rightarrow> Inl (ErrUnmarshalType []))"

text \<open>
  \<open>readJSON\<close>: the body is wrapped in \<open>http.MaxBytesReader\<close>, whose reads fail once more
  than \<open>maxBytes\<close> bytes are asked for, and decoded with unknown flds disallowed.
\<close>

definition maxBytes :: nat where
  "maxBytes = 1048578"

definition readJSON :: "library \<Rightarrow> string list \<Rightarrow> request_body \<Rightarrow> error + (string \<rightharpoonup> string)" where
  "readJSON lib flds body =
     (if maxBytes < json_len body then Inl ErrBodyTooLarge
      else case json_value body of
             None \<Rightarrow> Inl ErrSyntax
           | Some v \<Rightarrow> Decode lib flds v)"

section \<open>Validation\<close>

text \<open>
  The tags of the validator that the payload structs use. For a string, \<open>max\<close> and
  \<open>min\<close> bound the number of runes, \<open>required\<close> asks for a non-empty value and
  \<open>eqfield\<close> for equality with another field of the same struct.
\<close>

fun check_tag :: "library \<Rightarrow> (string \<Rightarrow> string) \<Rightarrow> string \<Rightarrow> tag \<Rightarrow> bool" where
  "check_tag lib get v required = (v \<noteq> [])"
| "check_tag lib get v omitempty = True"
| "check_tag lib get v (max_tag n) = (RuneCountInString v \<le> n)"
| "check_tag lib get v (min_tag n) = (n \<le> RuneCountInString v)"
| "check_tag lib get v email_tag = isEmail lib v"
| "check_tag lib get v (eqfield other) = (v = get other)"

text \<open>
  The tags of one field are run in order and stop at the first that fails; \<open>omitempty\<close>
  ends the run for an empty value.
\<close>

fun run_tags :: "library \<Rightarrow> (string \<Rightarrow> string) \<Rightarrow> string \<Rightarrow> tag list \<Rightarrow> tag option" where
  "run_tags lib get v [] = None"
| "run_tags lib get v (t # ts) =
     (if t = omitempty \<and> v = [] then None
      else if check_tag lib get v t then run_tags lib get v ts
      else Some t)"

definition Validate_Struct ::
  "library \<Rightarrow> (string \<times> tag list) list \<Rightarrow> (string \<Rightarrow> string) \<Rightarrow> error option" where
  "Validate_Struct lib tags get =
     (let errs = List.map_filter
                   (\<lambda>(f, ts). map_option (\<lambda>t. (f, t)) (run_tags lib get (get f) ts)) tags
      in if errs = [] then None else Some (ValidationErrors errs))"

text \<open>
  The custom rule \<open>validatePassword\<close>, registered under the name \<open>password\<close> in \<open>init\<close>.
  The loop goes over the runes of the value; \<open>len(value)\<close> counts bytes.
\<close>

fun password_classes :: "library \<Rightarrow> nat list \<Rightarrow> bool \<times> bool \<times> bool \<times> bool \<Rightarrow> bool \<times> bool \<times> bool \<times> bool" where
  "password_classes lib [] flags = flags"
| "password_classes lib (r # rs) (hasLower, hasUpper, hasDigit, hasSpecial) =
     password_classes lib rs
       (if IsLower lib r then (True, hasUpper, hasDigit, hasSpecial)
        else if IsUpper lib r then (hasLower, True, hasDigit, hasSpecial)
        else if IsDigit lib r then (hasLower, hasUpper, True, hasSpecial)
        else if IsPunct lib r \<or> IsSymbol lib r then (hasLower, hasUpper, hasDigit, True)
        else (hasLower, hasUpper, hasDigit, hasSpecial))"

definition validatePassword :: "library \<Rightarrow> string \<Rightarrow> bool" where
  "validatePassword lib v =
     (case password_classes lib (runes v) (False, False, False, False) of
        (hasLower, hasUpper, hasDigit, hasSpecial) \<Rightarrow>
          length v \<ge> 8 \<and> hasLower \<and> hasUpper \<and> hasDigit \<and> hasSpecial)"

subsection \<open>The payload structs\<close>

record RegisterUserPayload =
  reg_FirstName :: string
  reg_LastName :: string
  reg_Country :: string
  reg_Email :: string
  reg_Password :: string
  reg_PasswordConfirmation :: string
  reg_Username :: string

definition RegisterUserPayload_json :: "string list" where
  "RegisterUserPayload_json =
     [''first_name'', ''last_name'', ''country'', ''email'', ''password'',
      ''password_confirmation'', ''username'']"

definition RegisterUserPayload_tags :: "(string \<times> tag list) list" where
  "RegisterUserPayload_tags =
     [(''FirstName'', [required, max_tag 100]),
      (''LastName'', [required, max_tag 100]),
      (''Country'', [required, max_tag 100]),
      (''Email'', [required, email_tag, max_tag 255]),
      (''Password'', [required, min_tag 3, max_tag 72]),
      (''PasswordConfirmation'', [required, eqfield ''Password'']),
      (''Username'', [omitempty, max_tag 100])]"

definition str_or_empty :: "(string \<rightharpoonup> string) \<Rightarrow> string \<Rightarrow> string" where
  "str_or_empty m k = (case m k of Some v \<Rightarrow> v | None \<Rightarrow> [])"

definition RegisterUserPayload_of :: "(string \<rightharpoonup> string) \<Rightarrow> RegisterUserPayload" where
  "RegisterUserPayload_of m =
     \<lparr>reg_FirstName = str_or_empty m ''first_name'',
      reg_LastName = str_or_empty m ''last_name'',
      reg_Country = str_or_empty m ''country'',
      reg_Email = str_or_empty m ''email'',
      reg_Password = str_or_empty m ''password'',
      reg_PasswordConfirmation = str_or_empty m ''password_confirmation'',
      reg_Username = str_or_empty m ''username''\<rparr>"

definition RegisterUserPayload_get :: "RegisterUserPayload \<Rightarrow> string \<Rightarrow> string" where
  "RegisterUserPayload_get p f =
     (if f = ''FirstName'' then reg_FirstName p
      else if f = ''LastName'' then reg_LastName p
      else if f = ''Country'' then reg_Country p
      else if f = ''Email'' then reg_Email p
      else if f = ''Password'' then reg_Password p
      else if f = ''PasswordConfirmation'' then reg_PasswordConfirmation p
      else if f = ''Username'' then reg_Username p
      else [])"

record CreateUserTokenPayload =
  tok_Email :: string
  tok_Password :: string

definition CreateUserTokenPayload_json :: "string list" where
  "CreateUserTokenPayload_json = [''email'', ''password'']"

definition CreateUserTokenPayload_tags :: "(string \<times> tag list) list" where
  "CreateUserTokenPayload_tags =
     [(''Email'', [required, email_tag, max_tag 255]),
      (''Password'', [required, min_tag 3, max_tag 72])]"

definition CreateUserTokenPayload_of :: "(string \<rightharpoonup> string) \<Rightarrow> CreateUserTokenPayload" where
  "CreateUserTokenPayload_of m =
     \<lparr>tok_Email = str_or_empty m ''email'', tok_Password = str_or_empty m ''password''\<rparr>"

definition CreateUserTokenPayload_get :: "CreateUserTokenPayload \<Rightarrow> string \<Rightarrow> string" where
  "CreateUserTokenPayload_get p f =
     (if f = ''Email'' then tok_Email p
      else if f = ''Password'' then tok_Password p
      else [])"


section \<open>The application and its collaborators\<close>

text \<open>
  \<open>store.User\<close>, with the fields the handlers set or read. \<open>ID\<close> is an \<open>int64\<close> that the
  handlers only compare with zero and pass on, so it is an \<open>int\<close> here.
\<close>

record User =
  ID :: int
  Username :: string
  FirstName :: string
  LastName :: string
  Country :: string
  Email :: string
  Password :: password
  Role_Name :: string

record config =
  mail_exp :: int
  frontendURL :: string
  env :: string
  auth_token_exp :: int
  auth_token_iss :: string

record mail_vars =
  vars_Username :: string
  vars_ActivationURL :: string

datatype claim = IntClaim int | StrClaim string

type_synonym MapClaims = "string \<rightharpoonup> claim"

text \<open>
  The collaborators of the handlers, over a repository state \<open>'s\<close>. The repository, the
  mailer and the authenticator are interfaces to the handlers, so each call is a function
  here: of the repository state for the store, of its arguments for the others.
  \<open>CreateAndInvite\<close> fills in the identity of the user it was given when, and only when,
  it succeeds; its result is the error or that identity. \<open>writeJSON\<close> is the outcome of
  writing a success response to the client.
\<close>

record 's application =
  config :: config
  CreateAndInvite :: "'s \<Rightarrow> User \<Rightarrow> string \<Rightarrow> int \<Rightarrow> (error + int) \<times> 's"
  Delete :: "'s \<Rightarrow> int \<Rightarrow> error option \<times> 's"
  GetByEmail :: "'s \<Rightarrow> string \<Rightarrow> error + User"
  Send :: "string \<Rightarrow> string \<Rightarrow> string \<Rightarrow> mail_vars \<Rightarrow> bool \<Rightarrow> int \<times> error option"
  UserWelcomeTemplate :: string
  GenerateToken :: "MapClaims \<Rightarrow> error + string"
  writeJSON :: "error option"

datatype data = UserWithToken User string | Token string

text \<open>The response helpers a handler ends with, each with the argument it is given.\<close>

datatype response =
    badRequestResponse error
  | internalServerError error
  | unauthorizedErrorResponse error
  | jsonResponse nat data

text \<open>The status codes that the handlers' annotations give for the helpers.\<close>

fun status_of :: "response \<Rightarrow> nat" where
  "status_of (badRequestResponse e) = 400"
| "status_of (internalServerError e) = 500"
| "status_of (unauthorizedErrorResponse e) = 401"
| "status_of (jsonResponse code d) = code"

text \<open>
  Modelled from the spec: the response helpers \<open>badRequestResponse\<close>,
  \<open>internalServerError\<close> and \<open>unauthorizedErrorResponse\<close> of \<open>errors.go\<close>, whose
  sources are not at hand. The spec's error taxonomy says what the caller receives from
  each. Unauthorized is a single undifferentiated outcome, used for a missing account and
  for a wrong password alike, so that nothing in it tells which condition occurred. An
  internal failure is a generic internal error with no detail of the failure in the
  response; the error is logged. A bad request tells bad input and the two conflicts
  apart, so it carries its error. A success is the status and the data given to
  \<open>jsonResponse\<close>.
\<close>

datatype reply = UnauthorizedReply | InternalErrorReply | BadRequestReply error | DataReply nat data

fun caller_receives :: "response \<Rightarrow> reply" where
  "caller_receives (unauthorizedErrorResponse e) = UnauthorizedReply"
| "caller_receives (internalServerError e) = InternalErrorReply"
| "caller_receives (badRequestResponse e) = BadRequestReply e"
| "caller_receives (jsonResponse code d) = DataReply code d"

text \<open>
  Every call a handler makes to a collaborator is recorded, with its arguments and its
  result, in the order in which the calls are made.
\<close>

datatype event =
    CallCreateAndInvite User string int "error + int"
  | CallDelete int "error option"
  | CallGetByEmail string "error + User"
  | CallSend string string string mail_vars bool "int \<times> error option"
  | CallGenerateUsername string
  | CallGenerateToken MapClaims "error + string"
  | LogError string error
  | LogInfo string int
  | Respond response

text \<open>
  The clock: \<open>now_at c i\<close> is what the \<open>i\<close>-th call of \<open>time.Now()\<close> returns, in
  nanoseconds since the Unix epoch.
\<close>

record clock =
  now_at :: "nat \<Rightarrow> int"
  reads :: nat

record 's world =
  store :: 's
  rand :: rander
  clk :: clock
  trace :: "event list"

definition emit :: "event \<Rightarrow> 's world \<Rightarrow> 's world" where
  "emit e w = w\<lparr>trace := trace w @ [e]\<rparr>"

text \<open>What the caller receives in the course of a sequence of calls.\<close>

fun replies :: "event list \<Rightarrow> reply list" where
  "replies [] = []"
| "replies (Respond r # es) = caller_receives r # replies es"
| "replies (ev # es) = replies es"

definition respond :: "response \<Rightarrow> 's world \<Rightarrow> 's world" where
  "respond r w = emit (Respond r) w"

definition time_Now :: "'s world \<Rightarrow> int \<times> 's world" where
  "time_Now w = (now_at (clk w) (reads (clk w)), w\<lparr>clk := (clk w)\<lparr>reads := reads (clk w) + 1\<rparr>\<rparr>)"

text \<open>\<open>Time.Unix()\<close>: whole seconds since the epoch.\<close>

definition Unix :: "int \<Rightarrow> int" where
  "Unix t = t div 1000000000"

definition StatusCreated :: nat where
  "StatusCreated = 201"

section \<open>Registration\<close>

text \<open>A call of \<open>generateUsername\<close> by the handler, on the world's random source.\<close>

definition call_generateUsername :: "RegisterUserPayload \<Rightarrow> 's world \<Rightarrow> string \<times> 's world" where
  "call_generateUsername payload w =
     (let (name, r') = generateUsername (reg_FirstName payload) (reg_LastName payload)
                         (reg_Email payload) (rand w)
      in (name, emit (CallGenerateUsername name) (w\<lparr>rand := r'\<rparr>)))"

datatype flow = Returned | Proceed

text \<open>
  The retry loop \<open>for attempt := 0; attempt < 5; attempt++\<close>. It ends with \<open>Returned\<close>
  when the handler has answered and returned from inside the loop, and with \<open>Proceed\<close>
  when control reaches the statement after the loop, by \<open>break\<close> or by the loop
  condition.
\<close>

function create_loop ::
  "'s application \<Rightarrow> RegisterUserPayload \<Rightarrow> string \<Rightarrow> nat \<Rightarrow> User \<Rightarrow> 's world \<Rightarrow> flow \<times> User \<times> 's world"
where
  "create_loop app payload hashToken attempt user w =
     (if attempt < 5 then
        (case CreateAndInvite app (store w) user hashToken (mail_exp (config app)) of
           (res, s') \<Rightarrow>
             (let w1 = emit (CallCreateAndInvite user hashToken (mail_exp (config app)) res)
                         (w\<lparr>store := s'\<rparr>)
              in case res of
                   Inr newID \<Rightarrow> (Proceed, user\<lparr>ID := newID\<rparr>, w1)
                 | Inl err \<Rightarrow>
                     if err = ErrDuplicateEmail then
                       (Returned, user, respond (badRequestResponse err) w1)
                     else if err = ErrDuplicateUsername then
                       (case call_generateUsername payload w1 of
                          (name, w2) \<Rightarrow>
                            create_loop app payload hashToken (attempt + 1)
                              (user\<lparr>Username := name\<rparr>) w2)
                     else (Returned, user, respond (internalServerError err) w1)))
      else (Proceed, user, w))"
  by pat_completeness auto
termination
  by (relation "measure (\<lambda>(app, payload, hashToken, attempt, user, w). 5 - attempt)") auto

declare create_loop.simps [simp del]

text \<open>The statements after the loop: the check of \<open>user.ID\<close>, the mail, the rollback.\<close>

definition after_loop :: "'s application \<Rightarrow> string \<Rightarrow> User \<Rightarrow> 's world \<Rightarrow> 's world" where
  "after_loop app plainToken user w =
     (if ID user = 0 then respond (badRequestResponse ErrDuplicateUsername) w
      else
        (let userWithToken = UserWithToken user plainToken;
             activationURL = frontendURL (config app) @ ''/confirm/'' @ plainToken;
             isProdEnv = (env (config app) = ''production'');
             vars = \<lparr>vars_Username = Username user, vars_ActivationURL = activationURL\<rparr>;
             sent = Send app (UserWelcomeTemplate app) (Username user) (Email user) vars
                      (\<not> isProdEnv);
             w = emit (CallSend (UserWelcomeTemplate app) (Username user) (Email user) vars
                         (\<not> isProdEnv) sent) w
         in case snd sent of
              Some err \<Rightarrow>
                (let w = emit (LogError ''error sending welcome email'' err) w;
                     deleted = Delete app (store w) (ID user);
                     w = emit (CallDelete (ID user) (fst deleted)) (w\<lparr>store := snd deleted\<rparr>);
                     w = (case fst deleted of
                            Some derr \<Rightarrow> emit (LogError ''error deleting user'' derr) w
                          | None \<Rightarrow> w)
                 in respond (internalServerError err) w)
            | None \<Rightarrow>
                (let w = emit (LogInfo ''Email sent'' (fst sent)) w;
                     w = respond (jsonResponse StatusCreated userWithToken) w
                 in case writeJSON app of
                      Some err \<Rightarrow> respond (internalServerError err) w
                    | None \<Rightarrow> w)))"

text \<open>The statements from the password hash to the loop.\<close>

definition create_user :: "library \<Rightarrow> 's application \<Rightarrow> RegisterUserPayload \<Rightarrow> User \<Rightarrow> 's world \<Rightarrow> 's world" where
  "create_user lib app payload user w =
     (case password_Set lib (reg_Password payload) of
        Inl err \<Rightarrow> respond (internalServerError err) w
      | Inr pw \<Rightarrow>
          (let user = user\<lparr>Password := pw\<rparr>;
               (u, r') = uuid_New (rand w);
               w = w\<lparr>rand := r'\<rparr>;
               plainToken = uuid_String u;
               hash = Sum256 lib plainToken;
               hashToken = EncodeToString hash
           in case create_loop app payload hashToken 0 user w of
                (Returned, user, w) \<Rightarrow> w
              | (Proceed, user, w) \<Rightarrow> after_loop app plainToken user w))"

definition registerUserHandler :: "library \<Rightarrow> 's application \<Rightarrow> request_body \<Rightarrow> 's world \<Rightarrow> 's world" where
  "registerUserHandler lib app body w =
     (case readJSON lib RegisterUserPayload_json body of
        Inl err \<Rightarrow> respond (badRequestResponse err) w
      | Inr m \<Rightarrow>
          (let payload = RegisterUserPayload_of m
           in case Validate_Struct lib RegisterUserPayload_tags (RegisterUserPayload_get payload) of
                Some err \<Rightarrow> respond (badRequestResponse err) w
              | None \<Rightarrow>
                  (let (username, w) =
                         (if reg_Username payload = [] then call_generateUsername payload w
                          else (reg_Username payload, w));
                       user = \<lparr>ID = 0, Username = username,
                               FirstName = reg_FirstName payload,
                               LastName = reg_LastName payload,
                               Country = reg_Country payload,
                               Email = reg_Email payload,
                               Password = \<lparr>pw_hash = []\<rparr>,
                               Role_Name = ''user''\<rparr>
                   in create_user lib app payload user w)))"

section \<open>Login\<close>

definition mint_claims :: "'s application \<Rightarrow> User \<Rightarrow> 's world \<Rightarrow> MapClaims \<times> 's world" where
  "mint_claims app user w =
     (let (t1, w) = time_Now w;
          exp = Unix (t1 + auth_token_exp (config app));
          (t2, w) = time_Now w;
          iat = Unix t2;
          (t3, w) = time_Now w;
          nbf = Unix t3
      in (Map.empty(''sub'' \<mapsto> IntClaim (ID user),
                    ''exp'' \<mapsto> IntClaim exp,
                    ''iat'' \<mapsto> IntClaim iat,
                    ''nbf'' \<mapsto> IntClaim nbf,
                    ''iss'' \<mapsto> StrClaim (auth_token_iss (config app)),
                    ''aud'' \<mapsto> StrClaim (auth_token_iss (config app))), w))"

definition issue_token :: "library \<Rightarrow> 's application \<Rightarrow> CreateUserTokenPayload \<Rightarrow> 's world \<Rightarrow> 's world" where
  "issue_token lib app payload w =
     (let found = GetByEmail app (store w) (tok_Email payload);
          w = emit (CallGetByEmail (tok_Email payload) found) w
      in case found of
           Inl err \<Rightarrow>
             (if err = ErrNotFound then respond (unauthorizedErrorResponse err) w
              else respond (internalServerError err) w)
         | Inr user \<Rightarrow>
             (case password_Compare lib (Password user) (tok_Password payload) of
                Some err \<Rightarrow> respond (unauthorizedErrorResponse err) w
              | None \<Rightarrow>
                  (let (claims, w) = mint_claims app user w;
                       signed = GenerateToken app claims;
                       w = emit (CallGenerateToken claims signed) w
                   in case signed of
                        Inl err \<Rightarrow> respond (internalServerError err) w
                      | Inr token \<Rightarrow>
                          (let w = respond (jsonResponse StatusCreated (Token token)) w
                           in case writeJSON app of
                                Some err \<Rightarrow> respond (internalServerError err) w
                              | None \<Rightarrow> w))))"

definition createTokenHandler :: "library \<Rightarrow> 's application \<Rightarrow> request_body \<Rightarrow> 's world \<Rightarrow> 's world" where
  "createTokenHandler lib app body w =
     (case readJSON lib CreateUserTokenPayload_json body of
        Inl err \<Rightarrow> respond (badRequestResponse err) w
      | Inr m \<Rightarrow>
          (let payload = CreateUserTokenPayload_of m
           in case Validate_Struct lib CreateUserTokenPayload_tags (CreateUserTokenPayload_get payload) of
                Some err \<Rightarrow> respond (badRequestResponse err) w
              | None \<Rightarrow> issue_token lib app payload w))"


subsection \<open>The calls of one run of the retry loop\<close>

text \<open>
  The sequences of calls that the retry loop can make from attempt \<open>k\<close> on, with the
  user it holds before and after and the way it ends: no call when the attempts are used
  up; one create that succeeds; one create answered by a duplicate email or by another
  error, and the response; or a create answered by a duplicate username, the call of
  \<open>generateUsername\<close>, and the calls of the next attempt.
\<close>

inductive loop_run ::
  "RegisterUserPayload \<Rightarrow> string \<Rightarrow> int \<Rightarrow> nat \<Rightarrow> User \<Rightarrow> flow \<Rightarrow> User \<Rightarrow> event list \<Rightarrow> bool"
  for p :: RegisterUserPayload and h :: string and e :: int
where
  exhausted: "\<not> k < 5 \<Longrightarrow> loop_run p h e k user Proceed user []"
| created:
    "k < 5 \<Longrightarrow>
     loop_run p h e k user Proceed (user\<lparr>ID := newID\<rparr>) [CallCreateAndInvite user h e (Inr newID)]"
| dup_email:
    "k < 5 \<Longrightarrow>
     loop_run p h e k user Returned user
       [CallCreateAndInvite user h e (Inl ErrDuplicateEmail),
        Respond (badRequestResponse ErrDuplicateEmail)]"
| failed:
    "k < 5 \<Longrightarrow> err \<noteq> ErrDuplicateEmail \<Longrightarrow> err \<noteq> ErrDuplicateUsername \<Longrightarrow>
     loop_run p h e k user Returned user
       [CallCreateAndInvite user h e (Inl err), Respond (internalServerError err)]"
| retry:
    "k < 5 \<Longrightarrow>
     name = fst (generateUsername (reg_FirstName p) (reg_LastName p) (reg_Email p) r) \<Longrightarrow>
     loop_run p h e (Suc k) (user\<lparr>Username := name\<rparr>) fl user' T \<Longrightarrow>
     loop_run p h e k user fl user'
       (CallCreateAndInvite user h e (Inl ErrDuplicateUsername) # CallGenerateUsername name # T)"

fun is_create :: "event \<Rightarrow> bool" where
  "is_create (CallCreateAndInvite u h e r) = True"
| "is_create _ = False"

section \<open>A repository in memory\<close>

text \<open>
  Modelled from the spec: the \<open>store\<close> package (\<open>internal/store\<close>), whose sources are not
  at hand. The spec gives the repository an atomic \<open>createWithInvitation\<close>, \<open>getByEmail\<close>
  and \<open>delete\<close>, with globally unique usernames and emails, an identity assigned on
  creation, one invitation (the hash of the token and its expiry) per account, and for
  each operation the distinguishable conflict kinds against an undifferentiated internal
  failure. Internal failures are scheduled by \<open>faults\<close>: each write takes the head of the
  list and fails, leaving the repository as it is, when the head is \<open>True\<close>.
\<close>

record memstore =
  users :: "User list"
  invitations :: "(string \<times> int \<times> int) list"
  next_id :: int
  faults :: "bool list"

definition take_fault :: "memstore \<Rightarrow> bool \<times> memstore" where
  "take_fault s = (case faults s of [] \<Rightarrow> (False, s) | f # fs \<Rightarrow> (f, s\<lparr>faults := fs\<rparr>))"

definition mem_CreateAndInvite :: "memstore \<Rightarrow> User \<Rightarrow> string \<Rightarrow> int \<Rightarrow> (error + int) \<times> memstore" where
  "mem_CreateAndInvite s0 user token exp =
     (case take_fault s0 of
        (failing, s) \<Rightarrow>
          if failing then (Inl (Err ''store: internal failure''), s)
          else if list_ex (\<lambda>u. Email u = Email user) (users s) then (Inl ErrDuplicateEmail, s)
          else if list_ex (\<lambda>u. Username u = Username user) (users s) then (Inl ErrDuplicateUsername, s)
          else (Inr (next_id s),
                s\<lparr>users := users s @ [user\<lparr>ID := next_id s\<rparr>],
                  invitations := invitations s @ [(token, next_id s, exp)],
                  next_id := next_id s + 1\<rparr>))"

definition mem_Delete :: "memstore \<Rightarrow> int \<Rightarrow> error option \<times> memstore" where
  "mem_Delete s0 uid =
     (case take_fault s0 of
        (failing, s) \<Rightarrow>
          if failing then (Some (Err ''store: internal failure''), s)
          else (None,
                s\<lparr>users := filter (\<lambda>u. ID u \<noteq> uid) (users s),
                  invitations := filter (\<lambda>(t, i, e). i \<noteq> uid) (invitations s)\<rparr>))"

definition mem_GetByEmail :: "memstore \<Rightarrow> string \<Rightarrow> error + User" where
  "mem_GetByEmail s email =
     (case find (\<lambda>u. Email u = email) (users s) of
        None \<Rightarrow> Inl ErrNotFound
      | Some u \<Rightarrow> Inr u)"

text \<open>\<open>mailer.NoopClient.Send\<close>.\<close>

definition Noop_Send :: "string \<Rightarrow> string \<Rightarrow> string \<Rightarrow> mail_vars \<Rightarrow> bool \<Rightarrow> int \<times> error option" where
  "Noop_Send templateFile username email d isSandbox = (200, None)"

section \<open>Derived notions used in the statements\<close>

text \<open>The base handle that \<open>generateUsername\<close> holds before it is cut to 20 characters.\<close>

definition username_base :: "string \<Rightarrow> string \<Rightarrow> string \<Rightarrow> string" where
  "username_base firstName lastName email =
     (let base = ReplaceAllString_empty (TrimSpace (ToLower (firstName @ ''.'' @ lastName)))
      in if base = [] then ReplaceAllString_empty (ToLower (Split_at_0 email)) else base)"

text \<open>
  The username of the first attempt, the random source as it stands when the token is
  drawn, and the token: \<open>generateUsername\<close> is called before the token is drawn exactly
  when the payload has no username.
\<close>

definition first_username :: "RegisterUserPayload \<Rightarrow> rander \<Rightarrow> string" where
  "first_username p r =
     (if reg_Username p = []
      then fst (generateUsername (reg_FirstName p) (reg_LastName p) (reg_Email p) r)
      else reg_Username p)"

definition token_rander :: "RegisterUserPayload \<Rightarrow> rander \<Rightarrow> rander" where
  "token_rander p r =
     (if reg_Username p = []
      then snd (generateUsername (reg_FirstName p) (reg_LastName p) (reg_Email p) r)
      else r)"

definition plain_token :: "RegisterUserPayload \<Rightarrow> rander \<Rightarrow> string" where
  "plain_token p r = uuid_String (fst (uuid_New (token_rander p r)))"

definition first_user :: "RegisterUserPayload \<Rightarrow> rander \<Rightarrow> password \<Rightarrow> User" where
  "first_user p r pw =
     \<lparr>ID = 0, Username = first_username p r,
      FirstName = reg_FirstName p, LastName = reg_LastName p, Country = reg_Country p,
      Email = reg_Email p, Password = pw, Role_Name = ''user''\<rparr>"

subsection \<open>Concrete inputs\<close>

text \<open>A random source, used where a statement is evaluated on a concrete run.\<close>

definition demo_rander :: rander where
  "demo_rander = \<lparr>src = (\<lambda>i. of_nat (i * 37 + 11)), pos = 0\<rparr>"

text \<open>
  Stand-ins for the library functions: an email is anything with an \<open>@\<close>, keys are
  folded over ASCII, the digest of a string is its first 32 bytes (filled up with zeros),
  the hash of a password is its bytes each raised by one, and the Unicode classes are
  those of ASCII.
\<close>

definition demo_lib :: library where
  "demo_lib =
     \<lparr>EqualFold = (\<lambda>a b. map lowerASCII a = map lowerASCII b),
      isEmail = (\<lambda>s. CHR ''@'' \<in> set s),
      Sum256 = (\<lambda>s. take 32 (map (\<lambda>c. of_nat (of_char c)) s @ replicate 32 0)),
      password_Set = (\<lambda>s. Inr \<lparr>pw_hash = map (\<lambda>c. of_nat (of_char c) + 1) s\<rparr>),
      password_Compare =
        (\<lambda>p s. if pw_hash p = map (\<lambda>c. of_nat (of_char c) + 1) s then None
               else Some (Err ''mismatch'')),
      IsLower = (\<lambda>r. 97 \<le> r \<and> r \<le> 122),
      IsUpper = (\<lambda>r. 65 \<le> r \<and> r \<le> 90),
      IsDigit = (\<lambda>r. 48 \<le> r \<and> r \<le> 57),
      IsPunct = (\<lambda>r. r = 33),
      IsSymbol = (\<lambda>r. r = 43)\<rparr>"

definition demo_payload :: RegisterUserPayload where
  "demo_payload =
     \<lparr>reg_FirstName = ''Ann'', reg_LastName = ''Lee'', reg_Country = ''NZ'',
      reg_Email = ''ann@example.com'', reg_Password = ''abc'',
      reg_PasswordConfirmation = ''abc'', reg_Username = []\<rparr>"

definition demo_config :: config where
  "demo_config =
     \<lparr>mail_exp = 259200000000000, frontendURL = ''http://localhost:5173'',
      env = ''development'', auth_token_exp = 259200000000000,
      auth_token_iss = ''realestate''\<rparr>"

definition demo_app :: "memstore application" where
  "demo_app =
     \<lparr>config = demo_config,
      CreateAndInvite = mem_CreateAndInvite,
      Delete = mem_Delete,
      GetByEmail = mem_GetByEmail,
      Send = Noop_Send,
      UserWelcomeTemplate = ''user_invitation.tmpl'',
      GenerateToken = (\<lambda>c. Inr ''signed''),
      writeJSON = None\<rparr>"

definition demo_store :: memstore where
  "demo_store = \<lparr>users = [], invitations = [], next_id = 1, faults = []\<rparr>"

definition demo_clock :: clock where
  "demo_clock = \<lparr>now_at = (\<lambda>i. 1700000000000000000 + 7 * int i), reads = 0\<rparr>"

definition demo_world :: "memstore world" where
  "demo_world = \<lparr>store = demo_store, rand = demo_rander, clk = demo_clock, trace = []\<rparr>"

definition oversized_body :: request_body where
  "oversized_body = \<lparr>json_value = Some (JObject []), json_len = 1048579\<rparr>"

definition unknown_field_body :: request_body where
  "unknown_field_body =
     \<lparr>json_value = Some (JObject [(''email'', JString ''ann@example.com''), (''role'', JString ''admin'')]),
      json_len = 48\<rparr>"

definition login_body :: request_body where
  "login_body =
     \<lparr>json_value = Some (JObject [(''email'', JString ''ann@example.com''), (''password'', JString ''abc'')]),
      json_len = 48\<rparr>"

definition wrong_password_body :: request_body where
  "wrong_password_body =
     \<lparr>json_value = Some (JObject [(''email'', JString ''ann@example.com''), (''password'', JString ''xyz'')]),
      json_len = 48\<rparr>"

definition ann :: User where
  "ann =
     \<lparr>ID = 1, Username = ''annlee0b3055'', FirstName = ''Ann'', LastName = ''Lee'',
      Country = ''NZ'', Email = ''ann@example.com'',
      Password = \<lparr>pw_hash = [98, 99, 100]\<rparr>, Role_Name = ''user''\<rparr>"

definition ann_world :: "memstore world" where
  "ann_world = demo_world\<lparr>store := demo_store\<lparr>users := [ann], next_id := 2\<rparr>\<rparr>"

definition register_body :: request_body where
  "register_body =
     \<lparr>json_value = Some (JObject
        [(''first_name'', JString ''Ann''), (''last_name'', JString ''Lee''),
         (''country'', JString ''NZ''), (''email'', JString ''ann@example.com''),
         (''password'', JString ''abc''), (''password_confirmation'', JString ''abc'')]),
      json_len = 140\<rparr>"

text \<open>A mailer that cannot reach its server, as \<open>smtpClient.Send\<close> reports it.\<close>

definition mail_down_app :: "memstore application" where
  "mail_down_app =
     demo_app\<lparr>Send := (\<lambda>templateFile username email d isSandbox.
                          (- 1, Some (Err ''dial tcp: connection refused'')))\<rparr>"

text \<open>A repository whose second write fails.\<close>

definition flaky_world :: "memstore world" where
  "flaky_world = demo_world\<lparr>store := demo_store\<lparr>faults := [False, True]\<rparr>\<rparr>"

text \<open>A repository that answers every create with a duplicate username.\<close>

definition taken_app :: "memstore application" where
  "taken_app = demo_app\<lparr>CreateAndInvite := (\<lambda>s u h e. (Inl ErrDuplicateUsername, s))\<rparr>"

definition named_payload :: RegisterUserPayload where
  "named_payload = demo_payload\<lparr>reg_Username := ''ann''\<rparr>"

definition named_body :: request_body where
  "named_body =
     \<lparr>json_value = Some (JObject
        [(''first_name'', JString ''Ann''), (''last_name'', JString ''Lee''),
         (''country'', JString ''NZ''), (''email'', JString ''ann@example.com''),
         (''password'', JString ''abc''), (''password_confirmation'', JString ''abc''),
         (''username'', JString ''ann'')]),
      json_len = 160\<rparr>"

definition bob :: User where
  "bob =
     \<lparr>ID = 1, Username = ''ann'', FirstName = ''Bob'', LastName = ''Ray'',
      Country = ''NZ'', Email = ''bob@example.com'',
      Password = \<lparr>pw_hash = [98, 99, 100]\<rparr>, Role_Name = ''user''\<rparr>"

definition bob_world :: "memstore world" where
  "bob_world = demo_world\<lparr>store := demo_store\<lparr>users := [bob], next_id := 2\<rparr>\<rparr>"

text \<open>
  The username that \<open>generateUsername\<close> gives Ann Lee when the random source
  \<open>demo_rander\<close> stands at byte \<open>k\<close>.
\<close>

definition name_at :: "nat \<Rightarrow> string" where
  "name_at k = fst (generateUsername ''Ann'' ''Lee'' ''ann@example.com'' (demo_rander\<lparr>pos := k\<rparr>))"

text \<open>
  A random source that differs from \<open>demo_rander\<close> in one bit of byte 22, which is
  byte 6 of the UUID read from byte 16 on.
\<close>

definition alt_rander :: rander where
  "alt_rander =
     \<lparr>src = (\<lambda>i. if i = 22 then src demo_rander 22 XOR 0x80 else src demo_rander i), pos = 0\<rparr>"

definition alt_world :: "memstore world" where
  "alt_world = demo_world\<lparr>rand := alt_rander\<rparr>"

section \<open>Hexadecimal digits and UUID strings\<close>

lemma hextable_alnum: "n < 16 \<Longrightarrow> isLowerAlnum (hextable ! n)"
proof -
  have "list_all isLowerAlnum hextable"
    by (simp add: hextable_def isLowerAlnum_def)
  moreover have "length hextable = 16" by (simp add: hextable_def)
  ultimately show "n < 16 \<Longrightarrow> isLowerAlnum (hextable ! n)"
    by (simp add: list_all_length)
qed

lemma high_nibble: "unat (drop_bit 4 (b :: byte)) < 16"
proof -
  have "unat (drop_bit 4 b) = drop_bit 4 (unat b)" by (rule unat_drop_bit_eq)
  also have "\<dots> = unat b div 2 ^ 4" by (rule drop_bit_eq_div)
  finally have "unat (drop_bit 4 b) = unat b div 16" by simp
  moreover have "unat b < 2 ^ 8" using unsigned_less [of b] by simp
  ultimately show ?thesis by simp
qed

lemma low_nibble: "unat ((b :: byte) AND 0x0f) < 16"
proof -
  have "unat (b AND 0x0f) \<le> unat (0x0f :: byte)"
    by (rule word_and_le1 [THEN word_le_nat_alt [THEN iffD1]])
  then show ?thesis by simp
qed

lemma hex_byte_length: "length (hex_byte b) = 2"
  by (simp add: hex_byte_def)

lemma hex_byte_alnum: "list_all isLowerAlnum (hex_byte b)"
  by (simp add: hex_byte_def hextable_alnum high_nibble low_nibble)

lemma EncodeToString_length: "length (EncodeToString bs) = 2 * length bs"
  by (induction bs) (simp_all add: EncodeToString_def hex_byte_length)

lemma EncodeToString_alnum: "list_all isLowerAlnum (EncodeToString bs)"
  by (induction bs) (simp_all add: EncodeToString_def hex_byte_alnum)

lemma EncodeToString_append: "EncodeToString (xs @ ys) = EncodeToString xs @ EncodeToString ys"
  by (simp add: EncodeToString_def)

lemma uuid_New_length: "length (fst (uuid_New r)) = 16"
  by (simp add: uuid_New_def Let_def)

lemma uuid_New_pos: "pos (snd (uuid_New r)) = pos r + 16" "src (snd (uuid_New r)) = src r"
  by (simp_all add: uuid_New_def Let_def)

lemma uuid_String_length: "length u = 16 \<Longrightarrow> length (uuid_String u) = 36"
  by (simp add: uuid_String_def EncodeToString_length)

lemma uuid_String_take6: "length u = 16 \<Longrightarrow> take 6 (uuid_String u) = EncodeToString (take 3 u)"
proof -
  assume len: "length u = 16"
  have "take 4 u = take 3 u @ take 1 (drop 3 u)"
    by (metis add_One_commute numeral_plus_one semiring_norm(2) semiring_norm(8) take_add)
  then have "EncodeToString (take 4 u) = EncodeToString (take 3 u) @ EncodeToString (take 1 (drop 3 u))"
    by (simp add: EncodeToString_append)
  moreover have "length (EncodeToString (take 3 u)) = 6"
    using len by (simp add: EncodeToString_length)
  ultimately show ?thesis by (simp add: uuid_String_def)
qed

lemma uuid_String_take12:
  "length u = 16 \<Longrightarrow>
   take 12 (uuid_String u) = EncodeToString (take 4 u) @ ''-'' @ take 3 (EncodeToString (take 2 (drop 4 u)))"
  by (simp add: uuid_String_def EncodeToString_length)

lemma uuid_String_dash: "length u = 16 \<Longrightarrow> uuid_String u ! 8 = CHR ''-''"
  by (simp add: uuid_String_def EncodeToString_length nth_append)


lemma ReplaceAllString_empty_alnum: "list_all isLowerAlnum (ReplaceAllString_empty s)"
  by (simp add: ReplaceAllString_empty_def usernameNonAlnum_def list_all_iff)

lemma username_base_alnum: "list_all isLowerAlnum (username_base f l e)"
  by (simp add: username_base_def Let_def ReplaceAllString_empty_alnum)

section \<open>The username allocator\<close>

lemma generateUsername_eq:
  "generateUsername f l e r =
     (if username_base f l e = [] then take 12 (uuid_String (fst (uuid_New r)))
      else take 20 (username_base f l e) @ take 6 (uuid_String (fst (uuid_New r))),
      snd (uuid_New r))"
  by (simp add: generateUsername_def username_base_def Let_def split_beta)

lemma suffix_shape:
  "length (take 6 (uuid_String (fst (uuid_New r)))) = 6 \<and>
   list_all isLowerAlnum (take 6 (uuid_String (fst (uuid_New r))))"
  by (simp add: uuid_String_take6 uuid_New_length EncodeToString_length EncodeToString_alnum)

lemma ToLower_AnnLee: "ToLower ''Ann.Lee'' = ''ann.lee''"
  by (simp add: lowerASCII_def)

lemma ann_lee_base: "username_base ''Ann'' ''Lee'' e = ''annlee''"
  by (simp add: username_base_def ToLower_AnnLee TrimSpace_def ReplaceAllString_empty_def
      usernameNonAlnum_def isLowerAlnum_def isSpaceASCII_def Let_def del: ToLower.simps)

text \<open>White space is outside \<open>[a-z0-9]\<close>, so trimming it changes nothing once the string is stripped.\<close>

lemma filter_dropWhile_disjoint:
  "(\<And>c. Q c \<Longrightarrow> \<not> P c) \<Longrightarrow> filter P (dropWhile Q s) = filter P s"
  by (induction s) auto

lemma space_not_alnum: "isSpaceASCII c \<Longrightarrow> \<not> isLowerAlnum c"
  by (auto simp: isSpaceASCII_def isLowerAlnum_def)

lemma strip_TrimSpace: "ReplaceAllString_empty (TrimSpace s) = filter isLowerAlnum s"
proof -
  have "filter isLowerAlnum (rev (dropWhile isSpaceASCII (rev (dropWhile isSpaceASCII s))))
        = rev (filter isLowerAlnum (dropWhile isSpaceASCII (rev (dropWhile isSpaceASCII s))))"
    by (simp add: rev_filter)
  also have "\<dots> = rev (filter isLowerAlnum (rev (dropWhile isSpaceASCII s)))"
    by (simp add: filter_dropWhile_disjoint space_not_alnum)
  also have "\<dots> = filter isLowerAlnum (dropWhile isSpaceASCII s)"
    by (simp add: rev_filter)
  also have "\<dots> = filter isLowerAlnum s"
    by (simp add: filter_dropWhile_disjoint space_not_alnum)
  finally show ?thesis
    by (simp add: ReplaceAllString_empty_def TrimSpace_def usernameNonAlnum_def)
qed

lemma username_base_eq:
  "username_base f l e =
     (if filter isLowerAlnum (ToLower (f @ ''.'' @ l)) = []
      then filter isLowerAlnum (ToLower (Split_at_0 e))
      else filter isLowerAlnum (ToLower (f @ ''.'' @ l)))"
  unfolding username_base_def strip_TrimSpace
  by (simp add: Let_def ReplaceAllString_empty_def usernameNonAlnum_def del: ToLower.simps)

text \<open>
  Claim C4, as the code has it. With \<open>b1\<close> the lower-cased \<open>first.last\<close> stripped to
  \<open>[a-z0-9]\<close> and \<open>b2\<close> the lower-cased local part of the email stripped likewise: when
  \<open>b1\<close> is not empty the username is \<open>b1\<close> cut to 20 characters followed by the first six
  characters of a fresh UUID string; when \<open>b1\<close> is empty and \<open>b2\<close> is not, the same with
  \<open>b2\<close>; the six characters are in \<open>[a-z0-9]\<close>, and so is the whole username, of at
  most 26 characters. When both are empty the username is the first twelve characters of
  a fresh UUID string, whose ninth is a hyphen: nothing is cut and nothing is appended.
  For Ann Lee the username is \<open>annlee\<close> followed by six characters of \<open>[a-z0-9]\<close>,
  whatever the email and the random source.
\<close>

theorem generateUsername_shape:
  "(filter isLowerAlnum (ToLower (f @ ''.'' @ l)) \<noteq> [] \<longrightarrow>
      fst (generateUsername f l e r) =
        take 20 (filter isLowerAlnum (ToLower (f @ ''.'' @ l))) @ take 6 (uuid_String (fst (uuid_New r))))
   \<and> (filter isLowerAlnum (ToLower (f @ ''.'' @ l)) = [] \<and>
        filter isLowerAlnum (ToLower (Split_at_0 e)) \<noteq> [] \<longrightarrow>
      fst (generateUsername f l e r) =
        take 20 (filter isLowerAlnum (ToLower (Split_at_0 e))) @ take 6 (uuid_String (fst (uuid_New r))))
   \<and> (filter isLowerAlnum (ToLower (f @ ''.'' @ l)) \<noteq> [] \<or>
        filter isLowerAlnum (ToLower (Split_at_0 e)) \<noteq> [] \<longrightarrow>
      list_all isLowerAlnum (fst (generateUsername f l e r)) \<and>
      length (fst (generateUsername f l e r)) \<le> 26)
   \<and> length (take 6 (uuid_String (fst (uuid_New r)))) = 6
   \<and> list_all isLowerAlnum (take 6 (uuid_String (fst (uuid_New r))))
   \<and> (filter isLowerAlnum (ToLower (f @ ''.'' @ l)) = [] \<and>
        filter isLowerAlnum (ToLower (Split_at_0 e)) = [] \<longrightarrow>
      fst (generateUsername f l e r) = take 12 (uuid_String (fst (uuid_New r))) \<and>
      length (fst (generateUsername f l e r)) = 12 \<and>
      fst (generateUsername f l e r) ! 8 = CHR ''-'')
   \<and> (\<exists>sfx. fst (generateUsername ''Ann'' ''Lee'' e r) = ''annlee'' @ sfx \<and>
          length sfx = 6 \<and> list_all isLowerAlnum sfx)
   \<and> snd (generateUsername f l e r) = snd (uuid_New r)"
proof -
  let ?b1 = "filter isLowerAlnum (ToLower (f @ ''.'' @ l))"
  let ?b2 = "filter isLowerAlnum (ToLower (Split_at_0 e))"
  let ?u = "uuid_String (fst (uuid_New r))"
  have len: "length (fst (uuid_New r)) = 16" by (rule uuid_New_length)
  have sfx: "length (take 6 ?u) = 6" "list_all isLowerAlnum (take 6 ?u)"
    using suffix_shape [of r] by simp_all
  have base: "list_all isLowerAlnum (username_base f l e)"
    by (rule username_base_alnum)
  have c1: "?b1 \<noteq> [] \<longrightarrow> fst (generateUsername f l e r) = take 20 ?b1 @ take 6 ?u"
    by (simp add: generateUsername_eq username_base_eq del: ToLower.simps)
  have c2: "?b1 = [] \<and> ?b2 \<noteq> [] \<longrightarrow> fst (generateUsername f l e r) = take 20 ?b2 @ take 6 ?u"
    by (simp add: generateUsername_eq username_base_eq del: ToLower.simps)
  have c3: "?b1 \<noteq> [] \<or> ?b2 \<noteq> [] \<longrightarrow>
      list_all isLowerAlnum (fst (generateUsername f l e r)) \<and>
      length (fst (generateUsername f l e r)) \<le> 26"
  proof
    assume ne: "?b1 \<noteq> [] \<or> ?b2 \<noteq> []"
    then have nb: "username_base f l e \<noteq> []"
      by (auto simp: username_base_eq simp del: ToLower.simps)
    then have eq: "fst (generateUsername f l e r) = take 20 (username_base f l e) @ take 6 ?u"
      by (simp add: generateUsername_eq)
    have "list_all isLowerAlnum (take 20 (username_base f l e))"
      using base by (auto simp: list_all_iff dest: in_set_takeD)
    with sfx eq show "list_all isLowerAlnum (fst (generateUsername f l e r)) \<and>
      length (fst (generateUsername f l e r)) \<le> 26"
      by simp
  qed
  have c4: "?b1 = [] \<and> ?b2 = [] \<longrightarrow>
      fst (generateUsername f l e r) = take 12 ?u \<and>
      length (fst (generateUsername f l e r)) = 12 \<and>
      fst (generateUsername f l e r) ! 8 = CHR ''-''"
    using len
    by (simp add: generateUsername_eq username_base_eq uuid_String_length uuid_String_dash
        del: ToLower.simps)
  have c5: "\<exists>sfx. fst (generateUsername ''Ann'' ''Lee'' e r) = ''annlee'' @ sfx \<and>
          length sfx = 6 \<and> list_all isLowerAlnum sfx"
    using sfx by (simp add: generateUsername_eq ann_lee_base)
  have c6: "snd (generateUsername f l e r) = snd (uuid_New r)"
    by (simp add: generateUsername_eq)
  from c1 c2 c3 c4 c5 c6 sfx show ?thesis by blast
qed

theorem generateUsername_shape_witness:
  "filter isLowerAlnum (ToLower (''Ann'' @ ''.'' @ ''Lee'')) \<noteq> [] \<and>
   fst (generateUsername ''Ann'' ''Lee'' ''ann@example.com'' demo_rander) =
     ''annlee'' @ take 6 (uuid_String (fst (uuid_New demo_rander))) \<and>
   filter isLowerAlnum (ToLower (''-'' @ ''.'' @ ''-'')) = [] \<and>
   filter isLowerAlnum (ToLower (Split_at_0 ''ann@example.com'')) \<noteq> [] \<and>
   fst (generateUsername ''-'' ''-'' ''ann@example.com'' demo_rander) =
     ''ann'' @ take 6 (uuid_String (fst (uuid_New demo_rander))) \<and>
   filter isLowerAlnum (ToLower (Split_at_0 ''_@example.com'')) = [] \<and>
   fst (generateUsername ''-'' ''-'' ''_@example.com'' demo_rander) =
     take 12 (uuid_String (fst (uuid_New demo_rander)))"
proof -
  have a: "filter isLowerAlnum (ToLower (''Ann'' @ ''.'' @ ''Lee'')) = ''annlee''"
    by (simp add: isLowerAlnum_def lowerASCII_def)
  have b: "filter isLowerAlnum (ToLower (''-'' @ ''.'' @ ''-'')) = []"
    by (simp add: isLowerAlnum_def lowerASCII_def)
  have c: "filter isLowerAlnum (ToLower (Split_at_0 ''ann@example.com'')) = ''ann''"
    by (simp add: isLowerAlnum_def lowerASCII_def Split_at_0_def)
  have d: "filter isLowerAlnum (ToLower (Split_at_0 ''_@example.com'')) = []"
    by (simp add: isLowerAlnum_def lowerASCII_def Split_at_0_def)
  note t1 = generateUsername_shape [of "''Ann''" "''Lee''" "''ann@example.com''" demo_rander]
  note t2 = generateUsername_shape [of "''-''" "''-''" "''ann@example.com''" demo_rander]
  note t3 = generateUsername_shape [of "''-''" "''-''" "''_@example.com''" demo_rander]
  have e1: "fst (generateUsername ''Ann'' ''Lee'' ''ann@example.com'' demo_rander) =
     ''annlee'' @ take 6 (uuid_String (fst (uuid_New demo_rander)))"
    using t1 [THEN conjunct1] a by (simp del: ToLower.simps)
  have e2: "fst (generateUsername ''-'' ''-'' ''ann@example.com'' demo_rander) =
     ''ann'' @ take 6 (uuid_String (fst (uuid_New demo_rander)))"
    using t2 [THEN conjunct2, THEN conjunct1] b c by (simp del: ToLower.simps)
  have e3: "fst (generateUsername ''-'' ''-'' ''_@example.com'' demo_rander) =
     take 12 (uuid_String (fst (uuid_New demo_rander)))"
    using t3 [THEN conjunct2, THEN conjunct2, THEN conjunct2, THEN conjunct2, THEN conjunct2, THEN conjunct1] b d
    by (simp del: ToLower.simps)
  from a b c d e1 e2 e3 show ?thesis by (simp del: ToLower.simps)
qed

text \<open>
  Claim C4 as it is worded fails where both bases are empty: for first name \<open>-\<close>, last
  name \<open>-\<close> and email \<open>_@example.com\<close> the username is twelve characters of one UUID
  string, and the six characters where an appended suffix would stand hold a hyphen.
\<close>

theorem generateUsername_fallback_counterexample:
  "fst (generateUsername ''-'' ''-'' ''_@example.com'' demo_rander) = ''0b30557a-9fc'' \<and>
   \<not> list_all isLowerAlnum (drop 6 ''0b30557a-9fc'')"
proof -
  have "fst (generateUsername ''-'' ''-'' ''_@example.com'' demo_rander) = ''0b30557a-9fc''"
    by code_simp
  moreover have "\<not> list_all isLowerAlnum (drop 6 ''0b30557a-9fc'')"
    by (simp add: isLowerAlnum_def)
  ultimately show ?thesis by simp
qed

section \<open>Validation\<close>

lemma Validate_Struct_register:
  "Validate_Struct lib RegisterUserPayload_tags (RegisterUserPayload_get p) = None \<longleftrightarrow>
     reg_FirstName p \<noteq> [] \<and> RuneCountInString (reg_FirstName p) \<le> 100 \<and>
     reg_LastName p \<noteq> [] \<and> RuneCountInString (reg_LastName p) \<le> 100 \<and>
     reg_Country p \<noteq> [] \<and> RuneCountInString (reg_Country p) \<le> 100 \<and>
     reg_Email p \<noteq> [] \<and> isEmail lib (reg_Email p) \<and> RuneCountInString (reg_Email p) \<le> 255 \<and>
     reg_Password p \<noteq> [] \<and> 3 \<le> RuneCountInString (reg_Password p) \<and>
     RuneCountInString (reg_Password p) \<le> 72 \<and>
     reg_PasswordConfirmation p \<noteq> [] \<and> reg_PasswordConfirmation p = reg_Password p \<and>
     (reg_Username p = [] \<or> RuneCountInString (reg_Username p) \<le> 100)"
  by (simp add: Validate_Struct_def RegisterUserPayload_tags_def RegisterUserPayload_get_def
      List.map_filter_simps Let_def)

lemma Validate_Struct_token:
  "Validate_Struct lib CreateUserTokenPayload_tags (CreateUserTokenPayload_get p) = None \<longleftrightarrow>
     tok_Email p \<noteq> [] \<and> isEmail lib (tok_Email p) \<and> RuneCountInString (tok_Email p) \<le> 255 \<and>
     tok_Password p \<noteq> [] \<and> 3 \<le> RuneCountInString (tok_Password p) \<and>
     RuneCountInString (tok_Password p) \<le> 72"
  by (simp add: Validate_Struct_def CreateUserTokenPayload_tags_def CreateUserTokenPayload_get_def
      List.map_filter_simps Let_def)

lemma RuneCount_abc: "RuneCountInString ''abc'' = 3"
  by (simp add: RuneCountInString_def runes_def DecodeRune.simps)

lemma validatePassword_short: "length v < 8 \<Longrightarrow> \<not> validatePassword lib v"
  by (simp add: validatePassword_def split: prod.splits)

text \<open>
  Claim C8. The registration payload is accepted exactly when each field passes its own
  tags; for the password these are \<open>required\<close>, \<open>min=3\<close> and \<open>max=72\<close>, counted in
  runes, and the confirmation has to be equal to it. So a payload that is accepted stays
  accepted when password and confirmation are both replaced by \<open>abc\<close>, although
  \<open>validatePassword\<close>, the stricter rule registered under the name \<open>password\<close>, rejects
  \<open>abc\<close>: no field of the payload carries that tag.
\<close>

theorem register_password_rule:
  "(Validate_Struct lib RegisterUserPayload_tags (RegisterUserPayload_get p) = None \<longleftrightarrow>
      reg_FirstName p \<noteq> [] \<and> RuneCountInString (reg_FirstName p) \<le> 100 \<and>
      reg_LastName p \<noteq> [] \<and> RuneCountInString (reg_LastName p) \<le> 100 \<and>
      reg_Country p \<noteq> [] \<and> RuneCountInString (reg_Country p) \<le> 100 \<and>
      reg_Email p \<noteq> [] \<and> isEmail lib (reg_Email p) \<and> RuneCountInString (reg_Email p) \<le> 255 \<and>
      reg_Password p \<noteq> [] \<and> 3 \<le> RuneCountInString (reg_Password p) \<and>
      RuneCountInString (reg_Password p) \<le> 72 \<and>
      reg_PasswordConfirmation p \<noteq> [] \<and> reg_PasswordConfirmation p = reg_Password p \<and>
      (reg_Username p = [] \<or> RuneCountInString (reg_Username p) \<le> 100))
   \<and> (Validate_Struct lib RegisterUserPayload_tags (RegisterUserPayload_get p) = None \<longrightarrow>
        Validate_Struct lib RegisterUserPayload_tags
          (RegisterUserPayload_get (p\<lparr>reg_Password := ''abc'', reg_PasswordConfirmation := ''abc''\<rparr>))
          = None)
   \<and> \<not> validatePassword lib ''abc''"
proof -
  have "\<not> validatePassword lib ''abc''"
    by (rule validatePassword_short) simp
  then show ?thesis
    unfolding Validate_Struct_register by (simp add: RuneCount_abc)
qed

theorem register_password_rule_witness:
  "Validate_Struct demo_lib RegisterUserPayload_tags (RegisterUserPayload_get demo_payload) = None \<and>
   reg_Password demo_payload = ''abc'' \<and>
   \<not> validatePassword demo_lib (reg_Password demo_payload)"
proof -
  have ok: "Validate_Struct demo_lib RegisterUserPayload_tags (RegisterUserPayload_get demo_payload) = None"
    unfolding Validate_Struct_register
    by (simp add: demo_payload_def demo_lib_def RuneCountInString_def runes_def DecodeRune.simps)
  have pw: "demo_payload\<lparr>reg_Password := ''abc'', reg_PasswordConfirmation := ''abc''\<rparr> = demo_payload"
    by (simp add: demo_payload_def)
  from register_password_rule [of demo_lib demo_payload] ok pw show ?thesis
    by (simp add: demo_payload_def)
qed

section \<open>The JSON reader\<close>

lemma decode_members_unknown:
  "(k, v) \<in> set ms \<Longrightarrow> find_field lib flds k = None \<Longrightarrow>
   \<exists>err. decode_members lib flds ms acc = Inl err"
proof (induction ms arbitrary: acc)
  case Nil
  then show ?case by simp
next
  case (Cons m ms)
  obtain k' v' where m: "m = (k', v')" by (cases m)
  show ?case
  proof (cases "find_field lib flds k'")
    case None
    then show ?thesis by (simp add: m)
  next
    case (Some f)
    then have "(k, v) \<in> set ms" using Cons.prems m by auto
    then have ih: "\<And>acc. \<exists>err. decode_members lib flds ms acc = Inl err"
      using Cons.IH Cons.prems(2) by blast
    show ?thesis using ih Some by (cases v') (simp_all add: m)
  qed
qed

lemma decode_members_error_kind:
  "decode_members lib flds ms acc = Inl err \<Longrightarrow> (\<exists>k. err = ErrUnknownField k) \<or> (\<exists>f. err = ErrUnmarshalType f)"
proof (induction ms arbitrary: acc)
  case Nil
  then show ?case by simp
next
  case (Cons m ms)
  obtain k' v' where m: "m = (k', v')" by (cases m)
  show ?case
  proof (cases "find_field lib flds k'")
    case None
    then show ?thesis using Cons.prems by (auto simp: m)
  next
    case (Some f)
    then show ?thesis using Cons.prems Cons.IH by (cases v') (auto simp: m)
  qed
qed

lemma readJSON_rejects:
  assumes "maxBytes < json_len body \<or>
     (\<exists>ms k v. json_value body = Some (JObject ms) \<and> (k, v) \<in> set ms \<and> find_field lib flds k = None)"
  shows "\<exists>err. readJSON lib flds body = Inl err \<and> (\<forall>es. err \<noteq> ValidationErrors es)"
proof (cases "maxBytes < json_len body")
  case True
  then show ?thesis by (simp add: readJSON_def)
next
  case False
  with assms obtain ms k v where b: "json_value body = Some (JObject ms)" "(k, v) \<in> set ms"
    "find_field lib flds k = None" by blast
  from decode_members_unknown [OF b(2,3)] obtain err where
    e: "decode_members lib flds ms Map.empty = Inl err" by blast
  from decode_members_error_kind [OF e] have "\<forall>es. err \<noteq> ValidationErrors es" by auto
  with e b False show ?thesis by (simp add: readJSON_def Decode_def)
qed

text \<open>
  Claim C10. The reader's limit is 1,048,578 bytes. When the decoder would have to read
  past the limit to finish the JSON value, or when the JSON object has a member whose
  key names no field of the payload struct, \<open>readJSON\<close> fails with an error of its own
  (not a validation error), and either handler answers with \<open>badRequestResponse\<close> of that
  error and does nothing else: the world is the one before the request with that single
  response added, so the store is the same and no collaborator has been called.
\<close>

theorem readJSON_rejection_is_bad_request:
  "maxBytes = 1048578 \<and>
   (maxBytes < json_len body \<or>
      (\<exists>ms k v. json_value body = Some (JObject ms) \<and> (k, v) \<in> set ms \<and>
         find_field lib RegisterUserPayload_json k = None) \<longrightarrow>
    (\<exists>err. readJSON lib RegisterUserPayload_json body = Inl err \<and>
       (\<forall>es. err \<noteq> ValidationErrors es) \<and>
       registerUserHandler lib app body w = w\<lparr>trace := trace w @ [Respond (badRequestResponse err)]\<rparr> \<and>
       status_of (badRequestResponse err) = 400)) \<and>
   (maxBytes < json_len body \<or>
      (\<exists>ms k v. json_value body = Some (JObject ms) \<and> (k, v) \<in> set ms \<and>
         find_field lib CreateUserTokenPayload_json k = None) \<longrightarrow>
    (\<exists>err. readJSON lib CreateUserTokenPayload_json body = Inl err \<and>
       (\<forall>es. err \<noteq> ValidationErrors es) \<and>
       createTokenHandler lib app body w = w\<lparr>trace := trace w @ [Respond (badRequestResponse err)]\<rparr> \<and>
       status_of (badRequestResponse err) = 400))"
proof (intro conjI impI)
  show "maxBytes = 1048578" by (simp add: maxBytes_def)
next
  assume "maxBytes < json_len body \<or>
      (\<exists>ms k v. json_value body = Some (JObject ms) \<and> (k, v) \<in> set ms \<and>
         find_field lib RegisterUserPayload_json k = None)"
  from readJSON_rejects [OF this] obtain err where
    e: "readJSON lib RegisterUserPayload_json body = Inl err" "\<forall>es. err \<noteq> ValidationErrors es"
    by blast
  have "registerUserHandler lib app body w = w\<lparr>trace := trace w @ [Respond (badRequestResponse err)]\<rparr>"
    by (simp add: registerUserHandler_def e respond_def emit_def)
  with e show "\<exists>err. readJSON lib RegisterUserPayload_json body = Inl err \<and>
       (\<forall>es. err \<noteq> ValidationErrors es) \<and>
       registerUserHandler lib app body w = w\<lparr>trace := trace w @ [Respond (badRequestResponse err)]\<rparr> \<and>
       status_of (badRequestResponse err) = 400"
    by simp
next
  assume "maxBytes < json_len body \<or>
      (\<exists>ms k v. json_value body = Some (JObject ms) \<and> (k, v) \<in> set ms \<and>
         find_field lib CreateUserTokenPayload_json k = None)"
  from readJSON_rejects [OF this] obtain err where
    e: "readJSON lib CreateUserTokenPayload_json body = Inl err" "\<forall>es. err \<noteq> ValidationErrors es"
    by blast
  have "createTokenHandler lib app body w = w\<lparr>trace := trace w @ [Respond (badRequestResponse err)]\<rparr>"
    by (simp add: createTokenHandler_def e respond_def emit_def)
  with e show "\<exists>err. readJSON lib CreateUserTokenPayload_json body = Inl err \<and>
       (\<forall>es. err \<noteq> ValidationErrors es) \<and>
       createTokenHandler lib app body w = w\<lparr>trace := trace w @ [Respond (badRequestResponse err)]\<rparr> \<and>
       status_of (badRequestResponse err) = 400"
    by simp
qed

lemma find_role_register: "find_field demo_lib RegisterUserPayload_json ''role'' = None"
  by (simp add: find_field_def RegisterUserPayload_json_def demo_lib_def lowerASCII_def)

lemma find_role_token: "find_field demo_lib CreateUserTokenPayload_json ''role'' = None"
  by (simp add: find_field_def CreateUserTokenPayload_json_def demo_lib_def lowerASCII_def)

theorem readJSON_rejection_witness:
  "maxBytes < json_len oversized_body \<and>
   registerUserHandler demo_lib demo_app oversized_body demo_world =
     demo_world\<lparr>trace := [Respond (badRequestResponse ErrBodyTooLarge)]\<rparr> \<and>
   createTokenHandler demo_lib demo_app oversized_body demo_world =
     demo_world\<lparr>trace := [Respond (badRequestResponse ErrBodyTooLarge)]\<rparr> \<and>
   json_value unknown_field_body =
     Some (JObject [(''email'', JString ''ann@example.com''), (''role'', JString ''admin'')]) \<and>
   find_field demo_lib RegisterUserPayload_json ''role'' = None \<and>
   find_field demo_lib CreateUserTokenPayload_json ''role'' = None \<and>
   registerUserHandler demo_lib demo_app unknown_field_body demo_world =
     demo_world\<lparr>trace := [Respond (badRequestResponse (ErrUnknownField ''role''))]\<rparr> \<and>
   createTokenHandler demo_lib demo_app unknown_field_body demo_world =
     demo_world\<lparr>trace := [Respond (badRequestResponse (ErrUnknownField ''role''))]\<rparr>"
proof -
  have big: "maxBytes < json_len oversized_body"
    by (simp add: maxBytes_def oversized_body_def)
  have r1: "readJSON demo_lib RegisterUserPayload_json oversized_body = Inl ErrBodyTooLarge"
    "readJSON demo_lib CreateUserTokenPayload_json oversized_body = Inl ErrBodyTooLarge"
    using big by (simp_all add: readJSON_def)
  have u: "json_value unknown_field_body =
     Some (JObject [(''email'', JString ''ann@example.com''), (''role'', JString ''admin'')])"
    by (simp add: unknown_field_body_def)
  have fe: "find_field demo_lib RegisterUserPayload_json ''email'' = Some ''email''"
    "find_field demo_lib CreateUserTokenPayload_json ''email'' = Some ''email''"
    by (simp_all add: find_field_def RegisterUserPayload_json_def CreateUserTokenPayload_json_def)
  have r2: "readJSON demo_lib RegisterUserPayload_json unknown_field_body = Inl (ErrUnknownField ''role'')"
    "readJSON demo_lib CreateUserTokenPayload_json unknown_field_body = Inl (ErrUnknownField ''role'')"
    by (simp_all add: readJSON_def Decode_def u fe find_role_register find_role_token
        unknown_field_body_def maxBytes_def)
  have t0: "trace demo_world = []" by (simp add: demo_world_def)
  note a = readJSON_rejection_is_bad_request [of oversized_body demo_lib demo_app demo_world]
  note b = readJSON_rejection_is_bad_request [of unknown_field_body demo_lib demo_app demo_world]
  have m1: "(''role'', JString ''admin'') \<in> set [(''email'', JString ''ann@example.com''), (''role'', JString ''admin'')]"
    by simp
  have hb1: "\<exists>ms k v. json_value unknown_field_body = Some (JObject ms) \<and> (k, v) \<in> set ms \<and>
         find_field demo_lib RegisterUserPayload_json k = None"
    using u m1 find_role_register by blast
  have hb2: "\<exists>ms k v. json_value unknown_field_body = Some (JObject ms) \<and> (k, v) \<in> set ms \<and>
         find_field demo_lib CreateUserTokenPayload_json k = None"
    using u m1 find_role_token by blast
  from a big r1 t0 have A:
    "registerUserHandler demo_lib demo_app oversized_body demo_world =
       demo_world\<lparr>trace := [Respond (badRequestResponse ErrBodyTooLarge)]\<rparr>"
    "createTokenHandler demo_lib demo_app oversized_body demo_world =
       demo_world\<lparr>trace := [Respond (badRequestResponse ErrBodyTooLarge)]\<rparr>"
    by auto
  from b hb1 hb2 r2 t0 have B:
    "registerUserHandler demo_lib demo_app unknown_field_body demo_world =
       demo_world\<lparr>trace := [Respond (badRequestResponse (ErrUnknownField ''role''))]\<rparr>"
    "createTokenHandler demo_lib demo_app unknown_field_body demo_world =
       demo_world\<lparr>trace := [Respond (badRequestResponse (ErrUnknownField ''role''))]\<rparr>"
    by auto
  from big u find_role_register find_role_token A B show ?thesis by simp
qed

section \<open>Login\<close>

lemma mint_claims_eq:
  "mint_claims app user w =
     (Map.empty(''sub'' \<mapsto> IntClaim (ID user),
        ''exp'' \<mapsto> IntClaim (Unix (now_at (clk w) (reads (clk w)) + auth_token_exp (config app))),
        ''iat'' \<mapsto> IntClaim (Unix (now_at (clk w) (reads (clk w) + 1))),
        ''nbf'' \<mapsto> IntClaim (Unix (now_at (clk w) (reads (clk w) + 2))),
        ''iss'' \<mapsto> StrClaim (auth_token_iss (config app)),
        ''aud'' \<mapsto> StrClaim (auth_token_iss (config app))),
      w\<lparr>clk := (clk w)\<lparr>reads := reads (clk w) + 3\<rparr>\<rparr>)"
  by (simp add: mint_claims_def time_Now_def Let_def numeral_3_eq_3 add.commute)

lemma createTokenHandler_valid:
  assumes "readJSON lib CreateUserTokenPayload_json body = Inr m"
    and "Validate_Struct lib CreateUserTokenPayload_tags
           (CreateUserTokenPayload_get (CreateUserTokenPayload_of m)) = None"
  shows "createTokenHandler lib app body w = issue_token lib app (CreateUserTokenPayload_of m) w"
  using assms by (simp add: createTokenHandler_def Let_def)

lemma RuneCount_ann_email: "RuneCountInString ''ann@example.com'' = 15"
  by (simp add: RuneCountInString_def runes_def DecodeRune.simps)

lemma RuneCount_xyz: "RuneCountInString ''xyz'' = 3"
  by (simp add: RuneCountInString_def runes_def DecodeRune.simps)

lemma find_token_fields:
  "find_field lib CreateUserTokenPayload_json ''email'' = Some ''email''"
  "find_field lib CreateUserTokenPayload_json ''password'' = Some ''password''"
  by (simp_all add: find_field_def CreateUserTokenPayload_json_def)

lemma read_login_body:
  "readJSON demo_lib CreateUserTokenPayload_json login_body =
     Inr (Map.empty(''email'' \<mapsto> ''ann@example.com'', ''password'' \<mapsto> ''abc''))"
  by (simp add: readJSON_def Decode_def login_body_def maxBytes_def find_token_fields)

lemma read_wrong_password_body:
  "readJSON demo_lib CreateUserTokenPayload_json wrong_password_body =
     Inr (Map.empty(''email'' \<mapsto> ''ann@example.com'', ''password'' \<mapsto> ''xyz''))"
  by (simp add: readJSON_def Decode_def wrong_password_body_def maxBytes_def find_token_fields)

lemma login_payload:
  "CreateUserTokenPayload_of (Map.empty(''email'' \<mapsto> ''ann@example.com'', ''password'' \<mapsto> pw)) =
     \<lparr>tok_Email = ''ann@example.com'', tok_Password = pw\<rparr>"
  by (simp add: CreateUserTokenPayload_of_def str_or_empty_def)

lemma login_payload_valid:
  "RuneCountInString pw = 3 \<Longrightarrow>
   Validate_Struct demo_lib CreateUserTokenPayload_tags
     (CreateUserTokenPayload_get \<lparr>tok_Email = ''ann@example.com'', tok_Password = pw\<rparr>) = None"
  unfolding Validate_Struct_token
  by (auto simp: RuneCount_ann_email demo_lib_def RuneCountInString_def [of "[]"] runes_def)

text \<open>
  Claim C6. Take two login requests that pass the reader and the validation, one whose
  lookup finds no account (\<open>ErrNotFound\<close>) and one whose lookup finds the account but
  whose password comparison fails. Each makes the one call of \<open>GetByEmail\<close>, answers
  with \<open>unauthorizedErrorResponse\<close> and does nothing else. The helper is handed
  \<open>ErrNotFound\<close> in the first and the comparison's error in the second; with the helper
  as the spec describes it, what the two callers receive is the same single Unauthorized
  reply.
\<close>

theorem login_failures_same_reply:
  assumes "readJSON lib CreateUserTokenPayload_json body1 = Inr m1"
    and "Validate_Struct lib CreateUserTokenPayload_tags
           (CreateUserTokenPayload_get (CreateUserTokenPayload_of m1)) = None"
    and "GetByEmail app (store w1) (tok_Email (CreateUserTokenPayload_of m1)) = Inl ErrNotFound"
    and "readJSON lib CreateUserTokenPayload_json body2 = Inr m2"
    and "Validate_Struct lib CreateUserTokenPayload_tags
           (CreateUserTokenPayload_get (CreateUserTokenPayload_of m2)) = None"
    and "GetByEmail app (store w2) (tok_Email (CreateUserTokenPayload_of m2)) = Inr user"
    and "password_Compare lib (Password user) (tok_Password (CreateUserTokenPayload_of m2)) = Some err"
  shows "createTokenHandler lib app body1 w1 =
           w1\<lparr>trace := trace w1 @
              [CallGetByEmail (tok_Email (CreateUserTokenPayload_of m1)) (Inl ErrNotFound),
               Respond (unauthorizedErrorResponse ErrNotFound)]\<rparr> \<and>
         createTokenHandler lib app body2 w2 =
           w2\<lparr>trace := trace w2 @
              [CallGetByEmail (tok_Email (CreateUserTokenPayload_of m2)) (Inr user),
               Respond (unauthorizedErrorResponse err)]\<rparr> \<and>
         replies (drop (length (trace w1)) (trace (createTokenHandler lib app body1 w1))) =
           [UnauthorizedReply] \<and>
         replies (drop (length (trace w2)) (trace (createTokenHandler lib app body2 w2))) =
           [UnauthorizedReply] \<and>
         caller_receives (unauthorizedErrorResponse ErrNotFound) =
           caller_receives (unauthorizedErrorResponse err)"
proof -
  let ?p1 = "CreateUserTokenPayload_of m1"
  let ?p2 = "CreateUserTokenPayload_of m2"
  have h1: "createTokenHandler lib app body1 w1 = issue_token lib app ?p1 w1"
    using assms(1,2) by (rule createTokenHandler_valid)
  have h2: "createTokenHandler lib app body2 w2 = issue_token lib app ?p2 w2"
    using assms(4,5) by (rule createTokenHandler_valid)
  have a: "issue_token lib app ?p1 w1 =
            w1\<lparr>trace := trace w1 @ [CallGetByEmail (tok_Email ?p1) (Inl ErrNotFound),
                 Respond (unauthorizedErrorResponse ErrNotFound)]\<rparr>"
    by (simp add: issue_token_def assms(3) Let_def respond_def emit_def)
  have b: "issue_token lib app ?p2 w2 =
            w2\<lparr>trace := trace w2 @ [CallGetByEmail (tok_Email ?p2) (Inr user),
                 Respond (unauthorizedErrorResponse err)]\<rparr>"
    by (simp add: issue_token_def assms(6,7) Let_def respond_def emit_def)
  from h1 h2 a b show ?thesis by simp
qed

theorem login_failures_same_reply_witness:
  "readJSON demo_lib CreateUserTokenPayload_json login_body =
     Inr (Map.empty(''email'' \<mapsto> ''ann@example.com'', ''password'' \<mapsto> ''abc'')) \<and>
   GetByEmail demo_app (store demo_world) ''ann@example.com'' = Inl ErrNotFound \<and>
   readJSON demo_lib CreateUserTokenPayload_json wrong_password_body =
     Inr (Map.empty(''email'' \<mapsto> ''ann@example.com'', ''password'' \<mapsto> ''xyz'')) \<and>
   GetByEmail demo_app (store ann_world) ''ann@example.com'' = Inr ann \<and>
   password_Compare demo_lib (Password ann) ''xyz'' = Some (Err ''mismatch'') \<and>
   createTokenHandler demo_lib demo_app login_body demo_world =
     demo_world\<lparr>trace := [CallGetByEmail ''ann@example.com'' (Inl ErrNotFound),
                            Respond (unauthorizedErrorResponse ErrNotFound)]\<rparr> \<and>
   createTokenHandler demo_lib demo_app wrong_password_body ann_world =
     ann_world\<lparr>trace := [CallGetByEmail ''ann@example.com'' (Inr ann),
                           Respond (unauthorizedErrorResponse (Err ''mismatch''))]\<rparr> \<and>
   replies (trace (createTokenHandler demo_lib demo_app login_body demo_world)) = [UnauthorizedReply] \<and>
   replies (trace (createTokenHandler demo_lib demo_app wrong_password_body ann_world)) =
     [UnauthorizedReply]"
proof -
  let ?m1 = "Map.empty(''email'' \<mapsto> ''ann@example.com'', ''password'' \<mapsto> ''abc'')"
  let ?m2 = "Map.empty(''email'' \<mapsto> ''ann@example.com'', ''password'' \<mapsto> ''xyz'')"
  have v1: "Validate_Struct demo_lib CreateUserTokenPayload_tags
              (CreateUserTokenPayload_get (CreateUserTokenPayload_of ?m1)) = None"
    unfolding login_payload by (rule login_payload_valid) (rule RuneCount_abc)
  have v2: "Validate_Struct demo_lib CreateUserTokenPayload_tags
              (CreateUserTokenPayload_get (CreateUserTokenPayload_of ?m2)) = None"
    unfolding login_payload by (rule login_payload_valid) (rule RuneCount_xyz)
  have g1: "GetByEmail demo_app (store demo_world) ''ann@example.com'' = Inl ErrNotFound"
    by (simp add: demo_app_def demo_world_def demo_store_def mem_GetByEmail_def)
  have g2: "GetByEmail demo_app (store ann_world) ''ann@example.com'' = Inr ann"
    by (simp add: demo_app_def ann_world_def demo_world_def demo_store_def mem_GetByEmail_def ann_def)
  have c2: "password_Compare demo_lib (Password ann) ''xyz'' = Some (Err ''mismatch'')"
    by (simp add: demo_lib_def ann_def)
  have h1: "GetByEmail demo_app (store demo_world) (tok_Email (CreateUserTokenPayload_of ?m1)) = Inl ErrNotFound"
    using g1 by (simp add: login_payload)
  have h2: "GetByEmail demo_app (store ann_world) (tok_Email (CreateUserTokenPayload_of ?m2)) = Inr ann"
    using g2 by (simp add: login_payload)
  have h3: "password_Compare demo_lib (Password ann) (tok_Password (CreateUserTokenPayload_of ?m2)) =
              Some (Err ''mismatch'')"
    using c2 by (simp add: login_payload)
  have t: "trace demo_world = []" "trace ann_world = []"
    by (simp_all add: ann_world_def demo_world_def)
  from login_failures_same_reply [OF read_login_body v1 h1 read_wrong_password_body v2 h2 h3]
  have r: "createTokenHandler demo_lib demo_app login_body demo_world =
     demo_world\<lparr>trace := [CallGetByEmail ''ann@example.com'' (Inl ErrNotFound),
                            Respond (unauthorizedErrorResponse ErrNotFound)]\<rparr>"
   "createTokenHandler demo_lib demo_app wrong_password_body ann_world =
     ann_world\<lparr>trace := [CallGetByEmail ''ann@example.com'' (Inr ann),
                           Respond (unauthorizedErrorResponse (Err ''mismatch''))]\<rparr>"
   "replies (trace (createTokenHandler demo_lib demo_app login_body demo_world)) = [UnauthorizedReply]"
   "replies (trace (createTokenHandler demo_lib demo_app wrong_password_body ann_world)) =
     [UnauthorizedReply]"
    by (simp_all add: login_payload t)
  from read_login_body read_wrong_password_body g1 g2 c2 r show ?thesis
    by (simp only: simp_thms)
qed

text \<open>
  Claim C7. For a login request whose account is found and whose password matches, the
  claim set handed to the authenticator has exactly the keys \<open>sub\<close>, \<open>exp\<close>, \<open>iat\<close>,
  \<open>nbf\<close>, \<open>iss\<close> and \<open>aud\<close>: the subject is the account's identity, issuer and audience
  are both the configured issuer, and the three times come from three successive readings
  of the clock, in the order of the map literal: the first reading plus the configured
  lifetime for \<open>exp\<close>, the second for \<open>iat\<close>, the third for \<open>nbf\<close>, each in whole
  seconds. The repository is read once, by \<open>GetByEmail\<close>, and is left as it was.
\<close>

theorem login_claims:
  assumes "readJSON lib CreateUserTokenPayload_json body = Inr m"
    and "Validate_Struct lib CreateUserTokenPayload_tags
           (CreateUserTokenPayload_get (CreateUserTokenPayload_of m)) = None"
    and "GetByEmail app (store w) (tok_Email (CreateUserTokenPayload_of m)) = Inr user"
    and "password_Compare lib (Password user) (tok_Password (CreateUserTokenPayload_of m)) = None"
  shows "\<exists>claims.
           claims ''sub'' = Some (IntClaim (ID user)) \<and>
           claims ''iat'' = Some (IntClaim (Unix (now_at (clk w) (reads (clk w) + 1)))) \<and>
           claims ''nbf'' = Some (IntClaim (Unix (now_at (clk w) (reads (clk w) + 2)))) \<and>
           claims ''exp'' =
             Some (IntClaim (Unix (now_at (clk w) (reads (clk w)) + auth_token_exp (config app)))) \<and>
           claims ''iss'' = Some (StrClaim (auth_token_iss (config app))) \<and>
           claims ''aud'' = Some (StrClaim (auth_token_iss (config app))) \<and>
           dom claims = {''sub'', ''exp'', ''iat'', ''nbf'', ''iss'', ''aud''} \<and>
           store (createTokenHandler lib app body w) = store w \<and>
           trace (createTokenHandler lib app body w) =
             trace w @
             [CallGetByEmail (tok_Email (CreateUserTokenPayload_of m)) (Inr user),
              CallGenerateToken claims (GenerateToken app claims)] @
             (case GenerateToken app claims of
                Inl err \<Rightarrow> [Respond (internalServerError err)]
              | Inr token \<Rightarrow>
                  Respond (jsonResponse StatusCreated (Token token)) #
                  (case writeJSON app of
                     Some err \<Rightarrow> [Respond (internalServerError err)]
                   | None \<Rightarrow> []))"
proof -
  let ?p = "CreateUserTokenPayload_of m"
  let ?c = "fst (mint_claims app user (emit (CallGetByEmail (tok_Email ?p) (Inr user)) w))"
  have h: "createTokenHandler lib app body w = issue_token lib app ?p w"
    using assms(1,2) by (rule createTokenHandler_valid)
  have c: "?c = Map.empty(''sub'' \<mapsto> IntClaim (ID user),
        ''exp'' \<mapsto> IntClaim (Unix (now_at (clk w) (reads (clk w)) + auth_token_exp (config app))),
        ''iat'' \<mapsto> IntClaim (Unix (now_at (clk w) (reads (clk w) + 1))),
        ''nbf'' \<mapsto> IntClaim (Unix (now_at (clk w) (reads (clk w) + 2))),
        ''iss'' \<mapsto> StrClaim (auth_token_iss (config app)),
        ''aud'' \<mapsto> StrClaim (auth_token_iss (config app)))"
    by (simp add: mint_claims_eq emit_def)
  have vals: "?c ''sub'' = Some (IntClaim (ID user))"
    "?c ''iat'' = Some (IntClaim (Unix (now_at (clk w) (reads (clk w) + 1))))"
    "?c ''nbf'' = Some (IntClaim (Unix (now_at (clk w) (reads (clk w) + 2))))"
    "?c ''exp'' = Some (IntClaim (Unix (now_at (clk w) (reads (clk w)) + auth_token_exp (config app))))"
    "?c ''iss'' = Some (StrClaim (auth_token_iss (config app)))"
    "?c ''aud'' = Some (StrClaim (auth_token_iss (config app)))"
    unfolding c by simp_all
  have d: "dom ?c = {''sub'', ''exp'', ''iat'', ''nbf'', ''iss'', ''aud''}"
    unfolding c by auto
  have st: "store (issue_token lib app ?p w) = store w"
    by (simp add: issue_token_def assms(3,4) Let_def respond_def emit_def mint_claims_eq
        split: sum.splits option.splits)
  have tr: "trace (issue_token lib app ?p w) =
             trace w @
             [CallGetByEmail (tok_Email ?p) (Inr user),
              CallGenerateToken ?c (GenerateToken app ?c)] @
             (case GenerateToken app ?c of
                Inl err \<Rightarrow> [Respond (internalServerError err)]
              | Inr token \<Rightarrow>
                  Respond (jsonResponse StatusCreated (Token token)) #
                  (case writeJSON app of
                     Some err \<Rightarrow> [Respond (internalServerError err)]
                   | None \<Rightarrow> []))"
    by (simp add: issue_token_def assms(3,4) Let_def respond_def emit_def mint_claims_eq
        split: sum.splits option.splits)
  from vals d st tr h show ?thesis
    by (intro exI [of _ ?c]) (simp only: simp_thms)
qed

theorem login_claims_witness:
  "readJSON demo_lib CreateUserTokenPayload_json login_body =
     Inr (Map.empty(''email'' \<mapsto> ''ann@example.com'', ''password'' \<mapsto> ''abc'')) \<and>
   GetByEmail demo_app (store ann_world) ''ann@example.com'' = Inr ann \<and>
   password_Compare demo_lib (Password ann) ''abc'' = None \<and>
   (\<exists>claims.
      claims ''sub'' = Some (IntClaim 1) \<and>
      claims ''iat'' = Some (IntClaim 1700000000) \<and>
      claims ''nbf'' = Some (IntClaim 1700000000) \<and>
      claims ''exp'' = Some (IntClaim 1700259200) \<and>
      claims ''iss'' = Some (StrClaim ''realestate'') \<and>
      claims ''aud'' = Some (StrClaim ''realestate'') \<and>
      dom claims = {''sub'', ''exp'', ''iat'', ''nbf'', ''iss'', ''aud''} \<and>
      store (createTokenHandler demo_lib demo_app login_body ann_world) = store ann_world \<and>
      trace (createTokenHandler demo_lib demo_app login_body ann_world) =
        [CallGetByEmail ''ann@example.com'' (Inr ann),
         CallGenerateToken claims (Inr ''signed''),
         Respond (jsonResponse 201 (Token ''signed''))])"
proof -
  let ?m1 = "Map.empty(''email'' \<mapsto> ''ann@example.com'', ''password'' \<mapsto> ''abc'')"
  have v1: "Validate_Struct demo_lib CreateUserTokenPayload_tags
              (CreateUserTokenPayload_get (CreateUserTokenPayload_of ?m1)) = None"
    unfolding login_payload by (rule login_payload_valid) (rule RuneCount_abc)
  have g2: "GetByEmail demo_app (store ann_world) ''ann@example.com'' = Inr ann"
    by (simp add: demo_app_def ann_world_def demo_world_def demo_store_def mem_GetByEmail_def ann_def)
  have c1: "password_Compare demo_lib (Password ann) ''abc'' = None"
    by (simp add: demo_lib_def ann_def)
  have g: "GetByEmail demo_app (store ann_world) (tok_Email (CreateUserTokenPayload_of ?m1)) = Inr ann"
    using g2 by (simp add: login_payload)
  have c: "password_Compare demo_lib (Password ann) (tok_Password (CreateUserTokenPayload_of ?m1)) = None"
    using c1 by (simp add: login_payload)
  have facts: "trace ann_world = []" "reads (clk ann_world) = 0"
    "now_at (clk ann_world) = (\<lambda>i. 1700000000000000000 + 7 * int i)"
    "auth_token_exp (config demo_app) = 259200000000000"
    "auth_token_iss (config demo_app) = ''realestate''"
    "GenerateToken demo_app = (\<lambda>c. Inr ''signed'')" "writeJSON demo_app = None" "ID ann = 1"
    by (simp_all add: ann_world_def demo_world_def demo_clock_def demo_app_def demo_config_def ann_def)
  from login_claims [OF read_login_body v1 g c]
  have "\<exists>claims.
      claims ''sub'' = Some (IntClaim 1) \<and>
      claims ''iat'' = Some (IntClaim 1700000000) \<and>
      claims ''nbf'' = Some (IntClaim 1700000000) \<and>
      claims ''exp'' = Some (IntClaim 1700259200) \<and>
      claims ''iss'' = Some (StrClaim ''realestate'') \<and>
      claims ''aud'' = Some (StrClaim ''realestate'') \<and>
      dom claims = {''sub'', ''exp'', ''iat'', ''nbf'', ''iss'', ''aud''} \<and>
      store (createTokenHandler demo_lib demo_app login_body ann_world) = store ann_world \<and>
      trace (createTokenHandler demo_lib demo_app login_body ann_world) =
        [CallGetByEmail ''ann@example.com'' (Inr ann),
         CallGenerateToken claims (Inr ''signed''),
         Respond (jsonResponse 201 (Token ''signed''))]"
    by (simp add: facts login_payload Unix_def StatusCreated_def)
  with read_login_body g2 c1 show ?thesis by (simp only: simp_thms)
qed

section \<open>The retry loop\<close>

lemma call_generateUsername_eq:
  "call_generateUsername p w =
     (fst (generateUsername (reg_FirstName p) (reg_LastName p) (reg_Email p) (rand w)),
      w\<lparr>rand := snd (generateUsername (reg_FirstName p) (reg_LastName p) (reg_Email p) (rand w)),
        trace := trace w @
          [CallGenerateUsername
             (fst (generateUsername (reg_FirstName p) (reg_LastName p) (reg_Email p) (rand w)))]\<rparr>)"
  by (simp add: call_generateUsername_def emit_def split_beta)

lemma create_loop_run:
  "create_loop app p h k user w = (fl, user', w') \<Longrightarrow>
   \<exists>T. trace w' = trace w @ T \<and> loop_run p h (mail_exp (config app)) k user fl user' T"
proof (induction app p h k user w arbitrary: fl user' w' rule: create_loop.induct)
  case (1 app payload hashToken attempt user w)
  let ?e = "mail_exp (config app)"
  show ?case
  proof (cases "attempt < 5")
    case False
    with "1.prems" have "fl = Proceed" "user' = user" "w' = w"
      by (auto simp: create_loop.simps [of app payload hashToken attempt])
    with False show ?thesis by (auto intro: loop_run.exhausted)
  next
    case True
    obtain res s' where cr: "CreateAndInvite app (store w) user hashToken ?e = (res, s')"
      by (cases "CreateAndInvite app (store w) user hashToken ?e")
    let ?w1 = "emit (CallCreateAndInvite user hashToken ?e res) (w\<lparr>store := s'\<rparr>)"
    have t1: "trace ?w1 = trace w @ [CallCreateAndInvite user hashToken ?e res]"
      by (simp add: emit_def)
    show ?thesis
    proof (cases res)
      case (Inr newID)
      with "1.prems" True cr have "fl = Proceed" "user' = user\<lparr>ID := newID\<rparr>" "w' = ?w1"
        by (auto simp: create_loop.simps [of app payload hashToken attempt] Let_def)
      with t1 Inr True show ?thesis by (auto intro: loop_run.created)
    next
      case (Inl err)
      show ?thesis
      proof (cases "err = ErrDuplicateEmail")
        case de: True
        with "1.prems" True cr Inl have "fl = Returned" "user' = user"
          "w' = respond (badRequestResponse err) ?w1"
          by (auto simp: create_loop.simps [of app payload hashToken attempt] Let_def)
        with t1 Inl True de show ?thesis
          by (auto simp: respond_def emit_def intro: loop_run.dup_email)
      next
        case nde: False
        show ?thesis
        proof (cases "err = ErrDuplicateUsername")
          case False
          with "1.prems" True cr Inl nde have "fl = Returned" "user' = user"
            "w' = respond (internalServerError err) ?w1"
            by (auto simp: create_loop.simps [of app payload hashToken attempt] Let_def)
          with t1 Inl True nde False show ?thesis
            by (auto simp: respond_def emit_def intro: loop_run.failed)
        next
          case du: True
          obtain name w2 where g: "call_generateUsername payload ?w1 = (name, w2)"
            by (cases "call_generateUsername payload ?w1")
          from g have nm: "name = fst (generateUsername (reg_FirstName payload) (reg_LastName payload)
                (reg_Email payload) (rand ?w1))"
            and t2: "trace w2 = trace ?w1 @ [CallGenerateUsername name]"
            by (auto simp: call_generateUsername_eq)
          from "1.prems" True cr Inl nde du g
          have rec: "create_loop app payload hashToken (attempt + 1) (user\<lparr>Username := name\<rparr>) w2
                     = (fl, user', w')"
            by (simp add: create_loop.simps [of app payload hashToken attempt] Let_def)
          from "1.IH" [OF True cr [symmetric] refl Inl nde du g [symmetric] rec]
          obtain T where T: "trace w' = trace w2 @ T"
            "loop_run payload hashToken ?e (attempt + 1) (user\<lparr>Username := name\<rparr>) fl user' T"
            by blast
          have "loop_run payload hashToken ?e attempt user fl user'
                  (CallCreateAndInvite user hashToken ?e (Inl ErrDuplicateUsername) #
                   CallGenerateUsername name # T)"
            using True nm T(2) by (auto intro: loop_run.retry)
          moreover have "trace w' = trace w @
                  (CallCreateAndInvite user hashToken ?e (Inl ErrDuplicateUsername) #
                   CallGenerateUsername name # T)"
            using T(1) t2 t1 Inl du by simp
          ultimately show ?thesis by blast
        qed
      qed
    qed
  qed
qed

lemma loop_run_head:
  "loop_run p h e k user fl user' T \<Longrightarrow>
   (\<not> k < 5 \<and> T = [] \<and> fl = Proceed \<and> user' = user) \<or>
   (k < 5 \<and> (\<exists>res rest. T = CallCreateAndInvite user h e res # rest))"
  by (induction rule: loop_run.induct) auto

lemma loop_run_fields:
  "loop_run p h e k user fl user' T \<Longrightarrow>
   FirstName user' = FirstName user \<and> LastName user' = LastName user \<and>
   Country user' = Country user \<and> Email user' = Email user \<and>
   Password user' = Password user \<and> Role_Name user' = Role_Name user"
  by (induction rule: loop_run.induct) auto

lemma loop_run_count:
  "loop_run p h e k user fl user' T \<Longrightarrow> length (filter is_create T) \<le> 5 - k"
  by (induction rule: loop_run.induct) auto

lemma loop_run_events:
  "loop_run p h e k user fl user' T \<Longrightarrow> ev \<in> set T \<Longrightarrow>
   (\<exists>u res. ev = CallCreateAndInvite u h e res) \<or> (\<exists>n. ev = CallGenerateUsername n) \<or>
   (fl = Returned \<and> (\<exists>err. ev = Respond (badRequestResponse err) \<or> ev = Respond (internalServerError err)))"
  by (induction rule: loop_run.induct) auto

lemma loop_run_dup_email:
  "loop_run p h e k user fl user' T \<Longrightarrow>
   T = m1 @ CallCreateAndInvite u h' e' (Inl ErrDuplicateEmail) # m2 \<Longrightarrow>
   m2 = [Respond (badRequestResponse ErrDuplicateEmail)] \<and> fl = Returned"
proof (induction arbitrary: m1 rule: loop_run.induct)
  case (retry k name r user fl user' T)
  from retry.prems obtain m1' where "T = m1' @ CallCreateAndInvite u h' e' (Inl ErrDuplicateEmail) # m2"
    by (cases m1; cases "tl m1") auto
  then show ?case by (rule retry.IH)
qed (auto simp: Cons_eq_append_conv)

lemma loop_run_success:
  "loop_run p h e k user fl user' T \<Longrightarrow> fl = Proceed \<Longrightarrow>
   (ID user' = ID user \<and> (\<forall>u h' e' i. CallCreateAndInvite u h' e' (Inr i) \<notin> set T)) \<or>
   (\<exists>u m. T = m @ [CallCreateAndInvite u h e (Inr (ID user'))] \<and> user' = u\<lparr>ID := ID user'\<rparr> \<and>
          (\<forall>u h' e' i. CallCreateAndInvite u h' e' (Inr i) \<notin> set m))"
proof (induction rule: loop_run.induct)
  case (retry k name r user fl user' T)
  from retry.IH [OF retry.prems] show ?case
  proof
    assume "ID user' = ID (user\<lparr>Username := name\<rparr>) \<and>
            (\<forall>u h' e' i. CallCreateAndInvite u h' e' (Inr i) \<notin> set T)"
    then show ?thesis by auto
  next
    assume "\<exists>u m. T = m @ [CallCreateAndInvite u h e (Inr (ID user'))] \<and> user' = u\<lparr>ID := ID user'\<rparr> \<and>
          (\<forall>u h' e' i. CallCreateAndInvite u h' e' (Inr i) \<notin> set m)"
    then obtain u m where "T = m @ [CallCreateAndInvite u h e (Inr (ID user'))]"
      "user' = u\<lparr>ID := ID user'\<rparr>" "\<forall>u h' e' i. CallCreateAndInvite u h' e' (Inr i) \<notin> set m"
      by blast
    then have "CallCreateAndInvite user h e (Inl ErrDuplicateUsername) # CallGenerateUsername name # T =
      (CallCreateAndInvite user h e (Inl ErrDuplicateUsername) # CallGenerateUsername name # m) @
        [CallCreateAndInvite u h e (Inr (ID user'))] \<and> user' = u\<lparr>ID := ID user'\<rparr> \<and>
        (\<forall>u h' e' i. CallCreateAndInvite u h' e' (Inr i) \<notin>
           set (CallCreateAndInvite user h e (Inl ErrDuplicateUsername) # CallGenerateUsername name # m))"
      by auto
    then show ?thesis by blast
  qed
next
  case (created k user newID)
  have "[CallCreateAndInvite user h e (Inr newID)] = [] @ [CallCreateAndInvite user h e (Inr (ID (user\<lparr>ID := newID\<rparr>)))]
     \<and> user\<lparr>ID := newID\<rparr> = user\<lparr>ID := ID (user\<lparr>ID := newID\<rparr>)\<rparr>
     \<and> (\<forall>u h' e' i. CallCreateAndInvite u h' e' (Inr i) \<notin> set [])" by simp
  then show ?case by blast
qed auto

lemma loop_run_dup_username:
  "loop_run p h e k user fl user' T \<Longrightarrow>
   T = m1 @ CallCreateAndInvite u h' e' (Inl ErrDuplicateUsername) # m2 \<Longrightarrow>
   h' = h \<and> e' = e \<and> k + length (filter is_create m1) < 5 \<and>
   (\<exists>name r.
      name = fst (generateUsername (reg_FirstName p) (reg_LastName p) (reg_Email p) r) \<and>
      (if k + length (filter is_create m1) < 4
       then \<exists>res rest. m2 = CallGenerateUsername name # CallCreateAndInvite (u\<lparr>Username := name\<rparr>) h e res # rest
       else m2 = [CallGenerateUsername name] \<and> fl = Proceed \<and> ID user' = ID u))"
proof (induction arbitrary: m1 rule: loop_run.induct)
  case (retry k name r user fl user' T)
  show ?case
  proof (cases m1)
    case Nil
    with retry.prems have eq: "u = user" "h' = h" "e' = e" "m2 = CallGenerateUsername name # T"
      by auto
    from loop_run_head [OF retry.hyps(3)] show ?thesis
    proof
      assume a: "\<not> Suc k < 5 \<and> T = [] \<and> fl = Proceed \<and> user' = user\<lparr>Username := name\<rparr>"
      with retry.hyps(1) have "k = 4" by simp
      with a eq Nil retry.hyps(2) show ?thesis by auto
    next
      assume a: "Suc k < 5 \<and> (\<exists>res rest. T = CallCreateAndInvite (user\<lparr>Username := name\<rparr>) h e res # rest)"
      then have "k < 4" by simp
      with a eq Nil retry.hyps(1,2) show ?thesis by auto
    qed
  next
    case (Cons x xs)
    with retry.prems obtain m1' where m1': "m1 = CallCreateAndInvite user h e (Inl ErrDuplicateUsername) # CallGenerateUsername name # m1'"
      "T = m1' @ CallCreateAndInvite u h' e' (Inl ErrDuplicateUsername) # m2"
      by (cases xs) auto
    from retry.IH [OF m1'(2)] m1'(1) show ?thesis by simp
  qed
qed (auto simp: Cons_eq_append_conv)

lemma loop_run_create_user:
  "loop_run p h e k user fl user' T \<Longrightarrow> CallCreateAndInvite u h' e' res \<in> set T \<Longrightarrow>
   h' = h \<and> e' = e \<and> ID u = ID user \<and> FirstName u = FirstName user \<and> LastName u = LastName user \<and>
   Country u = Country user \<and> Email u = Email user \<and> Password u = Password user \<and>
   Role_Name u = Role_Name user"
  by (induction rule: loop_run.induct) auto

lemma create_loop_store:
  "create_loop app p h k user w = (Proceed, user', w') \<Longrightarrow> ID user' \<noteq> ID user \<Longrightarrow>
   \<exists>s u. CreateAndInvite app s u h (mail_exp (config app)) = (Inr (ID user'), store w') \<and>
         Email u = Email user"
proof (induction app p h k user w arbitrary: user' w' rule: create_loop.induct)
  case (1 app payload hashToken attempt user w)
  let ?e = "mail_exp (config app)"
  show ?case
  proof (cases "attempt < 5")
    case False
    with "1.prems" show ?thesis
      by (auto simp: create_loop.simps [of app payload hashToken attempt])
  next
    case True
    obtain res s' where cr: "CreateAndInvite app (store w) user hashToken ?e = (res, s')"
      by (cases "CreateAndInvite app (store w) user hashToken ?e")
    let ?w1 = "emit (CallCreateAndInvite user hashToken ?e res) (w\<lparr>store := s'\<rparr>)"
    show ?thesis
    proof (cases res)
      case (Inr newID)
      with "1.prems" True cr have "user' = user\<lparr>ID := newID\<rparr>" "w' = ?w1"
        by (auto simp: create_loop.simps [of app payload hashToken attempt] Let_def)
      then have "CreateAndInvite app (store w) user hashToken ?e = (Inr (ID user'), store w')"
        using cr Inr by (simp add: emit_def)
      then show ?thesis by blast
    next
      case (Inl err)
      show ?thesis
      proof (cases "err = ErrDuplicateUsername")
        case False
        with "1.prems" True cr Inl show ?thesis
          by (auto simp: create_loop.simps [of app payload hashToken attempt] Let_def
              split: if_splits)
      next
        case du: True
        then have nde: "err \<noteq> ErrDuplicateEmail" by simp
        obtain name w2 where g: "call_generateUsername payload ?w1 = (name, w2)"
          by (cases "call_generateUsername payload ?w1")
        from "1.prems"(1) True cr Inl nde du g
        have rec: "create_loop app payload hashToken (attempt + 1) (user\<lparr>Username := name\<rparr>) w2
                     = (Proceed, user', w')"
          by (simp add: create_loop.simps [of app payload hashToken attempt] Let_def)
        from "1.prems"(2) have "ID user' \<noteq> ID (user\<lparr>Username := name\<rparr>)" by simp
        from "1.IH" [OF True cr [symmetric] refl Inl nde du g [symmetric] rec this]
        show ?thesis by simp
      qed
    qed
  qed
qed

lemma after_loop_zero:
  "ID user = 0 \<Longrightarrow>
   after_loop app tok user w = w\<lparr>trace := trace w @ [Respond (badRequestResponse ErrDuplicateUsername)]\<rparr>"
  by (simp add: after_loop_def respond_def emit_def)

lemma after_loop_sent:
  assumes "ID user \<noteq> 0"
    and "Send app (UserWelcomeTemplate app) (Username user) (Email user)
           \<lparr>vars_Username = Username user,
            vars_ActivationURL = frontendURL (config app) @ ''/confirm/'' @ tok\<rparr>
           (env (config app) \<noteq> ''production'') = (st, None)"
  shows "after_loop app tok user w =
     w\<lparr>trace := trace w @
        [CallSend (UserWelcomeTemplate app) (Username user) (Email user)
           \<lparr>vars_Username = Username user,
            vars_ActivationURL = frontendURL (config app) @ ''/confirm/'' @ tok\<rparr>
           (env (config app) \<noteq> ''production'') (st, None),
         LogInfo ''Email sent'' st,
         Respond (jsonResponse StatusCreated (UserWithToken user tok))] @
        (case writeJSON app of Some err \<Rightarrow> [Respond (internalServerError err)] | None \<Rightarrow> [])\<rparr>"
  using assms by (simp add: after_loop_def respond_def emit_def Let_def split: option.splits)

lemma after_loop_mail_failed:
  assumes "ID user \<noteq> 0"
    and "Send app (UserWelcomeTemplate app) (Username user) (Email user)
           \<lparr>vars_Username = Username user,
            vars_ActivationURL = frontendURL (config app) @ ''/confirm/'' @ tok\<rparr>
           (env (config app) \<noteq> ''production'') = (st, Some err)"
  shows "after_loop app tok user w =
     w\<lparr>store := snd (Delete app (store w) (ID user)),
       trace := trace w @
        [CallSend (UserWelcomeTemplate app) (Username user) (Email user)
           \<lparr>vars_Username = Username user,
            vars_ActivationURL = frontendURL (config app) @ ''/confirm/'' @ tok\<rparr>
           (env (config app) \<noteq> ''production'') (st, Some err),
         LogError ''error sending welcome email'' err,
         CallDelete (ID user) (fst (Delete app (store w) (ID user)))] @
        (case fst (Delete app (store w) (ID user)) of
           Some derr \<Rightarrow> [LogError ''error deleting user'' derr] | None \<Rightarrow> []) @
        [Respond (internalServerError err)]\<rparr>"
  using assms by (simp add: after_loop_def respond_def emit_def Let_def split: option.splits)

section \<open>Registration\<close>

lemma register_valid:
  assumes "readJSON lib RegisterUserPayload_json body = Inr m"
    and "p = RegisterUserPayload_of m"
    and "Validate_Struct lib RegisterUserPayload_tags (RegisterUserPayload_get p) = None"
  shows "registerUserHandler lib app body w =
     create_user lib app p (first_user p (rand w) \<lparr>pw_hash = []\<rparr>)
       (if reg_Username p = []
        then w\<lparr>rand := token_rander p (rand w),
               trace := trace w @ [CallGenerateUsername (first_username p (rand w))]\<rparr>
        else w)"
  using assms
  by (simp add: registerUserHandler_def Let_def call_generateUsername_eq first_user_def
      first_username_def token_rander_def)

lemma register_cases:
  obtains
    (rejected) err where
      "registerUserHandler lib app body w = w\<lparr>trace := trace w @ [Respond (badRequestResponse err)]\<rparr>"
  | (hash_failed) m p err where
      "readJSON lib RegisterUserPayload_json body = Inr m"
      "p = RegisterUserPayload_of m"
      "trace (registerUserHandler lib app body w) =
         trace w @ (if reg_Username p = [] then [CallGenerateUsername (first_username p (rand w))] else []) @
         [Respond (internalServerError err)]"
  | (looped) m p pw fl user' w3 L where
      "readJSON lib RegisterUserPayload_json body = Inr m"
      "p = RegisterUserPayload_of m"
      "Validate_Struct lib RegisterUserPayload_tags (RegisterUserPayload_get p) = None"
      "password_Set lib (reg_Password p) = Inr pw"
      "create_loop app p (EncodeToString (Sum256 lib (plain_token p (rand w)))) 0
         (first_user p (rand w) pw)
         (if reg_Username p = []
          then w\<lparr>rand := snd (uuid_New (token_rander p (rand w))),
                 trace := trace w @ [CallGenerateUsername (first_username p (rand w))]\<rparr>
          else w\<lparr>rand := snd (uuid_New (token_rander p (rand w)))\<rparr>) = (fl, user', w3)"
      "loop_run p (EncodeToString (Sum256 lib (plain_token p (rand w)))) (mail_exp (config app)) 0
         (first_user p (rand w) pw) fl user' L"
      "trace w3 =
         trace w @ (if reg_Username p = [] then [CallGenerateUsername (first_username p (rand w))] else []) @ L"
      "registerUserHandler lib app body w =
         (if fl = Returned then w3 else after_loop app (plain_token p (rand w)) user' w3)"
proof (cases "readJSON lib RegisterUserPayload_json body")
  case (Inl err)
  then have "registerUserHandler lib app body w = w\<lparr>trace := trace w @ [Respond (badRequestResponse err)]\<rparr>"
    by (simp add: registerUserHandler_def respond_def emit_def)
  then show ?thesis by (rule rejected)
next
  case (Inr m)
  define p where "p = RegisterUserPayload_of m"
  show ?thesis
  proof (cases "Validate_Struct lib RegisterUserPayload_tags (RegisterUserPayload_get p)")
    case (Some err)
    with Inr have "registerUserHandler lib app body w = w\<lparr>trace := trace w @ [Respond (badRequestResponse err)]\<rparr>"
      by (simp add: registerUserHandler_def respond_def emit_def p_def Let_def)
    then show ?thesis by (rule rejected)
  next
    case None
    let ?w1 = "if reg_Username p = []
        then w\<lparr>rand := token_rander p (rand w),
               trace := trace w @ [CallGenerateUsername (first_username p (rand w))]\<rparr>
        else w"
    let ?G = "if reg_Username p = [] then [CallGenerateUsername (first_username p (rand w))] else []"
    have h: "registerUserHandler lib app body w =
               create_user lib app p (first_user p (rand w) \<lparr>pw_hash = []\<rparr>) ?w1"
      using Inr p_def None by (rule register_valid)
    have tw1: "trace ?w1 = trace w @ ?G" by simp
    have rw1: "rand ?w1 = token_rander p (rand w)" by (simp add: token_rander_def)
    show ?thesis
    proof (cases "password_Set lib (reg_Password p)")
      case (Inl err)
      then have "create_user lib app p (first_user p (rand w) \<lparr>pw_hash = []\<rparr>) ?w1 =
                 respond (internalServerError err) ?w1"
        by (simp add: create_user_def)
      with h tw1 have "trace (registerUserHandler lib app body w) =
          trace w @ ?G @ [Respond (internalServerError err)]"
        by (simp add: respond_def emit_def)
      with Inr p_def show ?thesis by (rule hash_failed)
    next
      case pw: (Inr pw)
      let ?tok = "plain_token p (rand w)"
      let ?h = "EncodeToString (Sum256 lib ?tok)"
      let ?w2 = "if reg_Username p = []
          then w\<lparr>rand := snd (uuid_New (token_rander p (rand w))),
                 trace := trace w @ [CallGenerateUsername (first_username p (rand w))]\<rparr>
          else w\<lparr>rand := snd (uuid_New (token_rander p (rand w)))\<rparr>"
      have u1: "(first_user p (rand w) \<lparr>pw_hash = []\<rparr>)\<lparr>Password := pw\<rparr> = first_user p (rand w) pw"
        by (simp add: first_user_def)
      have w2: "?w1\<lparr>rand := snd (uuid_New (rand ?w1))\<rparr> = ?w2"
        by (simp add: token_rander_def)
      have tok: "uuid_String (fst (uuid_New (rand ?w1))) = ?tok"
        by (simp add: plain_token_def token_rander_def)
      obtain fl user' w3 where lp: "create_loop app p ?h 0 (first_user p (rand w) pw) ?w2 = (fl, user', w3)"
        by (cases "create_loop app p ?h 0 (first_user p (rand w) pw) ?w2")
      from create_loop_run [OF lp] obtain L where L: "trace w3 = trace ?w2 @ L"
        "loop_run p ?h (mail_exp (config app)) 0 (first_user p (rand w) pw) fl user' L"
        by blast
      have tw3: "trace w3 = trace w @ ?G @ L"
        using L(1) by simp
      have "create_user lib app p (first_user p (rand w) \<lparr>pw_hash = []\<rparr>) ?w1 =
              (case create_loop app p ?h 0 (first_user p (rand w) pw) ?w2 of
                 (Returned, user, w) \<Rightarrow> w
               | (Proceed, user, w) \<Rightarrow> after_loop app ?tok user w)"
        unfolding create_user_def pw sum.case Let_def split_beta u1 w2 tok
        by (simp add: split_beta)
      with lp h have "registerUserHandler lib app body w =
         (if fl = Returned then w3 else after_loop app ?tok user' w3)"
        by (cases fl) simp_all
      with Inr p_def None pw lp L(2) tw3 show ?thesis by (rule looped)
    qed
  qed
qed

lemma split_after:
  "pre @ ev # post = X @ Y \<Longrightarrow> ev \<notin> set X \<Longrightarrow> \<exists>m. Y = m @ ev # post \<and> pre = X @ m"
proof (induction X arbitrary: pre)
  case Nil
  then show ?case by simp
next
  case (Cons x X)
  then obtain pre' where "pre = x # pre'" "pre' @ ev # post = X @ Y"
    by (cases pre) auto
  with Cons show ?case by auto
qed

lemma split_before:
  "pre @ ev # post = Y @ Z \<Longrightarrow> ev \<notin> set Z \<Longrightarrow> \<exists>m. Y = pre @ ev # m \<and> post = m @ Z"
proof (induction pre arbitrary: Y)
  case Nil
  then show ?case by (cases Y) auto
next
  case (Cons x pre)
  show ?case
  proof (cases Y)
    case Nil
    with Cons.prems show ?thesis by auto
  next
    case (Cons y Y')
    with Cons.prems have "x = y" "pre @ ev # post = Y' @ Z" by auto
    with Cons.IH [of Y'] Cons.prems(2) Cons show ?thesis by auto
  qed
qed

lemma split_middle:
  assumes "pre @ ev # post = G @ L @ A" "ev \<notin> set G" "ev \<notin> set A"
  shows "\<exists>m1 m2. L = m1 @ ev # m2 \<and> pre = G @ m1 \<and> post = m2 @ A"
proof -
  from split_after [OF assms(1,2)] obtain m where m: "L @ A = m @ ev # post" "pre = G @ m"
    by blast
  from split_before [OF m(1) [symmetric] assms(3)] obtain m2 where "L = m @ ev # m2" "post = m2 @ A"
    by blast
  with m(2) show ?thesis by blast
qed

lemma after_loop_events:
  "\<exists>A. trace (after_loop app tok user w) = trace w @ A \<and>
       (\<forall>x\<in>set A. \<not> is_create x \<and> (\<forall>n. x \<noteq> CallGenerateUsername n))"
proof (cases "ID user = 0")
  case True
  then show ?thesis by (simp add: after_loop_zero)
next
  case False
  obtain st r where s: "Send app (UserWelcomeTemplate app) (Username user) (Email user)
           \<lparr>vars_Username = Username user,
            vars_ActivationURL = frontendURL (config app) @ ''/confirm/'' @ tok\<rparr>
           (env (config app) \<noteq> ''production'') = (st, r)"
    by (cases "Send app (UserWelcomeTemplate app) (Username user) (Email user)
           \<lparr>vars_Username = Username user,
            vars_ActivationURL = frontendURL (config app) @ ''/confirm/'' @ tok\<rparr>
           (env (config app) \<noteq> ''production'')")
  show ?thesis
  proof (cases r)
    case None
    with s False show ?thesis
      by (auto simp: after_loop_sent split: option.splits)
  next
    case (Some err)
    with s False show ?thesis
      by (auto simp: after_loop_mail_failed split: option.splits)
  qed
qed

lemma register_looped_trace:
  assumes "trace w3 = trace w @ G @ L"
    and "h = (if fl = Returned then w3 else after_loop app tok user' w3)"
  shows "\<exists>A. trace h = trace w @ G @ L @ A \<and>
             (fl = Returned \<longrightarrow> A = []) \<and>
             (fl = Proceed \<longrightarrow> trace (after_loop app tok user' w3) = trace w3 @ A) \<and>
             (\<forall>x\<in>set A. \<not> is_create x \<and> (\<forall>n. x \<noteq> CallGenerateUsername n))"
proof (cases fl)
  case Returned
  with assms have "trace h = trace w @ G @ L @ []" by simp
  with Returned show ?thesis by (intro exI [of _ "[]"]) simp
next
  case Proceed
  from after_loop_events [of app tok user' w3] obtain A where
    A: "trace (after_loop app tok user' w3) = trace w3 @ A"
       "\<forall>x\<in>set A. \<not> is_create x \<and> (\<forall>n. x \<noteq> CallGenerateUsername n)" by blast
  with Proceed assms have "trace h = trace w @ G @ L @ A" by simp
  with Proceed A show ?thesis by (intro exI [of _ A]) simp
qed

subsection \<open>A concrete registration\<close>

lemma find_register_fields:
  "find_field lib RegisterUserPayload_json ''first_name'' = Some ''first_name''"
  "find_field lib RegisterUserPayload_json ''last_name'' = Some ''last_name''"
  "find_field lib RegisterUserPayload_json ''country'' = Some ''country''"
  "find_field lib RegisterUserPayload_json ''email'' = Some ''email''"
  "find_field lib RegisterUserPayload_json ''password'' = Some ''password''"
  "find_field lib RegisterUserPayload_json ''password_confirmation'' = Some ''password_confirmation''"
  "find_field lib RegisterUserPayload_json ''username'' = Some ''username''"
  by (simp_all add: find_field_def RegisterUserPayload_json_def)

lemma read_register_body:
  "\<exists>m. readJSON lib RegisterUserPayload_json register_body = Inr m \<and>
       RegisterUserPayload_of m = demo_payload"
  by (simp add: readJSON_def Decode_def register_body_def maxBytes_def find_register_fields
      RegisterUserPayload_of_def str_or_empty_def demo_payload_def)

lemma demo_payload_valid:
  "Validate_Struct demo_lib RegisterUserPayload_tags (RegisterUserPayload_get demo_payload) = None"
  unfolding Validate_Struct_register
  by (simp add: demo_payload_def demo_lib_def RuneCountInString_def runes_def DecodeRune.simps)

lemma generateUsername_rander:
  "snd (generateUsername f l e r) = r\<lparr>pos := pos r + 16\<rparr>"
  by (simp add: generateUsername_eq uuid_New_def Let_def)

lemma uuid_New_snd: "snd (uuid_New r) = r\<lparr>pos := pos r + 16\<rparr>"
  by (simp add: uuid_New_def Let_def)

lemma demo_payload_fields:
  "reg_FirstName demo_payload = ''Ann''" "reg_LastName demo_payload = ''Lee''"
  "reg_Country demo_payload = ''NZ''" "reg_Email demo_payload = ''ann@example.com''"
  "reg_Password demo_payload = ''abc''" "reg_Username demo_payload = []"
  by (simp_all add: demo_payload_def)

lemma register_demo:
  "registerUserHandler demo_lib app register_body w =
     create_user demo_lib app demo_payload (first_user demo_payload (rand w) \<lparr>pw_hash = []\<rparr>)
       (w\<lparr>rand := (rand w)\<lparr>pos := pos (rand w) + 16\<rparr>,
          trace := trace w @ [CallGenerateUsername
             (fst (generateUsername ''Ann'' ''Lee'' ''ann@example.com'' (rand w)))]\<rparr>)"
proof -
  from read_register_body [of demo_lib] obtain m where
    m: "readJSON demo_lib RegisterUserPayload_json register_body = Inr m"
       "RegisterUserPayload_of m = demo_payload" by blast
  from register_valid [OF m(1) m(2) [symmetric] demo_payload_valid, of app w]
  show ?thesis
    by (simp add: demo_payload_fields token_rander_def first_username_def generateUsername_rander)
qed

lemma demo_names:
  "fst (generateUsername ''Ann'' ''Lee'' ''ann@example.com'' demo_rander) = ''annlee0b3055''"
  "uuid_String (fst (uuid_New (demo_rander\<lparr>pos := 16\<rparr>))) = ''5b80a5ca-ef14-495e-83a8-cdf2173c6186''"
  by code_simp+

lemma ann_again:
  "trace (registerUserHandler demo_lib demo_app register_body ann_world) =
     [CallGenerateUsername ''annlee0b3055'',
      CallCreateAndInvite
        \<lparr>ID = 0, Username = ''annlee0b3055'', FirstName = ''Ann'', LastName = ''Lee'',
         Country = ''NZ'', Email = ''ann@example.com'',
         Password = \<lparr>pw_hash = [98, 99, 100]\<rparr>, Role_Name = ''user''\<rparr>
        (EncodeToString (Sum256 demo_lib ''5b80a5ca-ef14-495e-83a8-cdf2173c6186''))
        259200000000000 (Inl ErrDuplicateEmail),
      Respond (badRequestResponse ErrDuplicateEmail)]"
proof -
  have r: "rand ann_world = demo_rander" "trace ann_world = []" "pos demo_rander = 0"
    by (simp_all add: ann_world_def demo_world_def demo_rander_def)
  have pw: "password_Set demo_lib ''abc'' = Inr \<lparr>pw_hash = [98, 99, 100]\<rparr>"
    by (simp add: demo_lib_def)
  have cr: "\<And>u h. Email u = ''ann@example.com'' \<Longrightarrow>
      CreateAndInvite demo_app (store ann_world) u h 259200000000000 =
        (Inl ErrDuplicateEmail, store ann_world)"
    by (simp add: demo_app_def mem_CreateAndInvite_def take_fault_def ann_world_def
        demo_world_def demo_store_def ann_def)
  have me: "mail_exp (config demo_app) = 259200000000000"
    by (simp add: demo_app_def demo_config_def)
  show ?thesis
    unfolding register_demo
    by (simp add: create_user_def r pw first_user_def first_username_def demo_payload_fields
        demo_names create_loop.simps [of _ _ _ 0] cr me respond_def emit_def Let_def
        uuid_New_snd split_beta)
qed

text \<open>
  Claim C3. Whenever the repository answers a create with \<open>ErrDuplicateEmail\<close>, at any
  attempt, the only call the handler makes afterwards is the response
  \<open>badRequestResponse ErrDuplicateEmail\<close>, status 400: there is no further create, no
  call of \<open>generateUsername\<close> and no call of the mailer.
\<close>

theorem duplicate_email_is_terminal:
  assumes "trace (registerUserHandler lib app body w) =
             trace w @ pre @ CallCreateAndInvite u h e (Inl ErrDuplicateEmail) # post"
  shows "post = [Respond (badRequestResponse ErrDuplicateEmail)] \<and>
         status_of (badRequestResponse ErrDuplicateEmail) = 400"
proof -
  let ?ev = "CallCreateAndInvite u h e (Inl ErrDuplicateEmail)"
  have "post = [Respond (badRequestResponse ErrDuplicateEmail)]"
  proof (cases rule: register_cases [of lib app body w])
    case (rejected err)
    with assms have "pre @ ?ev # post = [Respond (badRequestResponse err)]" by simp
    then show ?thesis by (cases pre) simp_all
  next
    case (hash_failed m p err)
    with assms have "pre @ ?ev # post =
      (if reg_Username p = [] then [CallGenerateUsername (first_username p (rand w))] else []) @
         [Respond (internalServerError err)]" by simp
    moreover have "?ev \<in> set (pre @ ?ev # post)" by simp
    ultimately have "?ev \<in> set ((if reg_Username p = [] then [CallGenerateUsername (first_username p (rand w))] else []) @
         [Respond (internalServerError err)])"
      by (simp only:)
    then show ?thesis by (simp split: if_splits)
  next
    case (looped m p pw fl user' w3 L)
    define G where "G = (if reg_Username p = [] then [CallGenerateUsername (first_username p (rand w))] else [])"
    define tok where "tok = plain_token p (rand w)"
    define hw where "hw = registerUserHandler lib app body w"
    have tw3: "trace w3 = trace w @ G @ L" unfolding G_def by (rule looped(7))
    have hh: "hw = (if fl = Returned then w3 else after_loop app tok user' w3)"
      unfolding tok_def hw_def by (rule looped(8))
    from register_looped_trace [OF tw3 hh] obtain A where
      A: "trace hw = trace w @ G @ L @ A"
         "fl = Returned \<longrightarrow> A = []"
         "\<forall>x\<in>set A. \<not> is_create x \<and> (\<forall>n. x \<noteq> CallGenerateUsername n)"
      by (elim exE conjE)
    from A(1) assms have eq: "pre @ ?ev # post = G @ L @ A" by (simp add: hw_def)
    have "?ev \<notin> set G" by (simp add: G_def)
    moreover have "?ev \<notin> set A" using A(3) by auto
    ultimately obtain m1 m2 where m: "L = m1 @ ?ev # m2" "pre = G @ m1" "post = m2 @ A"
      using split_middle [OF eq] by blast
    from loop_run_dup_email [OF looped(6) m(1)] have "m2 = [Respond (badRequestResponse ErrDuplicateEmail)]"
      "fl = Returned" by simp_all
    with A(2) m(3) show ?thesis by simp
  qed
  then show ?thesis by simp
qed

theorem duplicate_email_is_terminal_witness:
  "trace (registerUserHandler demo_lib demo_app register_body ann_world) =
     trace ann_world @ [CallGenerateUsername ''annlee0b3055''] @
     CallCreateAndInvite
       \<lparr>ID = 0, Username = ''annlee0b3055'', FirstName = ''Ann'', LastName = ''Lee'',
        Country = ''NZ'', Email = ''ann@example.com'',
        Password = \<lparr>pw_hash = [98, 99, 100]\<rparr>, Role_Name = ''user''\<rparr>
       (EncodeToString (Sum256 demo_lib ''5b80a5ca-ef14-495e-83a8-cdf2173c6186''))
       259200000000000 (Inl ErrDuplicateEmail) #
     [Respond (badRequestResponse ErrDuplicateEmail)] \<and>
   status_of (badRequestResponse ErrDuplicateEmail) = 400"
proof -
  have t0: "trace ann_world = []" by (simp add: ann_world_def demo_world_def)
  have h: "trace (registerUserHandler demo_lib demo_app register_body ann_world) =
     trace ann_world @ [CallGenerateUsername ''annlee0b3055''] @
     CallCreateAndInvite
       \<lparr>ID = 0, Username = ''annlee0b3055'', FirstName = ''Ann'', LastName = ''Lee'',
        Country = ''NZ'', Email = ''ann@example.com'',
        Password = \<lparr>pw_hash = [98, 99, 100]\<rparr>, Role_Name = ''user''\<rparr>
       (EncodeToString (Sum256 demo_lib ''5b80a5ca-ef14-495e-83a8-cdf2173c6186''))
       259200000000000 (Inl ErrDuplicateEmail) #
     [Respond (badRequestResponse ErrDuplicateEmail)]"
    by (simp add: ann_again t0)
  from duplicate_email_is_terminal [OF h] h show ?thesis by simp
qed

lemma filter_create_no_creates:
  "\<forall>x\<in>set A. \<not> is_create x \<and> (\<forall>n. x \<noteq> CallGenerateUsername n) \<Longrightarrow> filter is_create A = []"
  by (induction A) auto

lemma first_events_no_create:
  "filter is_create (if c then [CallGenerateUsername n] else []) = []"
  by simp

lemma hash_is_not_token:
  assumes "length u = 16"
  shows "EncodeToString bs \<noteq> uuid_String u"
proof
  assume eq: "EncodeToString bs = uuid_String u"
  have "list_all isLowerAlnum (uuid_String u)"
    using EncodeToString_alnum [of bs] eq by simp
  moreover have "8 < length (uuid_String u)"
    using assms by (simp add: uuid_String_length)
  ultimately have "isLowerAlnum (uuid_String u ! 8)"
    by (simp add: list_all_length)
  then show False
    using assms by (simp add: uuid_String_dash isLowerAlnum_def)
qed

lemma plain_token_length: "length (plain_token p r) = 36"
  by (simp add: plain_token_def uuid_String_length uuid_New_length)

lemma hash_is_not_plain_token: "EncodeToString bs \<noteq> plain_token p r"
  unfolding plain_token_def by (rule hash_is_not_token) (rule uuid_New_length)

lemma after_loop_json_response:
  assumes "trace (after_loop app tok user w) = trace w @ A"
    and "Respond (jsonResponse code (UserWithToken user' tok')) \<in> set A"
  shows "user' = user \<and> tok' = tok \<and> code = StatusCreated \<and> ID user \<noteq> 0"
proof (cases "ID user = 0")
  case True
  with assms show ?thesis by (auto simp: after_loop_zero)
next
  case False
  obtain st r where s: "Send app (UserWelcomeTemplate app) (Username user) (Email user)
           \<lparr>vars_Username = Username user,
            vars_ActivationURL = frontendURL (config app) @ ''/confirm/'' @ tok\<rparr>
           (env (config app) \<noteq> ''production'') = (st, r)"
    by (cases "Send app (UserWelcomeTemplate app) (Username user) (Email user)
           \<lparr>vars_Username = Username user,
            vars_ActivationURL = frontendURL (config app) @ ''/confirm/'' @ tok\<rparr>
           (env (config app) \<noteq> ''production'')")
  show ?thesis
  proof (cases r)
    case None
    with s False assms show ?thesis
      by (auto simp: after_loop_sent split: option.splits)
  next
    case (Some err)
    with s False assms show ?thesis
      by (auto simp: after_loop_mail_failed split: option.splits)
  qed
qed

lemma find_None_filter: "\<forall>x\<in>set xs. \<not> P x \<Longrightarrow> find P (filter Q xs) = None"
  by (induction xs) auto

lemma mem_create_then_delete:
  assumes "mem_CreateAndInvite s u h e = (Inr i, s')"
    and "mem_Delete s' i = (None, s'')"
  shows "mem_GetByEmail s'' (Email u) = Inl ErrNotFound \<and> \<not> list_ex (\<lambda>x. ID x = i) (users s'')"
proof -
  obtain f s1 where tf: "take_fault s = (f, s1)" by (cases "take_fault s")
  have us1: "users s1 = users s"
    using tf by (auto simp: take_fault_def split: list.splits)
  from assms(1) tf have c: "\<not> f" "\<not> list_ex (\<lambda>x. Email x = Email u) (users s1)"
    "i = next_id s1"
    "users s' = users s1 @ [u\<lparr>ID := next_id s1\<rparr>]"
    by (auto simp: mem_CreateAndInvite_def split: if_splits)
  obtain g s2 where tg: "take_fault s' = (g, s2)" by (cases "take_fault s'")
  have us2: "users s2 = users s'"
    using tg by (auto simp: take_fault_def split: list.splits)
  from assms(2) tg have d: "users s'' = filter (\<lambda>x. ID x \<noteq> i) (users s2)"
    by (auto simp: mem_Delete_def split: if_splits)
  have noemail: "\<forall>x\<in>set (users s1). Email x \<noteq> Email u"
    using c(2) by (simp add: list_ex_iff)
  have "users s'' = filter (\<lambda>x. ID x \<noteq> i) (users s1)"
    using d us2 c(3,4) by simp
  then have "find (\<lambda>x. Email x = Email u) (users s'') = None"
    using noemail by (simp add: find_None_filter)
  moreover have "\<not> list_ex (\<lambda>x. ID x = i) (users s'')"
    using d by (simp add: list_ex_iff)
  ultimately show ?thesis by (simp add: mem_GetByEmail_def)
qed

lemma mem_Delete_failed:
  "mem_Delete s i = (Some err, s') \<Longrightarrow> users s' = users s"
  by (auto simp: mem_Delete_def take_fault_def split: list.splits if_splits)

subsection \<open>Concrete runs\<close>

lemma demo_facts:
  "rand demo_world = demo_rander" "trace demo_world = []" "pos demo_rander = 0"
  "rand flaky_world = demo_rander" "trace flaky_world = []"
  "rand bob_world = demo_rander" "trace bob_world = []"
  "password_Set demo_lib ''abc'' = Inr \<lparr>pw_hash = [98, 99, 100]\<rparr>"
  "mail_exp (config demo_app) = 259200000000000"
  "mail_exp (config mail_down_app) = 259200000000000"
  "mail_exp (config taken_app) = 259200000000000"
  by (simp_all add: demo_world_def flaky_world_def bob_world_def demo_rander_def demo_lib_def
      demo_app_def mail_down_app_def taken_app_def demo_config_def)

lemma taken_step:
  "k < 5 \<Longrightarrow>
   create_loop taken_app p h k u w =
     create_loop taken_app p h (Suc k)
       (u\<lparr>Username := fst (generateUsername (reg_FirstName p) (reg_LastName p) (reg_Email p) (rand w))\<rparr>)
       (w\<lparr>rand := (rand w)\<lparr>pos := pos (rand w) + 16\<rparr>,
          trace := trace w @
            [CallCreateAndInvite u h 259200000000000 (Inl ErrDuplicateUsername),
             CallGenerateUsername
               (fst (generateUsername (reg_FirstName p) (reg_LastName p) (reg_Email p) (rand w)))]\<rparr>)"
proof -
  assume k: "k < 5"
  have cr: "CreateAndInvite taken_app (store w) u h 259200000000000 = (Inl ErrDuplicateUsername, store w)"
    by (simp add: taken_app_def)
  have me: "mail_exp (config taken_app) = 259200000000000"
    by (simp add: taken_app_def demo_app_def demo_config_def)
  show ?thesis
    by (simp add: create_loop.simps [of taken_app p h k] k cr me
        call_generateUsername_eq generateUsername_rander emit_def Let_def)
qed

lemma taken_done:
  "\<not> k < 5 \<Longrightarrow> create_loop taken_app p h k u w = (Proceed, u, w)"
  by (simp add: create_loop.simps [of taken_app p h k])

lemma taken_run:
  "trace (registerUserHandler demo_lib taken_app register_body demo_world) =
   [CallGenerateUsername ''annlee0b3055'',
    CallCreateAndInvite
      \<lparr>ID = 0, Username = ''annlee0b3055'', FirstName = ''Ann'', LastName = ''Lee'',
       Country = ''NZ'', Email = ''ann@example.com'',
       Password = \<lparr>pw_hash = [98, 99, 100]\<rparr>, Role_Name = ''user''\<rparr>
      (EncodeToString (Sum256 demo_lib ''5b80a5ca-ef14-495e-83a8-cdf2173c6186''))
      259200000000000 (Inl ErrDuplicateUsername),
    CallGenerateUsername (name_at 32),
    CallCreateAndInvite
      \<lparr>ID = 0, Username = (name_at 32), FirstName = ''Ann'', LastName = ''Lee'',
       Country = ''NZ'', Email = ''ann@example.com'',
       Password = \<lparr>pw_hash = [98, 99, 100]\<rparr>, Role_Name = ''user''\<rparr>
      (EncodeToString (Sum256 demo_lib ''5b80a5ca-ef14-495e-83a8-cdf2173c6186''))
      259200000000000 (Inl ErrDuplicateUsername),
    CallGenerateUsername (name_at 48),
    CallCreateAndInvite
      \<lparr>ID = 0, Username = (name_at 48), FirstName = ''Ann'', LastName = ''Lee'',
       Country = ''NZ'', Email = ''ann@example.com'',
       Password = \<lparr>pw_hash = [98, 99, 100]\<rparr>, Role_Name = ''user''\<rparr>
      (EncodeToString (Sum256 demo_lib ''5b80a5ca-ef14-495e-83a8-cdf2173c6186''))
      259200000000000 (Inl ErrDuplicateUsername),
    CallGenerateUsername (name_at 64),
    CallCreateAndInvite
      \<lparr>ID = 0, Username = (name_at 64), FirstName = ''Ann'', LastName = ''Lee'',
       Country = ''NZ'', Email = ''ann@example.com'',
       Password = \<lparr>pw_hash = [98, 99, 100]\<rparr>, Role_Name = ''user''\<rparr>
      (EncodeToString (Sum256 demo_lib ''5b80a5ca-ef14-495e-83a8-cdf2173c6186''))
      259200000000000 (Inl ErrDuplicateUsername),
    CallGenerateUsername (name_at 80),
    CallCreateAndInvite
      \<lparr>ID = 0, Username = (name_at 80), FirstName = ''Ann'', LastName = ''Lee'',
       Country = ''NZ'', Email = ''ann@example.com'',
       Password = \<lparr>pw_hash = [98, 99, 100]\<rparr>, Role_Name = ''user''\<rparr>
      (EncodeToString (Sum256 demo_lib ''5b80a5ca-ef14-495e-83a8-cdf2173c6186''))
      259200000000000 (Inl ErrDuplicateUsername),
    CallGenerateUsername (name_at 96),
    Respond (badRequestResponse ErrDuplicateUsername)]"
  unfolding register_demo
  by (simp add: create_user_def demo_facts first_user_def first_username_def demo_payload_fields
      demo_names name_at_def taken_step taken_done
      after_loop_zero uuid_New_snd split_beta Let_def)

lemma name_at_16: "name_at 16 = ''annlee5b80a5''"
  unfolding name_at_def by code_simp

lemma token_at_0: "uuid_String (fst (uuid_New demo_rander)) = ''0b30557a-9fc4-490e-b358-7da2c7ec1136''"
  by code_simp

lemma mem_apps:
  "CreateAndInvite demo_app = mem_CreateAndInvite" "Delete demo_app = mem_Delete"
  "CreateAndInvite mail_down_app = mem_CreateAndInvite" "Delete mail_down_app = mem_Delete"
  "Send demo_app = Noop_Send" "writeJSON demo_app = None"
  "Send mail_down_app = (\<lambda>templateFile username email d isSandbox.
                          (- 1, Some (Err ''dial tcp: connection refused'')))"
  "UserWelcomeTemplate demo_app = ''user_invitation.tmpl''"
  "UserWelcomeTemplate mail_down_app = ''user_invitation.tmpl''"
  "frontendURL (config demo_app) = ''http://localhost:5173''"
  "frontendURL (config mail_down_app) = ''http://localhost:5173''"
  "env (config demo_app) = ''development''"
  "env (config mail_down_app) = ''development''"
  by (simp_all add: demo_app_def mail_down_app_def demo_config_def)

lemma demo_stores:
  "store demo_world = demo_store" "store flaky_world = demo_store\<lparr>faults := [False, True]\<rparr>"
  "store bob_world = demo_store\<lparr>users := [bob], next_id := 2\<rparr>"
  by (simp_all add: demo_world_def flaky_world_def bob_world_def)

lemma demo_run:
  "trace (registerUserHandler demo_lib demo_app register_body demo_world) =
   [CallGenerateUsername ''annlee0b3055'',
    CallCreateAndInvite
      \<lparr>ID = 0, Username = ''annlee0b3055'', FirstName = ''Ann'', LastName = ''Lee'',
       Country = ''NZ'', Email = ''ann@example.com'',
       Password = \<lparr>pw_hash = [98, 99, 100]\<rparr>, Role_Name = ''user''\<rparr>
      (EncodeToString (Sum256 demo_lib ''5b80a5ca-ef14-495e-83a8-cdf2173c6186''))
      259200000000000 (Inr 1),
    CallSend ''user_invitation.tmpl'' ''annlee0b3055'' ''ann@example.com''
      \<lparr>vars_Username = ''annlee0b3055'',
       vars_ActivationURL = ''http://localhost:5173/confirm/5b80a5ca-ef14-495e-83a8-cdf2173c6186''\<rparr>
      True (200, None),
    LogInfo ''Email sent'' 200,
    Respond (jsonResponse 201
      (UserWithToken
         \<lparr>ID = 1, Username = ''annlee0b3055'', FirstName = ''Ann'', LastName = ''Lee'',
          Country = ''NZ'', Email = ''ann@example.com'',
          Password = \<lparr>pw_hash = [98, 99, 100]\<rparr>, Role_Name = ''user''\<rparr>
         ''5b80a5ca-ef14-495e-83a8-cdf2173c6186''))]"
  unfolding register_demo
  by (simp add: create_user_def demo_facts first_user_def first_username_def demo_payload_fields
      demo_names create_loop.simps [of _ _ _ 0] mem_apps demo_stores demo_store_def
      mem_CreateAndInvite_def take_fault_def after_loop_def Noop_Send_def StatusCreated_def
      respond_def emit_def uuid_New_snd split_beta Let_def)

lemma mail_down_run:
  "trace (registerUserHandler demo_lib mail_down_app register_body demo_world) =
   [CallGenerateUsername ''annlee0b3055'',
    CallCreateAndInvite
      \<lparr>ID = 0, Username = ''annlee0b3055'', FirstName = ''Ann'', LastName = ''Lee'',
       Country = ''NZ'', Email = ''ann@example.com'',
       Password = \<lparr>pw_hash = [98, 99, 100]\<rparr>, Role_Name = ''user''\<rparr>
      (EncodeToString (Sum256 demo_lib ''5b80a5ca-ef14-495e-83a8-cdf2173c6186''))
      259200000000000 (Inr 1),
    CallSend ''user_invitation.tmpl'' ''annlee0b3055'' ''ann@example.com''
      \<lparr>vars_Username = ''annlee0b3055'',
       vars_ActivationURL = ''http://localhost:5173/confirm/5b80a5ca-ef14-495e-83a8-cdf2173c6186''\<rparr>
      True (- 1, Some (Err ''dial tcp: connection refused'')),
    LogError ''error sending welcome email'' (Err ''dial tcp: connection refused''),
    CallDelete 1 None,
    Respond (internalServerError (Err ''dial tcp: connection refused''))]"
  unfolding register_demo
  by (simp add: create_user_def demo_facts first_user_def first_username_def demo_payload_fields
      demo_names create_loop.simps [of _ _ _ 0] mem_apps demo_stores demo_store_def
      mem_CreateAndInvite_def mem_Delete_def take_fault_def after_loop_def
      respond_def emit_def uuid_New_snd split_beta Let_def)

lemma flaky_run:
  "trace (registerUserHandler demo_lib mail_down_app register_body flaky_world) =
   [CallGenerateUsername ''annlee0b3055'',
    CallCreateAndInvite
      \<lparr>ID = 0, Username = ''annlee0b3055'', FirstName = ''Ann'', LastName = ''Lee'',
       Country = ''NZ'', Email = ''ann@example.com'',
       Password = \<lparr>pw_hash = [98, 99, 100]\<rparr>, Role_Name = ''user''\<rparr>
      (EncodeToString (Sum256 demo_lib ''5b80a5ca-ef14-495e-83a8-cdf2173c6186''))
      259200000000000 (Inr 1),
    CallSend ''user_invitation.tmpl'' ''annlee0b3055'' ''ann@example.com''
      \<lparr>vars_Username = ''annlee0b3055'',
       vars_ActivationURL = ''http://localhost:5173/confirm/5b80a5ca-ef14-495e-83a8-cdf2173c6186''\<rparr>
      True (- 1, Some (Err ''dial tcp: connection refused'')),
    LogError ''error sending welcome email'' (Err ''dial tcp: connection refused''),
    CallDelete 1 (Some (Err ''store: internal failure'')),
    LogError ''error deleting user'' (Err ''store: internal failure''),
    Respond (internalServerError (Err ''dial tcp: connection refused''))]"
  unfolding register_demo
  by (simp add: create_user_def demo_facts first_user_def first_username_def demo_payload_fields
      demo_names create_loop.simps [of _ _ _ 0] mem_apps demo_stores demo_store_def
      mem_CreateAndInvite_def mem_Delete_def take_fault_def after_loop_def
      respond_def emit_def uuid_New_snd split_beta Let_def)

lemma flaky_store:
  "mem_GetByEmail (store (registerUserHandler demo_lib mail_down_app register_body flaky_world))
     ''ann@example.com'' =
   Inr \<lparr>ID = 1, Username = ''annlee0b3055'', FirstName = ''Ann'', LastName = ''Lee'',
        Country = ''NZ'', Email = ''ann@example.com'',
        Password = \<lparr>pw_hash = [98, 99, 100]\<rparr>, Role_Name = ''user''\<rparr>"
  unfolding register_demo
  by (simp add: create_user_def demo_facts first_user_def first_username_def demo_payload_fields
      demo_names create_loop.simps [of _ _ _ 0] mem_apps demo_stores demo_store_def
      mem_CreateAndInvite_def mem_Delete_def mem_GetByEmail_def take_fault_def after_loop_def
      respond_def emit_def uuid_New_snd split_beta Let_def)


section \<open>Username conflicts\<close>

text \<open>
  Claim C1. Whenever the repository answers a create of \<open>registerUserHandler\<close> with
  \<open>ErrDuplicateUsername\<close>, fewer than five creates have been made before it and the run
  makes at most five creates in all; the handler then calls \<open>generateUsername\<close> on the
  payload's first name, last name and email. If the conflict was at one of the first four
  creates, the next call is a create of the same account under the new username, with the
  same token hash and expiry. If it was at the fifth, the handler answers
  \<open>badRequestResponse ErrDuplicateUsername\<close>, status 400, and stops: the failure is the
  duplicate-username one, not \<open>internalServerError\<close>.
\<close>

theorem username_conflict_retries:
  assumes "trace (registerUserHandler lib app body w) =
             trace w @ pre @ CallCreateAndInvite u h e (Inl ErrDuplicateUsername) # post"
  shows "length (filter is_create pre) < 5 \<and>
         length (filter is_create (pre @ CallCreateAndInvite u h e (Inl ErrDuplicateUsername) # post)) \<le> 5 \<and>
         (\<exists>m name r.
            readJSON lib RegisterUserPayload_json body = Inr m \<and>
            name = fst (generateUsername (reg_FirstName (RegisterUserPayload_of m))
                          (reg_LastName (RegisterUserPayload_of m))
                          (reg_Email (RegisterUserPayload_of m)) r) \<and>
            (if length (filter is_create pre) < 4
             then \<exists>res rest. post = CallGenerateUsername name #
                                   CallCreateAndInvite (u\<lparr>Username := name\<rparr>) h e res # rest
             else post = [CallGenerateUsername name,
                          Respond (badRequestResponse ErrDuplicateUsername)])) \<and>
         status_of (badRequestResponse ErrDuplicateUsername) = 400"
proof (cases rule: register_cases [of lib app body w])
  case (rejected err)
  let ?ev = "CallCreateAndInvite u h e (Inl ErrDuplicateUsername)"
  from rejected assms have "pre @ ?ev # post = [Respond (badRequestResponse err)]" by simp
  then have False by (cases pre) simp_all
  then show ?thesis ..
next
  case (hash_failed m p err)
  let ?ev = "CallCreateAndInvite u h e (Inl ErrDuplicateUsername)"
  from hash_failed assms have "pre @ ?ev # post =
      (if reg_Username p = [] then [CallGenerateUsername (first_username p (rand w))] else []) @
         [Respond (internalServerError err)]" by simp
  moreover have "?ev \<in> set (pre @ ?ev # post)" by simp
  ultimately have "?ev \<in> set ((if reg_Username p = [] then [CallGenerateUsername (first_username p (rand w))] else []) @
         [Respond (internalServerError err)])"
    by (simp only:)
  then have False by (simp split: if_splits)
  then show ?thesis ..
next
  case (looped m p pw fl user' w3 L)
  let ?ev = "CallCreateAndInvite u h e (Inl ErrDuplicateUsername)"
  define G where "G = (if reg_Username p = [] then [CallGenerateUsername (first_username p (rand w))] else [])"
  define tok where "tok = plain_token p (rand w)"
  define hw where "hw = registerUserHandler lib app body w"
  define h0 where "h0 = EncodeToString (Sum256 lib (plain_token p (rand w)))"
  define u0 where "u0 = first_user p (rand w) pw"
  have run: "loop_run p h0 (mail_exp (config app)) 0 u0 fl user' L"
    unfolding h0_def u0_def by (rule looped(6))
  have tw3: "trace w3 = trace w @ G @ L" unfolding G_def by (rule looped(7))
  have hh: "hw = (if fl = Returned then w3 else after_loop app tok user' w3)"
    unfolding tok_def hw_def by (rule looped(8))
  from register_looped_trace [OF tw3 hh] obtain A where
    A: "trace hw = trace w @ G @ L @ A"
       "fl = Proceed \<longrightarrow> trace (after_loop app tok user' w3) = trace w3 @ A"
       "\<forall>x\<in>set A. \<not> is_create x \<and> (\<forall>n. x \<noteq> CallGenerateUsername n)"
    by (elim exE conjE)
  from A(1) assms have eq: "pre @ ?ev # post = G @ L @ A" by (simp add: hw_def)
  have "?ev \<notin> set G" by (simp add: G_def)
  moreover have "?ev \<notin> set A" using A(3) by auto
  ultimately obtain m1 m2 where m: "L = m1 @ ?ev # m2" "pre = G @ m1" "post = m2 @ A"
    using split_middle [OF eq] by blast
  have cG: "filter is_create G = []" by (simp add: G_def)
  have cA: "filter is_create A = []" using A(3) by (rule filter_create_no_creates)
  have cpre: "length (filter is_create pre) = length (filter is_create m1)"
    using m(2) cG by simp
  have total: "length (filter is_create (pre @ ?ev # post)) \<le> 5"
    using loop_run_count [OF run] eq cG cA by simp
  from loop_run_dup_username [OF run m(1)] obtain name r where
    d: "h = h0" "e = mail_exp (config app)" "length (filter is_create m1) < 5"
       "name = fst (generateUsername (reg_FirstName p) (reg_LastName p) (reg_Email p) r)"
       "if length (filter is_create m1) < 4
        then \<exists>res rest. m2 = CallGenerateUsername name # CallCreateAndInvite (u\<lparr>Username := name\<rparr>) h0 (mail_exp (config app)) res # rest
        else m2 = [CallGenerateUsername name] \<and> fl = Proceed \<and> ID user' = ID u"
    by auto
  have shape: "if length (filter is_create pre) < 4
      then \<exists>res rest. post = CallGenerateUsername name # CallCreateAndInvite (u\<lparr>Username := name\<rparr>) h e res # rest
      else post = [CallGenerateUsername name, Respond (badRequestResponse ErrDuplicateUsername)]"
  proof (cases "length (filter is_create m1) < 4")
    case True
    with d(5) obtain res rest where
      "m2 = CallGenerateUsername name # CallCreateAndInvite (u\<lparr>Username := name\<rparr>) h0 (mail_exp (config app)) res # rest"
      by auto
    with m(3) d(1,2) have "post = CallGenerateUsername name # CallCreateAndInvite (u\<lparr>Username := name\<rparr>) h e res # (rest @ A)"
      by simp
    with True cpre show ?thesis by auto
  next
    case False
    with d(5) have e5: "m2 = [CallGenerateUsername name]" "fl = Proceed" "ID user' = ID u" by simp_all
    have "?ev \<in> set L" using m(1) by simp
    from loop_run_create_user [OF run this] have "ID u = ID u0" by simp
    then have "ID user' = 0" using e5(3) by (simp add: u0_def first_user_def)
    from after_loop_zero [OF this, of app tok w3] A(2) e5(2)
    have "A = [Respond (badRequestResponse ErrDuplicateUsername)]" by simp
    with m(3) e5(1) False cpre show ?thesis by simp
  qed
  from looped(1,2) d(4) shape
  have "\<exists>m name r.
            readJSON lib RegisterUserPayload_json body = Inr m \<and>
            name = fst (generateUsername (reg_FirstName (RegisterUserPayload_of m))
                          (reg_LastName (RegisterUserPayload_of m))
                          (reg_Email (RegisterUserPayload_of m)) r) \<and>
            (if length (filter is_create pre) < 4
             then \<exists>res rest. post = CallGenerateUsername name #
                                   CallCreateAndInvite (u\<lparr>Username := name\<rparr>) h e res # rest
             else post = [CallGenerateUsername name,
                          Respond (badRequestResponse ErrDuplicateUsername)])"
    by blast
  with total cpre d(3) show ?thesis by simp
qed

theorem username_conflict_retries_witness:
  "(trace (registerUserHandler demo_lib taken_app register_body demo_world) =
     trace demo_world @
     [CallGenerateUsername ''annlee0b3055''] @
     CallCreateAndInvite
      \<lparr>ID = 0, Username = ''annlee0b3055'', FirstName = ''Ann'', LastName = ''Lee'', Country = ''NZ'', Email = ''ann@example.com'', Password = \<lparr>pw_hash = [98, 99, 100]\<rparr>, Role_Name = ''user''\<rparr>
      (EncodeToString (Sum256 demo_lib ''5b80a5ca-ef14-495e-83a8-cdf2173c6186'')) 259200000000000 (Inl ErrDuplicateUsername) #
     [CallGenerateUsername (name_at 32),
     CallCreateAndInvite
      \<lparr>ID = 0, Username = (name_at 32), FirstName = ''Ann'', LastName = ''Lee'', Country = ''NZ'', Email = ''ann@example.com'', Password = \<lparr>pw_hash = [98, 99, 100]\<rparr>, Role_Name = ''user''\<rparr>
      (EncodeToString (Sum256 demo_lib ''5b80a5ca-ef14-495e-83a8-cdf2173c6186'')) 259200000000000 (Inl ErrDuplicateUsername),
     CallGenerateUsername (name_at 48),
     CallCreateAndInvite
      \<lparr>ID = 0, Username = (name_at 48), FirstName = ''Ann'', LastName = ''Lee'', Country = ''NZ'', Email = ''ann@example.com'', Password = \<lparr>pw_hash = [98, 99, 100]\<rparr>, Role_Name = ''user''\<rparr>
      (EncodeToString (Sum256 demo_lib ''5b80a5ca-ef14-495e-83a8-cdf2173c6186'')) 259200000000000 (Inl ErrDuplicateUsername),
     CallGenerateUsername (name_at 64),
     CallCreateAndInvite
      \<lparr>ID = 0, Username = (name_at 64), FirstName = ''Ann'', LastName = ''Lee'', Country = ''NZ'', Email = ''ann@example.com'', Password = \<lparr>pw_hash = [98, 99, 100]\<rparr>, Role_Name = ''user''\<rparr>
      (EncodeToString (Sum256 demo_lib ''5b80a5ca-ef14-495e-83a8-cdf2173c6186'')) 259200000000000 (Inl ErrDuplicateUsername),
     CallGenerateUsername (name_at 80),
     CallCreateAndInvite
      \<lparr>ID = 0, Username = (name_at 80), FirstName = ''Ann'', LastName = ''Lee'', Country = ''NZ'', Email = ''ann@example.com'', Password = \<lparr>pw_hash = [98, 99, 100]\<rparr>, Role_Name = ''user''\<rparr>
      (EncodeToString (Sum256 demo_lib ''5b80a5ca-ef14-495e-83a8-cdf2173c6186'')) 259200000000000 (Inl ErrDuplicateUsername),
     CallGenerateUsername (name_at 96),
     Respond (badRequestResponse ErrDuplicateUsername)]) \<and>
   (length (filter is_create
     [CallGenerateUsername ''annlee0b3055'']) < 5 \<and>
   length (filter is_create
     ([CallGenerateUsername ''annlee0b3055''] @
      CallCreateAndInvite
      \<lparr>ID = 0, Username = ''annlee0b3055'', FirstName = ''Ann'', LastName = ''Lee'', Country = ''NZ'', Email = ''ann@example.com'', Password = \<lparr>pw_hash = [98, 99, 100]\<rparr>, Role_Name = ''user''\<rparr>
      (EncodeToString (Sum256 demo_lib ''5b80a5ca-ef14-495e-83a8-cdf2173c6186'')) 259200000000000 (Inl ErrDuplicateUsername) #
      [CallGenerateUsername (name_at 32),
     CallCreateAndInvite
      \<lparr>ID = 0, Username = (name_at 32), FirstName = ''Ann'', LastName = ''Lee'', Country = ''NZ'', Email = ''ann@example.com'', Password = \<lparr>pw_hash = [98, 99, 100]\<rparr>, Role_Name = ''user''\<rparr>
      (EncodeToString (Sum256 demo_lib ''5b80a5ca-ef14-495e-83a8-cdf2173c6186'')) 259200000000000 (Inl ErrDuplicateUsername),
     CallGenerateUsername (name_at 48),
     CallCreateAndInvite
      \<lparr>ID = 0, Username = (name_at 48), FirstName = ''Ann'', LastName = ''Lee'', Country = ''NZ'', Email = ''ann@example.com'', Password = \<lparr>pw_hash = [98, 99, 100]\<rparr>, Role_Name = ''user''\<rparr>
      (EncodeToString (Sum256 demo_lib ''5b80a5ca-ef14-495e-83a8-cdf2173c6186'')) 259200000000000 (Inl ErrDuplicateUsername),
     CallGenerateUsername (name_at 64),
     CallCreateAndInvite
      \<lparr>ID = 0, Username = (name_at 64), FirstName = ''Ann'', LastName = ''Lee'', Country = ''NZ'', Email = ''ann@example.com'', Password = \<lparr>pw_hash = [98, 99, 100]\<rparr>, Role_Name = ''user''\<rparr>
      (EncodeToString (Sum256 demo_lib ''5b80a5ca-ef14-495e-83a8-cdf2173c6186'')) 259200000000000 (Inl ErrDuplicateUsername),
     CallGenerateUsername (name_at 80),
     CallCreateAndInvite
      \<lparr>ID = 0, Username = (name_at 80), FirstName = ''Ann'', LastName = ''Lee'', Country = ''NZ'', Email = ''ann@example.com'', Password = \<lparr>pw_hash = [98, 99, 100]\<rparr>, Role_Name = ''user''\<rparr>
      (EncodeToString (Sum256 demo_lib ''5b80a5ca-ef14-495e-83a8-cdf2173c6186'')) 259200000000000 (Inl ErrDuplicateUsername),
     CallGenerateUsername (name_at 96),
     Respond (badRequestResponse ErrDuplicateUsername)])) \<le> 5 \<and>
   (\<exists>m name r.
      readJSON demo_lib RegisterUserPayload_json register_body = Inr m \<and>
      name = fst (generateUsername (reg_FirstName (RegisterUserPayload_of m))
                    (reg_LastName (RegisterUserPayload_of m))
                    (reg_Email (RegisterUserPayload_of m)) r) \<and>
      (if length (filter is_create
            [CallGenerateUsername ''annlee0b3055'']) < 4
       then \<exists>res rest.
              [CallGenerateUsername (name_at 32),
     CallCreateAndInvite
      \<lparr>ID = 0, Username = (name_at 32), FirstName = ''Ann'', LastName = ''Lee'', Country = ''NZ'', Email = ''ann@example.com'', Password = \<lparr>pw_hash = [98, 99, 100]\<rparr>, Role_Name = ''user''\<rparr>
      (EncodeToString (Sum256 demo_lib ''5b80a5ca-ef14-495e-83a8-cdf2173c6186'')) 259200000000000 (Inl ErrDuplicateUsername),
     CallGenerateUsername (name_at 48),
     CallCreateAndInvite
      \<lparr>ID = 0, Username = (name_at 48), FirstName = ''Ann'', LastName = ''Lee'', Country = ''NZ'', Email = ''ann@example.com'', Password = \<lparr>pw_hash = [98, 99, 100]\<rparr>, Role_Name = ''user''\<rparr>
      (EncodeToString (Sum256 demo_lib ''5b80a5ca-ef14-495e-83a8-cdf2173c6186'')) 259200000000000 (Inl ErrDuplicateUsername),
     CallGenerateUsername (name_at 64),
     CallCreateAndInvite
      \<lparr>ID = 0, Username = (name_at 64), FirstName = ''Ann'', LastName = ''Lee'', Country = ''NZ'', Email = ''ann@example.com'', Password = \<lparr>pw_hash = [98, 99, 100]\<rparr>, Role_Name = ''user''\<rparr>
      (EncodeToString (Sum256 demo_lib ''5b80a5ca-ef14-495e-83a8-cdf2173c6186'')) 259200000000000 (Inl ErrDuplicateUsername),
     CallGenerateUsername (name_at 80),
     CallCreateAndInvite
      \<lparr>ID = 0, Username = (name_at 80), FirstName = ''Ann'', LastName = ''Lee'', Country = ''NZ'', Email = ''ann@example.com'', Password = \<lparr>pw_hash = [98, 99, 100]\<rparr>, Role_Name = ''user''\<rparr>
      (EncodeToString (Sum256 demo_lib ''5b80a5ca-ef14-495e-83a8-cdf2173c6186'')) 259200000000000 (Inl ErrDuplicateUsername),
     CallGenerateUsername (name_at 96),
     Respond (badRequestResponse ErrDuplicateUsername)] =
              CallGenerateUsername name #
              CallCreateAndInvite
                (\<lparr>ID = 0, Username = ''annlee0b3055'', FirstName = ''Ann'', LastName = ''Lee'', Country = ''NZ'', Email = ''ann@example.com'', Password = \<lparr>pw_hash = [98, 99, 100]\<rparr>, Role_Name = ''user''\<rparr>\<lparr>Username := name\<rparr>)
                (EncodeToString (Sum256 demo_lib ''5b80a5ca-ef14-495e-83a8-cdf2173c6186'')) 259200000000000 res # rest
       else [CallGenerateUsername (name_at 32),
     CallCreateAndInvite
      \<lparr>ID = 0, Username = (name_at 32), FirstName = ''Ann'', LastName = ''Lee'', Country = ''NZ'', Email = ''ann@example.com'', Password = \<lparr>pw_hash = [98, 99, 100]\<rparr>, Role_Name = ''user''\<rparr>
      (EncodeToString (Sum256 demo_lib ''5b80a5ca-ef14-495e-83a8-cdf2173c6186'')) 259200000000000 (Inl ErrDuplicateUsername),
     CallGenerateUsername (name_at 48),
     CallCreateAndInvite
      \<lparr>ID = 0, Username = (name_at 48), FirstName = ''Ann'', LastName = ''Lee'', Country = ''NZ'', Email = ''ann@example.com'', Password = \<lparr>pw_hash = [98, 99, 100]\<rparr>, Role_Name = ''user''\<rparr>
      (EncodeToString (Sum256 demo_lib ''5b80a5ca-ef14-495e-83a8-cdf2173c6186'')) 259200000000000 (Inl ErrDuplicateUsername),
     CallGenerateUsername (name_at 64),
     CallCreateAndInvite
      \<lparr>ID = 0, Username = (name_at 64), FirstName = ''Ann'', LastName = ''Lee'', Country = ''NZ'', Email = ''ann@example.com'', Password = \<lparr>pw_hash = [98, 99, 100]\<rparr>, Role_Name = ''user''\<rparr>
      (EncodeToString (Sum256 demo_lib ''5b80a5ca-ef14-495e-83a8-cdf2173c6186'')) 259200000000000 (Inl ErrDuplicateUsername),
     CallGenerateUsername (name_at 80),
     CallCreateAndInvite
      \<lparr>ID = 0, Username = (name_at 80), FirstName = ''Ann'', LastName = ''Lee'', Country = ''NZ'', Email = ''ann@example.com'', Password = \<lparr>pw_hash = [98, 99, 100]\<rparr>, Role_Name = ''user''\<rparr>
      (EncodeToString (Sum256 demo_lib ''5b80a5ca-ef14-495e-83a8-cdf2173c6186'')) 259200000000000 (Inl ErrDuplicateUsername),
     CallGenerateUsername (name_at 96),
     Respond (badRequestResponse ErrDuplicateUsername)] =
            [CallGenerateUsername name, Respond (badRequestResponse ErrDuplicateUsername)])) \<and>
   status_of (badRequestResponse ErrDuplicateUsername) = 400) \<and>
   (trace (registerUserHandler demo_lib taken_app register_body demo_world) =
     trace demo_world @
     [CallGenerateUsername ''annlee0b3055'',
     CallCreateAndInvite
      \<lparr>ID = 0, Username = ''annlee0b3055'', FirstName = ''Ann'', LastName = ''Lee'', Country = ''NZ'', Email = ''ann@example.com'', Password = \<lparr>pw_hash = [98, 99, 100]\<rparr>, Role_Name = ''user''\<rparr>
      (EncodeToString (Sum256 demo_lib ''5b80a5ca-ef14-495e-83a8-cdf2173c6186'')) 259200000000000 (Inl ErrDuplicateUsername),
     CallGenerateUsername (name_at 32),
     CallCreateAndInvite
      \<lparr>ID = 0, Username = (name_at 32), FirstName = ''Ann'', LastName = ''Lee'', Country = ''NZ'', Email = ''ann@example.com'', Password = \<lparr>pw_hash = [98, 99, 100]\<rparr>, Role_Name = ''user''\<rparr>
      (EncodeToString (Sum256 demo_lib ''5b80a5ca-ef14-495e-83a8-cdf2173c6186'')) 259200000000000 (Inl ErrDuplicateUsername),
     CallGenerateUsername (name_at 48),
     CallCreateAndInvite
      \<lparr>ID = 0, Username = (name_at 48), FirstName = ''Ann'', LastName = ''Lee'', Country = ''NZ'', Email = ''ann@example.com'', Password = \<lparr>pw_hash = [98, 99, 100]\<rparr>, Role_Name = ''user''\<rparr>
      (EncodeToString (Sum256 demo_lib ''5b80a5ca-ef14-495e-83a8-cdf2173c6186'')) 259200000000000 (Inl ErrDuplicateUsername),
     CallGenerateUsername (name_at 64),
     CallCreateAndInvite
      \<lparr>ID = 0, Username = (name_at 64), FirstName = ''Ann'', LastName = ''Lee'', Country = ''NZ'', Email = ''ann@example.com'', Password = \<lparr>pw_hash = [98, 99, 100]\<rparr>, Role_Name = ''user''\<rparr>
      (EncodeToString (Sum256 demo_lib ''5b80a5ca-ef14-495e-83a8-cdf2173c6186'')) 259200000000000 (Inl ErrDuplicateUsername),
     CallGenerateUsername (name_at 80)] @
     CallCreateAndInvite
      \<lparr>ID = 0, Username = (name_at 80), FirstName = ''Ann'', LastName = ''Lee'', Country = ''NZ'', Email = ''ann@example.com'', Password = \<lparr>pw_hash = [98, 99, 100]\<rparr>, Role_Name = ''user''\<rparr>
      (EncodeToString (Sum256 demo_lib ''5b80a5ca-ef14-495e-83a8-cdf2173c6186'')) 259200000000000 (Inl ErrDuplicateUsername) #
     [CallGenerateUsername (name_at 96),
     Respond (badRequestResponse ErrDuplicateUsername)]) \<and>
   (length (filter is_create
     [CallGenerateUsername ''annlee0b3055'',
     CallCreateAndInvite
      \<lparr>ID = 0, Username = ''annlee0b3055'', FirstName = ''Ann'', LastName = ''Lee'', Country = ''NZ'', Email = ''ann@example.com'', Password = \<lparr>pw_hash = [98, 99, 100]\<rparr>, Role_Name = ''user''\<rparr>
      (EncodeToString (Sum256 demo_lib ''5b80a5ca-ef14-495e-83a8-cdf2173c6186'')) 259200000000000 (Inl ErrDuplicateUsername),
     CallGenerateUsername (name_at 32),
     CallCreateAndInvite
      \<lparr>ID = 0, Username = (name_at 32), FirstName = ''Ann'', LastName = ''Lee'', Country = ''NZ'', Email = ''ann@example.com'', Password = \<lparr>pw_hash = [98, 99, 100]\<rparr>, Role_Name = ''user''\<rparr>
      (EncodeToString (Sum256 demo_lib ''5b80a5ca-ef14-495e-83a8-cdf2173c6186'')) 259200000000000 (Inl ErrDuplicateUsername),
     CallGenerateUsername (name_at 48),
     CallCreateAndInvite
      \<lparr>ID = 0, Username = (name_at 48), FirstName = ''Ann'', LastName = ''Lee'', Country = ''NZ'', Email = ''ann@example.com'', Password = \<lparr>pw_hash = [98, 99, 100]\<rparr>, Role_Name = ''user''\<rparr>
      (EncodeToString (Sum256 demo_lib ''5b80a5ca-ef14-495e-83a8-cdf2173c6186'')) 259200000000000 (Inl ErrDuplicateUsername),
     CallGenerateUsername (name_at 64),
     CallCreateAndInvite
      \<lparr>ID = 0, Username = (name_at 64), FirstName = ''Ann'', LastName = ''Lee'', Country = ''NZ'', Email = ''ann@example.com'', Password = \<lparr>pw_hash = [98, 99, 100]\<rparr>, Role_Name = ''user''\<rparr>
      (EncodeToString (Sum256 demo_lib ''5b80a5ca-ef14-495e-83a8-cdf2173c6186'')) 259200000000000 (Inl ErrDuplicateUsername),
     CallGenerateUsername (name_at 80)]) < 5 \<and>
   length (filter is_create
     ([CallGenerateUsername ''annlee0b3055'',
     CallCreateAndInvite
      \<lparr>ID = 0, Username = ''annlee0b3055'', FirstName = ''Ann'', LastName = ''Lee'', Country = ''NZ'', Email = ''ann@example.com'', Password = \<lparr>pw_hash = [98, 99, 100]\<rparr>, Role_Name = ''user''\<rparr>
      (EncodeToString (Sum256 demo_lib ''5b80a5ca-ef14-495e-83a8-cdf2173c6186'')) 259200000000000 (Inl ErrDuplicateUsername),
     CallGenerateUsername (name_at 32),
     CallCreateAndInvite
      \<lparr>ID = 0, Username = (name_at 32), FirstName = ''Ann'', LastName = ''Lee'', Country = ''NZ'', Email = ''ann@example.com'', Password = \<lparr>pw_hash = [98, 99, 100]\<rparr>, Role_Name = ''user''\<rparr>
      (EncodeToString (Sum256 demo_lib ''5b80a5ca-ef14-495e-83a8-cdf2173c6186'')) 259200000000000 (Inl ErrDuplicateUsername),
     CallGenerateUsername (name_at 48),
     CallCreateAndInvite
      \<lparr>ID = 0, Username = (name_at 48), FirstName = ''Ann'', LastName = ''Lee'', Country = ''NZ'', Email = ''ann@example.com'', Password = \<lparr>pw_hash = [98, 99, 100]\<rparr>, Role_Name = ''user''\<rparr>
      (EncodeToString (Sum256 demo_lib ''5b80a5ca-ef14-495e-83a8-cdf2173c6186'')) 259200000000000 (Inl ErrDuplicateUsername),
     CallGenerateUsername (name_at 64),
     CallCreateAndInvite
      \<lparr>ID = 0, Username = (name_at 64), FirstName = ''Ann'', LastName = ''Lee'', Country = ''NZ'', Email = ''ann@example.com'', Password = \<lparr>pw_hash = [98, 99, 100]\<rparr>, Role_Name = ''user''\<rparr>
      (EncodeToString (Sum256 demo_lib ''5b80a5ca-ef14-495e-83a8-cdf2173c6186'')) 259200000000000 (Inl ErrDuplicateUsername),
     CallGenerateUsername (name_at 80)] @
      CallCreateAndInvite
      \<lparr>ID = 0, Username = (name_at 80), FirstName = ''Ann'', LastName = ''Lee'', Country = ''NZ'', Email = ''ann@example.com'', Password = \<lparr>pw_hash = [98, 99, 100]\<rparr>, Role_Name = ''user''\<rparr>
      (EncodeToString (Sum256 demo_lib ''5b80a5ca-ef14-495e-83a8-cdf2173c6186'')) 259200000000000 (Inl ErrDuplicateUsername) #
      [CallGenerateUsername (name_at 96),
     Respond (badRequestResponse ErrDuplicateUsername)])) \<le> 5 \<and>
   (\<exists>m name r.
      readJSON demo_lib RegisterUserPayload_json register_body = Inr m \<and>
      name = fst (generateUsername (reg_FirstName (RegisterUserPayload_of m))
                    (reg_LastName (RegisterUserPayload_of m))
                    (reg_Email (RegisterUserPayload_of m)) r) \<and>
      (if length (filter is_create
            [CallGenerateUsername ''annlee0b3055'',
     CallCreateAndInvite
      \<lparr>ID = 0, Username = ''annlee0b3055'', FirstName = ''Ann'', LastName = ''Lee'', Country = ''NZ'', Email = ''ann@example.com'', Password = \<lparr>pw_hash = [98, 99, 100]\<rparr>, Role_Name = ''user''\<rparr>
      (EncodeToString (Sum256 demo_lib ''5b80a5ca-ef14-495e-83a8-cdf2173c6186'')) 259200000000000 (Inl ErrDuplicateUsername),
     CallGenerateUsername (name_at 32),
     CallCreateAndInvite
      \<lparr>ID = 0, Username = (name_at 32), FirstName = ''Ann'', LastName = ''Lee'', Country = ''NZ'', Email = ''ann@example.com'', Password = \<lparr>pw_hash = [98, 99, 100]\<rparr>, Role_Name = ''user''\<rparr>
      (EncodeToString (Sum256 demo_lib ''5b80a5ca-ef14-495e-83a8-cdf2173c6186'')) 259200000000000 (Inl ErrDuplicateUsername),
     CallGenerateUsername (name_at 48),
     CallCreateAndInvite
      \<lparr>ID = 0, Username = (name_at 48), FirstName = ''Ann'', LastName = ''Lee'', Country = ''NZ'', Email = ''ann@example.com'', Password = \<lparr>pw_hash = [98, 99, 100]\<rparr>, Role_Name = ''user''\<rparr>
      (EncodeToString (Sum256 demo_lib ''5b80a5ca-ef14-495e-83a8-cdf2173c6186'')) 259200000000000 (Inl ErrDuplicateUsername),
     CallGenerateUsername (name_at 64),
     CallCreateAndInvite
      \<lparr>ID = 0, Username = (name_at 64), FirstName = ''Ann'', LastName = ''Lee'', Country = ''NZ'', Email = ''ann@example.com'', Password = \<lparr>pw_hash = [98, 99, 100]\<rparr>, Role_Name = ''user''\<rparr>
      (EncodeToString (Sum256 demo_lib ''5b80a5ca-ef14-495e-83a8-cdf2173c6186'')) 259200000000000 (Inl ErrDuplicateUsername),
     CallGenerateUsername (name_at 80)]) < 4
       then \<exists>res rest.
              [CallGenerateUsername (name_at 96),
     Respond (badRequestResponse ErrDuplicateUsername)] =
              CallGenerateUsername name #
              CallCreateAndInvite
                (\<lparr>ID = 0, Username = (name_at 80), FirstName = ''Ann'', LastName = ''Lee'', Country = ''NZ'', Email = ''ann@example.com'', Password = \<lparr>pw_hash = [98, 99, 100]\<rparr>, Role_Name = ''user''\<rparr>\<lparr>Username := name\<rparr>)
                (EncodeToString (Sum256 demo_lib ''5b80a5ca-ef14-495e-83a8-cdf2173c6186'')) 259200000000000 res # rest
       else [CallGenerateUsername (name_at 96),
     Respond (badRequestResponse ErrDuplicateUsername)] =
            [CallGenerateUsername name, Respond (badRequestResponse ErrDuplicateUsername)])) \<and>
   status_of (badRequestResponse ErrDuplicateUsername) = 400)"
proof -
  have first: "trace (registerUserHandler demo_lib taken_app register_body demo_world) =
     trace demo_world @
     [CallGenerateUsername ''annlee0b3055''] @
     CallCreateAndInvite
      \<lparr>ID = 0, Username = ''annlee0b3055'', FirstName = ''Ann'', LastName = ''Lee'', Country = ''NZ'', Email = ''ann@example.com'', Password = \<lparr>pw_hash = [98, 99, 100]\<rparr>, Role_Name = ''user''\<rparr>
      (EncodeToString (Sum256 demo_lib ''5b80a5ca-ef14-495e-83a8-cdf2173c6186'')) 259200000000000 (Inl ErrDuplicateUsername) #
     [CallGenerateUsername (name_at 32),
     CallCreateAndInvite
      \<lparr>ID = 0, Username = (name_at 32), FirstName = ''Ann'', LastName = ''Lee'', Country = ''NZ'', Email = ''ann@example.com'', Password = \<lparr>pw_hash = [98, 99, 100]\<rparr>, Role_Name = ''user''\<rparr>
      (EncodeToString (Sum256 demo_lib ''5b80a5ca-ef14-495e-83a8-cdf2173c6186'')) 259200000000000 (Inl ErrDuplicateUsername),
     CallGenerateUsername (name_at 48),
     CallCreateAndInvite
      \<lparr>ID = 0, Username = (name_at 48), FirstName = ''Ann'', LastName = ''Lee'', Country = ''NZ'', Email = ''ann@example.com'', Password = \<lparr>pw_hash = [98, 99, 100]\<rparr>, Role_Name = ''user''\<rparr>
      (EncodeToString (Sum256 demo_lib ''5b80a5ca-ef14-495e-83a8-cdf2173c6186'')) 259200000000000 (Inl ErrDuplicateUsername),
     CallGenerateUsername (name_at 64),
     CallCreateAndInvite
      \<lparr>ID = 0, Username = (name_at 64), FirstName = ''Ann'', LastName = ''Lee'', Country = ''NZ'', Email = ''ann@example.com'', Password = \<lparr>pw_hash = [98, 99, 100]\<rparr>, Role_Name = ''user''\<rparr>
      (EncodeToString (Sum256 demo_lib ''5b80a5ca-ef14-495e-83a8-cdf2173c6186'')) 259200000000000 (Inl ErrDuplicateUsername),
     CallGenerateUsername (name_at 80),
     CallCreateAndInvite
      \<lparr>ID = 0, Username = (name_at 80), FirstName = ''Ann'', LastName = ''Lee'', Country = ''NZ'', Email = ''ann@example.com'', Password = \<lparr>pw_hash = [98, 99, 100]\<rparr>, Role_Name = ''user''\<rparr>
      (EncodeToString (Sum256 demo_lib ''5b80a5ca-ef14-495e-83a8-cdf2173c6186'')) 259200000000000 (Inl ErrDuplicateUsername),
     CallGenerateUsername (name_at 96),
     Respond (badRequestResponse ErrDuplicateUsername)]"
    by (simp add: taken_run demo_facts)
  have fifth: "trace (registerUserHandler demo_lib taken_app register_body demo_world) =
     trace demo_world @
     [CallGenerateUsername ''annlee0b3055'',
     CallCreateAndInvite
      \<lparr>ID = 0, Username = ''annlee0b3055'', FirstName = ''Ann'', LastName = ''Lee'', Country = ''NZ'', Email = ''ann@example.com'', Password = \<lparr>pw_hash = [98, 99, 100]\<rparr>, Role_Name = ''user''\<rparr>
      (EncodeToString (Sum256 demo_lib ''5b80a5ca-ef14-495e-83a8-cdf2173c6186'')) 259200000000000 (Inl ErrDuplicateUsername),
     CallGenerateUsername (name_at 32),
     CallCreateAndInvite
      \<lparr>ID = 0, Username = (name_at 32), FirstName = ''Ann'', LastName = ''Lee'', Country = ''NZ'', Email = ''ann@example.com'', Password = \<lparr>pw_hash = [98, 99, 100]\<rparr>, Role_Name = ''user''\<rparr>
      (EncodeToString (Sum256 demo_lib ''5b80a5ca-ef14-495e-83a8-cdf2173c6186'')) 259200000000000 (Inl ErrDuplicateUsername),
     CallGenerateUsername (name_at 48),
     CallCreateAndInvite
      \<lparr>ID = 0, Username = (name_at 48), FirstName = ''Ann'', LastName = ''Lee'', Country = ''NZ'', Email = ''ann@example.com'', Password = \<lparr>pw_hash = [98, 99, 100]\<rparr>, Role_Name = ''user''\<rparr>
      (EncodeToString (Sum256 demo_lib ''5b80a5ca-ef14-495e-83a8-cdf2173c6186'')) 259200000000000 (Inl ErrDuplicateUsername),
     CallGenerateUsername (name_at 64),
     CallCreateAndInvite
      \<lparr>ID = 0, Username = (name_at 64), FirstName = ''Ann'', LastName = ''Lee'', Country = ''NZ'', Email = ''ann@example.com'', Password = \<lparr>pw_hash = [98, 99, 100]\<rparr>, Role_Name = ''user''\<rparr>
      (EncodeToString (Sum256 demo_lib ''5b80a5ca-ef14-495e-83a8-cdf2173c6186'')) 259200000000000 (Inl ErrDuplicateUsername),
     CallGenerateUsername (name_at 80)] @
     CallCreateAndInvite
      \<lparr>ID = 0, Username = (name_at 80), FirstName = ''Ann'', LastName = ''Lee'', Country = ''NZ'', Email = ''ann@example.com'', Password = \<lparr>pw_hash = [98, 99, 100]\<rparr>, Role_Name = ''user''\<rparr>
      (EncodeToString (Sum256 demo_lib ''5b80a5ca-ef14-495e-83a8-cdf2173c6186'')) 259200000000000 (Inl ErrDuplicateUsername) #
     [CallGenerateUsername (name_at 96),
     Respond (badRequestResponse ErrDuplicateUsername)]"
    by (simp add: taken_run demo_facts)
  show ?thesis
    by (rule conjI [OF first conjI [OF username_conflict_retries [OF first]
          conjI [OF fifth username_conflict_retries [OF fifth]]]])
qed

lemma read_named_body:
  "readJSON demo_lib RegisterUserPayload_json named_body =
     Inr (Map.empty(''first_name'' \<mapsto> ''Ann'', ''last_name'' \<mapsto> ''Lee'', ''country'' \<mapsto> ''NZ'',
        ''email'' \<mapsto> ''ann@example.com'', ''password'' \<mapsto> ''abc'',
        ''password_confirmation'' \<mapsto> ''abc'', ''username'' \<mapsto> ''ann''))"
  by (simp add: readJSON_def Decode_def named_body_def maxBytes_def find_register_fields)

lemma named_payload_of:
  "RegisterUserPayload_of (Map.empty(''first_name'' \<mapsto> ''Ann'', ''last_name'' \<mapsto> ''Lee'', ''country'' \<mapsto> ''NZ'',
        ''email'' \<mapsto> ''ann@example.com'', ''password'' \<mapsto> ''abc'',
        ''password_confirmation'' \<mapsto> ''abc'', ''username'' \<mapsto> ''ann'')) = named_payload"
  by (simp add: RegisterUserPayload_of_def str_or_empty_def named_payload_def demo_payload_def)

lemma named_payload_valid:
  "Validate_Struct demo_lib RegisterUserPayload_tags (RegisterUserPayload_get named_payload) = None"
  unfolding Validate_Struct_register
  by (simp add: named_payload_def demo_payload_def demo_lib_def RuneCountInString_def runes_def
      DecodeRune.simps)

lemma named_payload_fields:
  "reg_FirstName named_payload = ''Ann''" "reg_LastName named_payload = ''Lee''"
  "reg_Country named_payload = ''NZ''" "reg_Email named_payload = ''ann@example.com''"
  "reg_Password named_payload = ''abc''" "reg_Username named_payload = ''ann''"
  by (simp_all add: named_payload_def demo_payload_def)

lemma register_named:
  "registerUserHandler demo_lib app named_body w =
     create_user demo_lib app named_payload (first_user named_payload (rand w) \<lparr>pw_hash = []\<rparr>) w"
  using register_valid [OF read_named_body named_payload_of [symmetric] named_payload_valid, of app w]
  by (simp add: named_payload_fields)

lemma named_run:
  "trace (registerUserHandler demo_lib demo_app named_body bob_world) =
     [CallCreateAndInvite
      \<lparr>ID = 0, Username = ''ann'', FirstName = ''Ann'', LastName = ''Lee'', Country = ''NZ'', Email = ''ann@example.com'', Password = \<lparr>pw_hash = [98, 99, 100]\<rparr>, Role_Name = ''user''\<rparr>
      (EncodeToString (Sum256 demo_lib ''0b30557a-9fc4-490e-b358-7da2c7ec1136'')) 259200000000000 (Inl ErrDuplicateUsername),
     CallGenerateUsername ''annlee5b80a5'',
     CallCreateAndInvite
      \<lparr>ID = 0, Username = ''annlee5b80a5'', FirstName = ''Ann'', LastName = ''Lee'', Country = ''NZ'', Email = ''ann@example.com'', Password = \<lparr>pw_hash = [98, 99, 100]\<rparr>, Role_Name = ''user''\<rparr>
      (EncodeToString (Sum256 demo_lib ''0b30557a-9fc4-490e-b358-7da2c7ec1136'')) 259200000000000 (Inr 2),
     CallSend ''user_invitation.tmpl'' ''annlee5b80a5'' ''ann@example.com''
      \<lparr>vars_Username = ''annlee5b80a5'', vars_ActivationURL = ''http://localhost:5173/confirm/0b30557a-9fc4-490e-b358-7da2c7ec1136''\<rparr>
      True (200, None),
     LogInfo ''Email sent'' 200,
     Respond (jsonResponse 201
      (UserWithToken
         \<lparr>ID = 2, Username = ''annlee5b80a5'', FirstName = ''Ann'', LastName = ''Lee'', Country = ''NZ'', Email = ''ann@example.com'', Password = \<lparr>pw_hash = [98, 99, 100]\<rparr>, Role_Name = ''user''\<rparr>
         ''0b30557a-9fc4-490e-b358-7da2c7ec1136''))]"
  unfolding register_named
  by (simp add: create_user_def demo_facts first_user_def first_username_def named_payload_fields
      token_at_0 name_at_16 [unfolded name_at_def] create_loop.simps [of _ _ _ 0]
      create_loop.simps [of _ _ _ "Suc 0"] call_generateUsername_eq generateUsername_rander
      mem_apps demo_stores demo_store_def bob_def
      mem_CreateAndInvite_def take_fault_def after_loop_def Noop_Send_def StatusCreated_def
      respond_def emit_def uuid_New_snd split_beta Let_def)

text \<open>
  Claim C9. When the payload supplies a username, the first create carries that username.
  If the repository answers it with \<open>ErrDuplicateUsername\<close>, the handler does not fail the
  request: it calls \<open>generateUsername\<close> on the payload's first name, last name and email
  and creates the account again under the generated username, which replaces the one the
  caller chose.
\<close>

theorem supplied_username_replaced:
  assumes "readJSON lib RegisterUserPayload_json body = Inr m"
    and "reg_Username (RegisterUserPayload_of m) \<noteq> []"
    and "trace (registerUserHandler lib app body w) =
           trace w @ CallCreateAndInvite u h e (Inl ErrDuplicateUsername) # post"
  shows "Username u = reg_Username (RegisterUserPayload_of m) \<and>
         (\<exists>name r res rest.
            name = fst (generateUsername (reg_FirstName (RegisterUserPayload_of m))
                          (reg_LastName (RegisterUserPayload_of m))
                          (reg_Email (RegisterUserPayload_of m)) r) \<and>
            post = CallGenerateUsername name #
                   CallCreateAndInvite (u\<lparr>Username := name\<rparr>) h e res # rest)"
proof (cases rule: register_cases [of lib app body w])
  case (rejected err)
  from rejected assms(3) have False by simp
  then show ?thesis ..
next
  case (hash_failed m' p err)
  with assms(1) have "p = RegisterUserPayload_of m" by simp
  with assms(2) hash_failed(3) assms(3) have False by simp
  then show ?thesis ..
next
  case (looped m' p pw fl user' w3 L)
  let ?ev = "CallCreateAndInvite u h e (Inl ErrDuplicateUsername)"
  from looped(1,2) assms(1) have p: "p = RegisterUserPayload_of m" by simp
  with assms(2) have named: "reg_Username p \<noteq> []" by simp
  define tok where "tok = plain_token p (rand w)"
  define hw where "hw = registerUserHandler lib app body w"
  define h0 where "h0 = EncodeToString (Sum256 lib (plain_token p (rand w)))"
  define u0 where "u0 = first_user p (rand w) pw"
  have run: "loop_run p h0 (mail_exp (config app)) 0 u0 fl user' L"
    unfolding h0_def u0_def by (rule looped(6))
  have tw3: "trace w3 = trace w @ [] @ L" using looped(7) named by simp
  have hh: "hw = (if fl = Returned then w3 else after_loop app tok user' w3)"
    unfolding tok_def hw_def by (rule looped(8))
  from register_looped_trace [OF tw3 hh] obtain A where
    A: "trace hw = trace w @ [] @ L @ A"
       "\<forall>x\<in>set A. \<not> is_create x \<and> (\<forall>n. x \<noteq> CallGenerateUsername n)"
    by (elim exE conjE)
  from A(1) assms(3) have eq: "[] @ ?ev # post = [] @ L @ A" by (simp add: hw_def)
  have "?ev \<notin> set []" by simp
  moreover have "?ev \<notin> set A" using A(2) by auto
  ultimately obtain m1 m2 where m: "L = m1 @ ?ev # m2" "[] = [] @ m1" "post = m2 @ A"
    using split_middle [OF eq] by blast
  then have L: "L = ?ev # m2" by simp
  from loop_run_head [OF run] L have "u = u0" by auto
  then have un: "Username u = reg_Username p"
    using named by (simp add: u0_def first_user_def first_username_def)
  have L': "L = [] @ ?ev # m2" using L by simp
  from loop_run_dup_username [OF run L']
  have "h = h0 \<and> e = mail_exp (config app) \<and>
        (\<exists>name r. name = fst (generateUsername (reg_FirstName p) (reg_LastName p) (reg_Email p) r) \<and>
           (\<exists>res rest. m2 = CallGenerateUsername name #
              CallCreateAndInvite (u\<lparr>Username := name\<rparr>) h0 (mail_exp (config app)) res # rest))"
    by simp
  then obtain name r res rest where
    d: "h = h0" "e = mail_exp (config app)"
       "name = fst (generateUsername (reg_FirstName p) (reg_LastName p) (reg_Email p) r)"
       "m2 = CallGenerateUsername name # CallCreateAndInvite (u\<lparr>Username := name\<rparr>) h0 (mail_exp (config app)) res # rest"
    by (elim exE conjE)
  with m(3) have "post = CallGenerateUsername name # CallCreateAndInvite (u\<lparr>Username := name\<rparr>) h e res # (rest @ A)"
    by simp
  with un d(3) p show ?thesis by blast
qed

theorem supplied_username_replaced_witness:
  "readJSON demo_lib RegisterUserPayload_json named_body =
     Inr (Map.empty(''first_name'' \<mapsto> ''Ann'', ''last_name'' \<mapsto> ''Lee'', ''country'' \<mapsto> ''NZ'',
        ''email'' \<mapsto> ''ann@example.com'', ''password'' \<mapsto> ''abc'',
        ''password_confirmation'' \<mapsto> ''abc'', ''username'' \<mapsto> ''ann'')) \<and>
   reg_Username (RegisterUserPayload_of (Map.empty(''first_name'' \<mapsto> ''Ann'', ''last_name'' \<mapsto> ''Lee'', ''country'' \<mapsto> ''NZ'',
        ''email'' \<mapsto> ''ann@example.com'', ''password'' \<mapsto> ''abc'',
        ''password_confirmation'' \<mapsto> ''abc'', ''username'' \<mapsto> ''ann''))) \<noteq> [] \<and>
   (trace (registerUserHandler demo_lib demo_app named_body bob_world) =
     trace bob_world @
     CallCreateAndInvite
      \<lparr>ID = 0, Username = ''ann'', FirstName = ''Ann'', LastName = ''Lee'', Country = ''NZ'', Email = ''ann@example.com'', Password = \<lparr>pw_hash = [98, 99, 100]\<rparr>, Role_Name = ''user''\<rparr>
      (EncodeToString (Sum256 demo_lib ''0b30557a-9fc4-490e-b358-7da2c7ec1136'')) 259200000000000 (Inl ErrDuplicateUsername) #
     [CallGenerateUsername ''annlee5b80a5'',
     CallCreateAndInvite
      \<lparr>ID = 0, Username = ''annlee5b80a5'', FirstName = ''Ann'', LastName = ''Lee'', Country = ''NZ'', Email = ''ann@example.com'', Password = \<lparr>pw_hash = [98, 99, 100]\<rparr>, Role_Name = ''user''\<rparr>
      (EncodeToString (Sum256 demo_lib ''0b30557a-9fc4-490e-b358-7da2c7ec1136'')) 259200000000000 (Inr 2),
     CallSend ''user_invitation.tmpl'' ''annlee5b80a5'' ''ann@example.com''
      \<lparr>vars_Username = ''annlee5b80a5'', vars_ActivationURL = ''http://localhost:5173/confirm/0b30557a-9fc4-490e-b358-7da2c7ec1136''\<rparr>
      True (200, None),
     LogInfo ''Email sent'' 200,
     Respond (jsonResponse 201
      (UserWithToken
         \<lparr>ID = 2, Username = ''annlee5b80a5'', FirstName = ''Ann'', LastName = ''Lee'', Country = ''NZ'', Email = ''ann@example.com'', Password = \<lparr>pw_hash = [98, 99, 100]\<rparr>, Role_Name = ''user''\<rparr>
         ''0b30557a-9fc4-490e-b358-7da2c7ec1136''))]) \<and>
   Username \<lparr>ID = 0, Username = ''ann'', FirstName = ''Ann'', LastName = ''Lee'', Country = ''NZ'', Email = ''ann@example.com'', Password = \<lparr>pw_hash = [98, 99, 100]\<rparr>, Role_Name = ''user''\<rparr> =
     reg_Username (RegisterUserPayload_of (Map.empty(''first_name'' \<mapsto> ''Ann'', ''last_name'' \<mapsto> ''Lee'', ''country'' \<mapsto> ''NZ'',
        ''email'' \<mapsto> ''ann@example.com'', ''password'' \<mapsto> ''abc'',
        ''password_confirmation'' \<mapsto> ''abc'', ''username'' \<mapsto> ''ann''))) \<and>
   (\<exists>name r res rest.
      name = fst (generateUsername
                    (reg_FirstName (RegisterUserPayload_of (Map.empty(''first_name'' \<mapsto> ''Ann'', ''last_name'' \<mapsto> ''Lee'', ''country'' \<mapsto> ''NZ'',
        ''email'' \<mapsto> ''ann@example.com'', ''password'' \<mapsto> ''abc'',
        ''password_confirmation'' \<mapsto> ''abc'', ''username'' \<mapsto> ''ann''))))
                    (reg_LastName (RegisterUserPayload_of (Map.empty(''first_name'' \<mapsto> ''Ann'', ''last_name'' \<mapsto> ''Lee'', ''country'' \<mapsto> ''NZ'',
        ''email'' \<mapsto> ''ann@example.com'', ''password'' \<mapsto> ''abc'',
        ''password_confirmation'' \<mapsto> ''abc'', ''username'' \<mapsto> ''ann''))))
                    (reg_Email (RegisterUserPayload_of (Map.empty(''first_name'' \<mapsto> ''Ann'', ''last_name'' \<mapsto> ''Lee'', ''country'' \<mapsto> ''NZ'',
        ''email'' \<mapsto> ''ann@example.com'', ''password'' \<mapsto> ''abc'',
        ''password_confirmation'' \<mapsto> ''abc'', ''username'' \<mapsto> ''ann'')))) r) \<and>
      [CallGenerateUsername ''annlee5b80a5'',
     CallCreateAndInvite
      \<lparr>ID = 0, Username = ''annlee5b80a5'', FirstName = ''Ann'', LastName = ''Lee'', Country = ''NZ'', Email = ''ann@example.com'', Password = \<lparr>pw_hash = [98, 99, 100]\<rparr>, Role_Name = ''user''\<rparr>
      (EncodeToString (Sum256 demo_lib ''0b30557a-9fc4-490e-b358-7da2c7ec1136'')) 259200000000000 (Inr 2),
     CallSend ''user_invitation.tmpl'' ''annlee5b80a5'' ''ann@example.com''
      \<lparr>vars_Username = ''annlee5b80a5'', vars_ActivationURL = ''http://localhost:5173/confirm/0b30557a-9fc4-490e-b358-7da2c7ec1136''\<rparr>
      True (200, None),
     LogInfo ''Email sent'' 200,
     Respond (jsonResponse 201
      (UserWithToken
         \<lparr>ID = 2, Username = ''annlee5b80a5'', FirstName = ''Ann'', LastName = ''Lee'', Country = ''NZ'', Email = ''ann@example.com'', Password = \<lparr>pw_hash = [98, 99, 100]\<rparr>, Role_Name = ''user''\<rparr>
         ''0b30557a-9fc4-490e-b358-7da2c7ec1136''))] =
      CallGenerateUsername name #
      CallCreateAndInvite
        (\<lparr>ID = 0, Username = ''ann'', FirstName = ''Ann'', LastName = ''Lee'', Country = ''NZ'', Email = ''ann@example.com'', Password = \<lparr>pw_hash = [98, 99, 100]\<rparr>, Role_Name = ''user''\<rparr>\<lparr>Username := name\<rparr>)
        (EncodeToString (Sum256 demo_lib ''0b30557a-9fc4-490e-b358-7da2c7ec1136'')) 259200000000000 res # rest)"
proof -
  have name: "reg_Username (RegisterUserPayload_of (Map.empty(''first_name'' \<mapsto> ''Ann'', ''last_name'' \<mapsto> ''Lee'', ''country'' \<mapsto> ''NZ'',
        ''email'' \<mapsto> ''ann@example.com'', ''password'' \<mapsto> ''abc'',
        ''password_confirmation'' \<mapsto> ''abc'', ''username'' \<mapsto> ''ann''))) \<noteq> []"
    by (simp add: named_payload_of named_payload_fields)
  have run: "trace (registerUserHandler demo_lib demo_app named_body bob_world) =
     trace bob_world @
     CallCreateAndInvite
      \<lparr>ID = 0, Username = ''ann'', FirstName = ''Ann'', LastName = ''Lee'', Country = ''NZ'', Email = ''ann@example.com'', Password = \<lparr>pw_hash = [98, 99, 100]\<rparr>, Role_Name = ''user''\<rparr>
      (EncodeToString (Sum256 demo_lib ''0b30557a-9fc4-490e-b358-7da2c7ec1136'')) 259200000000000 (Inl ErrDuplicateUsername) #
     [CallGenerateUsername ''annlee5b80a5'',
     CallCreateAndInvite
      \<lparr>ID = 0, Username = ''annlee5b80a5'', FirstName = ''Ann'', LastName = ''Lee'', Country = ''NZ'', Email = ''ann@example.com'', Password = \<lparr>pw_hash = [98, 99, 100]\<rparr>, Role_Name = ''user''\<rparr>
      (EncodeToString (Sum256 demo_lib ''0b30557a-9fc4-490e-b358-7da2c7ec1136'')) 259200000000000 (Inr 2),
     CallSend ''user_invitation.tmpl'' ''annlee5b80a5'' ''ann@example.com''
      \<lparr>vars_Username = ''annlee5b80a5'', vars_ActivationURL = ''http://localhost:5173/confirm/0b30557a-9fc4-490e-b358-7da2c7ec1136''\<rparr>
      True (200, None),
     LogInfo ''Email sent'' 200,
     Respond (jsonResponse 201
      (UserWithToken
         \<lparr>ID = 2, Username = ''annlee5b80a5'', FirstName = ''Ann'', LastName = ''Lee'', Country = ''NZ'', Email = ''ann@example.com'', Password = \<lparr>pw_hash = [98, 99, 100]\<rparr>, Role_Name = ''user''\<rparr>
         ''0b30557a-9fc4-490e-b358-7da2c7ec1136''))]"
    by (simp add: named_run demo_facts)
  show ?thesis
    by (rule conjI [OF read_named_body conjI [OF name conjI [OF run
          supplied_username_replaced [OF read_named_body name run]]]])
qed

section \<open>The invitation token\<close>

text \<open>
  The string form of a UUID determines its sixteen bytes, and \<open>uuid.New()\<close> determines
  the bits of \<open>token_bits\<close> and is determined by them.
\<close>

lemma hextable_inj: "i < 16 \<Longrightarrow> j < 16 \<Longrightarrow> hextable ! i = hextable ! j \<Longrightarrow> i = j"
proof -
  have "distinct hextable" by (simp add: hextable_def)
  moreover have "length hextable = 16" by (simp add: hextable_def)
  ultimately show "i < 16 \<Longrightarrow> j < 16 \<Longrightarrow> hextable ! i = hextable ! j \<Longrightarrow> i = j"
    by (simp add: nth_eq_iff_index_eq)
qed

lemma byte_nibbles: "drop_bit 4 a = drop_bit 4 b \<Longrightarrow> a AND 0x0f = b AND 0x0f \<Longrightarrow> a = (b :: byte)"
proof -
  assume hi: "drop_bit 4 a = drop_bit 4 b" and lo: "a AND 0x0f = b AND 0x0f"
  have m: "(0x0f :: byte) = mask 4" by (simp add: mask_eq_exp_minus_1)
  from lo have "take_bit 4 a = take_bit 4 b" by (simp add: m take_bit_eq_mask)
  with hi have "push_bit 4 (drop_bit 4 a) + take_bit 4 a = push_bit 4 (drop_bit 4 b) + take_bit 4 b"
    by simp
  then show "a = b" by (simp only: bits_ident)
qed

lemma hex_byte_inj: "hex_byte a = hex_byte b \<Longrightarrow> a = b"
proof -
  assume "hex_byte a = hex_byte b"
  then have hi: "hextable ! unat (drop_bit 4 a) = hextable ! unat (drop_bit 4 b)"
    and lo: "hextable ! unat (a AND 0x0f) = hextable ! unat (b AND 0x0f)"
    by (simp_all add: hex_byte_def)
  from hextable_inj [OF high_nibble high_nibble hi] have "drop_bit 4 a = drop_bit 4 b"
    by (simp add: word_unat_eq_iff)
  moreover from hextable_inj [OF low_nibble low_nibble lo] have "a AND 0x0f = b AND 0x0f"
    by (simp add: word_unat_eq_iff)
  ultimately show "a = b" by (rule byte_nibbles)
qed

lemma EncodeToString_inj:
  "length xs = length ys \<Longrightarrow> EncodeToString xs = EncodeToString ys \<Longrightarrow> xs = ys"
proof (induction xs ys rule: list_induct2)
  case Nil
  then show ?case by simp
next
  case (Cons x xs y ys)
  from Cons.prems have "hex_byte x @ EncodeToString xs = hex_byte y @ EncodeToString ys"
    by (simp add: EncodeToString_def)
  then have "hex_byte x = hex_byte y" "EncodeToString xs = EncodeToString ys"
    by (simp_all add: hex_byte_length)
  with Cons.IH show ?case by (simp add: hex_byte_inj)
qed

lemma uuid_parts: "take 4 u @ take 2 (drop 4 u) @ take 2 (drop 6 u) @ take 2 (drop 8 u) @ drop 10 u = u"
proof -
  have "take 2 (drop 8 u) @ drop 10 u = drop 8 u"
    using append_take_drop_id [of 2 "drop 8 u"] by simp
  moreover have "take 2 (drop 6 u) @ drop 8 u = drop 6 u"
    using append_take_drop_id [of 2 "drop 6 u"] by simp
  moreover have "take 2 (drop 4 u) @ drop 6 u = drop 4 u"
    using append_take_drop_id [of 2 "drop 4 u"] by simp
  ultimately show ?thesis by simp
qed

lemma filter_hex: "filter isLowerAlnum (EncodeToString bs) = EncodeToString bs"
  using EncodeToString_alnum [of bs] by (simp add: list_all_iff)

lemma uuid_String_hex: "filter isLowerAlnum (uuid_String u) = EncodeToString u"
proof -
  have "filter isLowerAlnum (uuid_String u) =
        EncodeToString (take 4 u @ take 2 (drop 4 u) @ take 2 (drop 6 u) @ take 2 (drop 8 u) @ drop 10 u)"
    by (simp add: uuid_String_def filter_hex EncodeToString_append isLowerAlnum_def)
  then show ?thesis by (simp only: uuid_parts)
qed

lemma uuid_String_inj:
  "length u = length v \<Longrightarrow> uuid_String u = uuid_String v \<Longrightarrow> u = v"
  using uuid_String_hex [of u] uuid_String_hex [of v] by (simp add: EncodeToString_inj)

lemma version_mask: "((x AND 0x0f) OR 0x40) AND 0x0f = x AND (0x0f :: byte)"
  by (simp add: bit.conj_disj_distrib2)

lemma variant_mask: "((x AND 0x3f) OR 0x80) AND 0x3f = x AND (0x3f :: byte)"
  by (simp add: bit.conj_disj_distrib2)

lemma uuid_New_token_bits:
  "fst (uuid_New r) = (token_bits r)[6 := token_bits r ! 6 OR 0x40, 8 := token_bits r ! 8 OR 0x80]"
  by (simp add: uuid_New_def token_bits_def Let_def list_update_swap [of 6 8])

lemma token_bits_uuid_New:
  "token_bits r = (fst (uuid_New r))[6 := fst (uuid_New r) ! 6 AND 0x0f, 8 := fst (uuid_New r) ! 8 AND 0x3f]"
  by (simp add: uuid_New_def token_bits_def Let_def list_update_swap [of 6 8] version_mask variant_mask)

lemma token_entropy:
  "uuid_String (fst (uuid_New r)) = uuid_String (fst (uuid_New r')) \<longleftrightarrow> token_bits r = token_bits r'"
proof
  assume "uuid_String (fst (uuid_New r)) = uuid_String (fst (uuid_New r'))"
  then have "fst (uuid_New r) = fst (uuid_New r')"
    by (simp add: uuid_String_inj uuid_New_length)
  then show "token_bits r = token_bits r'" by (simp add: token_bits_uuid_New)
next
  assume "token_bits r = token_bits r'"
  then show "uuid_String (fst (uuid_New r)) = uuid_String (fst (uuid_New r'))"
    by (simp add: uuid_New_token_bits)
qed

text \<open>
  Claim C5, as the code has it. Whenever \<open>registerUserHandler\<close> answers with a user and
  a token, the status is 201 and the token is the string form, of 36 characters, of the
  UUID that \<open>uuid.New()\<close> draws for this request. Every create of the run is handed
  \<open>hex.EncodeToString\<close> of \<open>sha256.Sum256\<close> of that token, which is never the token
  itself, and the user in the response is the account of the create that succeeded, with
  the identity the repository gave it. Of the sixteen random bytes drawn for the token,
  the token holds exactly the 122 bits of \<open>token_bits\<close>: two random sources lead to the
  same token if and only if they agree on those bits. The other six bits are overwritten
  by the version and the variant, so the token carries 122 random bits, not 128.
\<close>

theorem success_returns_plain_token:
  assumes "trace (registerUserHandler lib app body w) = trace w @ T"
    and "Respond (jsonResponse code (UserWithToken user tok)) \<in> set T"
  shows "\<exists>m. readJSON lib RegisterUserPayload_json body = Inr m \<and>
           tok = plain_token (RegisterUserPayload_of m) (rand w) \<and>
           length tok = 36 \<and>
           code = 201 \<and>
           EncodeToString (Sum256 lib tok) \<noteq> tok \<and>
           (\<forall>u h e res. CallCreateAndInvite u h e res \<in> set T \<longrightarrow>
              h = EncodeToString (Sum256 lib tok)) \<and>
           (\<exists>u e. CallCreateAndInvite u (EncodeToString (Sum256 lib tok)) e (Inr (ID user)) \<in> set T \<and>
                  user = u\<lparr>ID := ID user\<rparr>) \<and>
           (\<forall>r'. plain_token (RegisterUserPayload_of m) r' = tok \<longleftrightarrow>
                 token_bits (token_rander (RegisterUserPayload_of m) r') =
                 token_bits (token_rander (RegisterUserPayload_of m) (rand w)))"
proof (cases rule: register_cases [of lib app body w])
  case (rejected err)
  with assms have False by auto
  then show ?thesis ..
next
  case (hash_failed m p err)
  with assms have False by (auto split: if_splits)
  then show ?thesis ..
next
  case (looped m p pw fl user' w3 L)
  let ?ev = "Respond (jsonResponse code (UserWithToken user tok))"
  define G where "G = (if reg_Username p = [] then [CallGenerateUsername (first_username p (rand w))] else [])"
  define tok0 where "tok0 = plain_token p (rand w)"
  define hw where "hw = registerUserHandler lib app body w"
  define h0 where "h0 = EncodeToString (Sum256 lib tok0)"
  define u0 where "u0 = first_user p (rand w) pw"
  have run: "loop_run p h0 (mail_exp (config app)) 0 u0 fl user' L"
    unfolding h0_def u0_def tok0_def by (rule looped(6))
  have tw3: "trace w3 = trace w @ G @ L" unfolding G_def by (rule looped(7))
  have hh: "hw = (if fl = Returned then w3 else after_loop app tok0 user' w3)"
    unfolding tok0_def hw_def by (rule looped(8))
  from register_looped_trace [OF tw3 hh] obtain A where
    A: "trace hw = trace w @ G @ L @ A"
       "fl = Returned \<longrightarrow> A = []"
       "fl = Proceed \<longrightarrow> trace (after_loop app tok0 user' w3) = trace w3 @ A"
       "\<forall>x\<in>set A. \<not> is_create x \<and> (\<forall>n. x \<noteq> CallGenerateUsername n)"
    by (elim exE conjE)
  from A(1) assms(1) have T: "T = G @ L @ A" by (simp add: hw_def)
  have "?ev \<notin> set G" by (simp add: G_def)
  moreover have "?ev \<notin> set L" using loop_run_events [OF run, of ?ev] by auto
  ultimately have inA: "?ev \<in> set A" using assms(2) T by simp
  then have fl: "fl = Proceed" using A(2) by (cases fl) auto
  with A(3) have tA: "trace (after_loop app tok0 user' w3) = trace w3 @ A" by simp
  from after_loop_json_response [OF tA inA]
  have r: "user = user'" "tok = tok0" "code = StatusCreated" "ID user' \<noteq> 0" by simp_all
  have creates: "\<forall>u h e res. CallCreateAndInvite u h e res \<in> set T \<longrightarrow> h = h0"
  proof (intro allI impI)
    fix u h e res
    assume "CallCreateAndInvite u h e res \<in> set T"
    moreover have "CallCreateAndInvite u h e res \<notin> set G" by (simp add: G_def)
    moreover have "CallCreateAndInvite u h e res \<notin> set A" using A(4) by auto
    ultimately have "CallCreateAndInvite u h e res \<in> set L" using T by simp
    from loop_run_create_user [OF run this] show "h = h0" by simp
  qed
  have "ID user' \<noteq> ID u0" using r(4) by (simp add: u0_def first_user_def)
  with loop_run_success [OF run fl] obtain u mm where
    s: "L = mm @ [CallCreateAndInvite u h0 (mail_exp (config app)) (Inr (ID user'))]"
       "user' = u\<lparr>ID := ID user'\<rparr>"
    by blast
  have "CallCreateAndInvite u h0 (mail_exp (config app)) (Inr (ID user')) \<in> set T"
    using s(1) T by simp
  with s(2) r(1) have created: "\<exists>u e. CallCreateAndInvite u h0 e (Inr (ID user)) \<in> set T \<and>
                  user = u\<lparr>ID := ID user\<rparr>"
    by blast
  have neq: "h0 \<noteq> tok0" unfolding h0_def tok0_def by (rule hash_is_not_plain_token)
  have len: "length tok0 = 36" unfolding tok0_def by (rule plain_token_length)
  have bits: "\<forall>r'. plain_token p r' = tok0 \<longleftrightarrow>
                 token_bits (token_rander p r') = token_bits (token_rander p (rand w))"
    unfolding tok0_def plain_token_def by (simp add: token_entropy)
  from looped(1,2) r(2,3) len neq creates created bits show ?thesis
    by (intro exI [of _ m]) (simp add: h0_def tok0_def StatusCreated_def)
qed

theorem success_returns_plain_token_witness:
  "(trace (registerUserHandler demo_lib demo_app register_body demo_world) =
     trace demo_world @
     [CallGenerateUsername ''annlee0b3055'',
     CallCreateAndInvite
       \<lparr>ID = 0, Username = ''annlee0b3055'', FirstName = ''Ann'', LastName = ''Lee'', Country = ''NZ'', Email = ''ann@example.com'', Password = \<lparr>pw_hash = [98, 99, 100]\<rparr>, Role_Name = ''user''\<rparr>
       (EncodeToString (Sum256 demo_lib ''5b80a5ca-ef14-495e-83a8-cdf2173c6186'')) 259200000000000 (Inr 1),
     CallSend ''user_invitation.tmpl'' ''annlee0b3055'' ''ann@example.com''
       \<lparr>vars_Username = ''annlee0b3055'', vars_ActivationURL = ''http://localhost:5173/confirm/5b80a5ca-ef14-495e-83a8-cdf2173c6186''\<rparr>
       True (200, None),
     LogInfo ''Email sent'' 200,
     Respond (jsonResponse 201
       (UserWithToken
          \<lparr>ID = 1, Username = ''annlee0b3055'', FirstName = ''Ann'', LastName = ''Lee'', Country = ''NZ'', Email = ''ann@example.com'', Password = \<lparr>pw_hash = [98, 99, 100]\<rparr>, Role_Name = ''user''\<rparr>
          ''5b80a5ca-ef14-495e-83a8-cdf2173c6186''))]) \<and>
   (Respond (jsonResponse 201
       (UserWithToken
          \<lparr>ID = 1, Username = ''annlee0b3055'', FirstName = ''Ann'', LastName = ''Lee'', Country = ''NZ'', Email = ''ann@example.com'', Password = \<lparr>pw_hash = [98, 99, 100]\<rparr>, Role_Name = ''user''\<rparr>
          ''5b80a5ca-ef14-495e-83a8-cdf2173c6186'')) \<in> set
     [CallGenerateUsername ''annlee0b3055'',
     CallCreateAndInvite
       \<lparr>ID = 0, Username = ''annlee0b3055'', FirstName = ''Ann'', LastName = ''Lee'', Country = ''NZ'', Email = ''ann@example.com'', Password = \<lparr>pw_hash = [98, 99, 100]\<rparr>, Role_Name = ''user''\<rparr>
       (EncodeToString (Sum256 demo_lib ''5b80a5ca-ef14-495e-83a8-cdf2173c6186'')) 259200000000000 (Inr 1),
     CallSend ''user_invitation.tmpl'' ''annlee0b3055'' ''ann@example.com''
       \<lparr>vars_Username = ''annlee0b3055'', vars_ActivationURL = ''http://localhost:5173/confirm/5b80a5ca-ef14-495e-83a8-cdf2173c6186''\<rparr>
       True (200, None),
     LogInfo ''Email sent'' 200,
     Respond (jsonResponse 201
       (UserWithToken
          \<lparr>ID = 1, Username = ''annlee0b3055'', FirstName = ''Ann'', LastName = ''Lee'', Country = ''NZ'', Email = ''ann@example.com'', Password = \<lparr>pw_hash = [98, 99, 100]\<rparr>, Role_Name = ''user''\<rparr>
          ''5b80a5ca-ef14-495e-83a8-cdf2173c6186''))]) \<and>
   (\<exists>m. readJSON demo_lib RegisterUserPayload_json register_body = Inr m \<and>
      ''5b80a5ca-ef14-495e-83a8-cdf2173c6186'' = plain_token (RegisterUserPayload_of m) (rand demo_world) \<and>
      length ''5b80a5ca-ef14-495e-83a8-cdf2173c6186'' = 36 \<and>
      (201 :: nat) = 201 \<and>
      EncodeToString (Sum256 demo_lib ''5b80a5ca-ef14-495e-83a8-cdf2173c6186'') \<noteq> ''5b80a5ca-ef14-495e-83a8-cdf2173c6186'' \<and>
      (\<forall>u h e res. CallCreateAndInvite u h e res \<in> set
         [CallGenerateUsername ''annlee0b3055'',
     CallCreateAndInvite
       \<lparr>ID = 0, Username = ''annlee0b3055'', FirstName = ''Ann'', LastName = ''Lee'', Country = ''NZ'', Email = ''ann@example.com'', Password = \<lparr>pw_hash = [98, 99, 100]\<rparr>, Role_Name = ''user''\<rparr>
       (EncodeToString (Sum256 demo_lib ''5b80a5ca-ef14-495e-83a8-cdf2173c6186'')) 259200000000000 (Inr 1),
     CallSend ''user_invitation.tmpl'' ''annlee0b3055'' ''ann@example.com''
       \<lparr>vars_Username = ''annlee0b3055'', vars_ActivationURL = ''http://localhost:5173/confirm/5b80a5ca-ef14-495e-83a8-cdf2173c6186''\<rparr>
       True (200, None),
     LogInfo ''Email sent'' 200,
     Respond (jsonResponse 201
       (UserWithToken
          \<lparr>ID = 1, Username = ''annlee0b3055'', FirstName = ''Ann'', LastName = ''Lee'', Country = ''NZ'', Email = ''ann@example.com'', Password = \<lparr>pw_hash = [98, 99, 100]\<rparr>, Role_Name = ''user''\<rparr>
          ''5b80a5ca-ef14-495e-83a8-cdf2173c6186''))] \<longrightarrow>
         h = EncodeToString (Sum256 demo_lib ''5b80a5ca-ef14-495e-83a8-cdf2173c6186'')) \<and>
      (\<exists>u e. CallCreateAndInvite u (EncodeToString (Sum256 demo_lib ''5b80a5ca-ef14-495e-83a8-cdf2173c6186'')) e
                (Inr (ID \<lparr>ID = 1, Username = ''annlee0b3055'', FirstName = ''Ann'', LastName = ''Lee'', Country = ''NZ'', Email = ''ann@example.com'', Password = \<lparr>pw_hash = [98, 99, 100]\<rparr>, Role_Name = ''user''\<rparr>)) \<in> set
         [CallGenerateUsername ''annlee0b3055'',
     CallCreateAndInvite
       \<lparr>ID = 0, Username = ''annlee0b3055'', FirstName = ''Ann'', LastName = ''Lee'', Country = ''NZ'', Email = ''ann@example.com'', Password = \<lparr>pw_hash = [98, 99, 100]\<rparr>, Role_Name = ''user''\<rparr>
       (EncodeToString (Sum256 demo_lib ''5b80a5ca-ef14-495e-83a8-cdf2173c6186'')) 259200000000000 (Inr 1),
     CallSend ''user_invitation.tmpl'' ''annlee0b3055'' ''ann@example.com''
       \<lparr>vars_Username = ''annlee0b3055'', vars_ActivationURL = ''http://localhost:5173/confirm/5b80a5ca-ef14-495e-83a8-cdf2173c6186''\<rparr>
       True (200, None),
     LogInfo ''Email sent'' 200,
     Respond (jsonResponse 201
       (UserWithToken
          \<lparr>ID = 1, Username = ''annlee0b3055'', FirstName = ''Ann'', LastName = ''Lee'', Country = ''NZ'', Email = ''ann@example.com'', Password = \<lparr>pw_hash = [98, 99, 100]\<rparr>, Role_Name = ''user''\<rparr>
          ''5b80a5ca-ef14-495e-83a8-cdf2173c6186''))] \<and>
         \<lparr>ID = 1, Username = ''annlee0b3055'', FirstName = ''Ann'', LastName = ''Lee'', Country = ''NZ'', Email = ''ann@example.com'', Password = \<lparr>pw_hash = [98, 99, 100]\<rparr>, Role_Name = ''user''\<rparr> =
         u\<lparr>ID := ID \<lparr>ID = 1, Username = ''annlee0b3055'', FirstName = ''Ann'', LastName = ''Lee'', Country = ''NZ'', Email = ''ann@example.com'', Password = \<lparr>pw_hash = [98, 99, 100]\<rparr>, Role_Name = ''user''\<rparr>\<rparr>) \<and>
      (\<forall>r'. plain_token (RegisterUserPayload_of m) r' = ''5b80a5ca-ef14-495e-83a8-cdf2173c6186'' \<longleftrightarrow>
            token_bits (token_rander (RegisterUserPayload_of m) r') =
            token_bits (token_rander (RegisterUserPayload_of m) (rand demo_world))))"
proof -
  have run: "trace (registerUserHandler demo_lib demo_app register_body demo_world) =
     trace demo_world @
     [CallGenerateUsername ''annlee0b3055'',
     CallCreateAndInvite
       \<lparr>ID = 0, Username = ''annlee0b3055'', FirstName = ''Ann'', LastName = ''Lee'', Country = ''NZ'', Email = ''ann@example.com'', Password = \<lparr>pw_hash = [98, 99, 100]\<rparr>, Role_Name = ''user''\<rparr>
       (EncodeToString (Sum256 demo_lib ''5b80a5ca-ef14-495e-83a8-cdf2173c6186'')) 259200000000000 (Inr 1),
     CallSend ''user_invitation.tmpl'' ''annlee0b3055'' ''ann@example.com''
       \<lparr>vars_Username = ''annlee0b3055'', vars_ActivationURL = ''http://localhost:5173/confirm/5b80a5ca-ef14-495e-83a8-cdf2173c6186''\<rparr>
       True (200, None),
     LogInfo ''Email sent'' 200,
     Respond (jsonResponse 201
       (UserWithToken
          \<lparr>ID = 1, Username = ''annlee0b3055'', FirstName = ''Ann'', LastName = ''Lee'', Country = ''NZ'', Email = ''ann@example.com'', Password = \<lparr>pw_hash = [98, 99, 100]\<rparr>, Role_Name = ''user''\<rparr>
          ''5b80a5ca-ef14-495e-83a8-cdf2173c6186''))]"
    by (simp add: demo_run demo_facts)
  have resp: "Respond (jsonResponse 201
       (UserWithToken
          \<lparr>ID = 1, Username = ''annlee0b3055'', FirstName = ''Ann'', LastName = ''Lee'', Country = ''NZ'', Email = ''ann@example.com'', Password = \<lparr>pw_hash = [98, 99, 100]\<rparr>, Role_Name = ''user''\<rparr>
          ''5b80a5ca-ef14-495e-83a8-cdf2173c6186'')) \<in> set
     [CallGenerateUsername ''annlee0b3055'',
     CallCreateAndInvite
       \<lparr>ID = 0, Username = ''annlee0b3055'', FirstName = ''Ann'', LastName = ''Lee'', Country = ''NZ'', Email = ''ann@example.com'', Password = \<lparr>pw_hash = [98, 99, 100]\<rparr>, Role_Name = ''user''\<rparr>
       (EncodeToString (Sum256 demo_lib ''5b80a5ca-ef14-495e-83a8-cdf2173c6186'')) 259200000000000 (Inr 1),
     CallSend ''user_invitation.tmpl'' ''annlee0b3055'' ''ann@example.com''
       \<lparr>vars_Username = ''annlee0b3055'', vars_ActivationURL = ''http://localhost:5173/confirm/5b80a5ca-ef14-495e-83a8-cdf2173c6186''\<rparr>
       True (200, None),
     LogInfo ''Email sent'' 200,
     Respond (jsonResponse 201
       (UserWithToken
          \<lparr>ID = 1, Username = ''annlee0b3055'', FirstName = ''Ann'', LastName = ''Lee'', Country = ''NZ'', Email = ''ann@example.com'', Password = \<lparr>pw_hash = [98, 99, 100]\<rparr>, Role_Name = ''user''\<rparr>
          ''5b80a5ca-ef14-495e-83a8-cdf2173c6186''))]"
    by simp
  show ?thesis
    by (rule conjI [OF run conjI [OF resp success_returns_plain_token [OF run resp]]])
qed

lemma alt_names:
  "fst (generateUsername ''Ann'' ''Lee'' ''ann@example.com'' alt_rander) = ''annlee0b3055''"
  "uuid_String (fst (uuid_New (alt_rander\<lparr>pos := 16\<rparr>))) = ''5b80a5ca-ef14-495e-83a8-cdf2173c6186''"
  by code_simp+

lemma alt_facts:
  "rand alt_world = alt_rander" "trace alt_world = []" "pos alt_rander = 0"
  "store alt_world = demo_store"
  by (simp_all add: alt_world_def demo_world_def alt_rander_def)

lemma alt_run:
  "trace (registerUserHandler demo_lib demo_app register_body alt_world) =
   [CallGenerateUsername ''annlee0b3055'',
    CallCreateAndInvite
      \<lparr>ID = 0, Username = ''annlee0b3055'', FirstName = ''Ann'', LastName = ''Lee'', Country = ''NZ'', Email = ''ann@example.com'', Password = \<lparr>pw_hash = [98, 99, 100]\<rparr>, Role_Name = ''user''\<rparr>
      (EncodeToString (Sum256 demo_lib ''5b80a5ca-ef14-495e-83a8-cdf2173c6186'')) 259200000000000 (Inr 1),
    CallSend ''user_invitation.tmpl'' ''annlee0b3055'' ''ann@example.com''
      \<lparr>vars_Username = ''annlee0b3055'', vars_ActivationURL = ''http://localhost:5173/confirm/5b80a5ca-ef14-495e-83a8-cdf2173c6186''\<rparr>
      True (200, None),
    LogInfo ''Email sent'' 200,
    Respond (jsonResponse 201
      (UserWithToken
         \<lparr>ID = 1, Username = ''annlee0b3055'', FirstName = ''Ann'', LastName = ''Lee'', Country = ''NZ'', Email = ''ann@example.com'', Password = \<lparr>pw_hash = [98, 99, 100]\<rparr>, Role_Name = ''user''\<rparr>
         ''5b80a5ca-ef14-495e-83a8-cdf2173c6186''))]"
  unfolding register_demo
  by (simp add: create_user_def demo_facts alt_facts first_user_def first_username_def
      demo_payload_fields alt_names create_loop.simps [of _ _ _ 0] mem_apps demo_store_def
      mem_CreateAndInvite_def take_fault_def after_loop_def Noop_Send_def StatusCreated_def
      respond_def emit_def uuid_New_snd split_beta Let_def)

text \<open>
  Claim C5 as it is worded fails on the number of bits: the two random sources below
  differ in byte 22, which is one of the sixteen bytes drawn for the token, and the two
  registrations return the same token. So the 128 bits drawn do not all reach the token.
\<close>

theorem token_bits_counterexample:
  "src (rand demo_world) 22 = 0x39 \<and> src (rand alt_world) 22 = 0xB9 \<and>
   trace (registerUserHandler demo_lib demo_app register_body demo_world) =
   [CallGenerateUsername ''annlee0b3055'',
     CallCreateAndInvite
       \<lparr>ID = 0, Username = ''annlee0b3055'', FirstName = ''Ann'', LastName = ''Lee'', Country = ''NZ'', Email = ''ann@example.com'', Password = \<lparr>pw_hash = [98, 99, 100]\<rparr>, Role_Name = ''user''\<rparr>
       (EncodeToString (Sum256 demo_lib ''5b80a5ca-ef14-495e-83a8-cdf2173c6186'')) 259200000000000 (Inr 1),
     CallSend ''user_invitation.tmpl'' ''annlee0b3055'' ''ann@example.com''
       \<lparr>vars_Username = ''annlee0b3055'', vars_ActivationURL = ''http://localhost:5173/confirm/5b80a5ca-ef14-495e-83a8-cdf2173c6186''\<rparr>
       True (200, None),
     LogInfo ''Email sent'' 200,
     Respond (jsonResponse 201
       (UserWithToken
          \<lparr>ID = 1, Username = ''annlee0b3055'', FirstName = ''Ann'', LastName = ''Lee'', Country = ''NZ'', Email = ''ann@example.com'', Password = \<lparr>pw_hash = [98, 99, 100]\<rparr>, Role_Name = ''user''\<rparr>
          ''5b80a5ca-ef14-495e-83a8-cdf2173c6186''))] \<and>
   trace (registerUserHandler demo_lib demo_app register_body alt_world) =
   [CallGenerateUsername ''annlee0b3055'',
     CallCreateAndInvite
       \<lparr>ID = 0, Username = ''annlee0b3055'', FirstName = ''Ann'', LastName = ''Lee'', Country = ''NZ'', Email = ''ann@example.com'', Password = \<lparr>pw_hash = [98, 99, 100]\<rparr>, Role_Name = ''user''\<rparr>
       (EncodeToString (Sum256 demo_lib ''5b80a5ca-ef14-495e-83a8-cdf2173c6186'')) 259200000000000 (Inr 1),
     CallSend ''user_invitation.tmpl'' ''annlee0b3055'' ''ann@example.com''
       \<lparr>vars_Username = ''annlee0b3055'', vars_ActivationURL = ''http://localhost:5173/confirm/5b80a5ca-ef14-495e-83a8-cdf2173c6186''\<rparr>
       True (200, None),
     LogInfo ''Email sent'' 200,
     Respond (jsonResponse 201
       (UserWithToken
          \<lparr>ID = 1, Username = ''annlee0b3055'', FirstName = ''Ann'', LastName = ''Lee'', Country = ''NZ'', Email = ''ann@example.com'', Password = \<lparr>pw_hash = [98, 99, 100]\<rparr>, Role_Name = ''user''\<rparr>
          ''5b80a5ca-ef14-495e-83a8-cdf2173c6186''))]"
  by (simp add: demo_run alt_run demo_facts alt_facts demo_rander_def alt_rander_def)

section \<open>A failed welcome mail\<close>

text \<open>
  Claim C2, as the code has it, on the repository as the spec describes it. Whenever the
  mailer answers \<open>Send\<close> with an error, a create of this run has succeeded for the
  address the mail was sent to; the handler logs the error, calls \<open>Delete\<close> on the
  identity that create returned, logs the error of the delete if it has one, and answers
  \<open>internalServerError\<close> with the mailer's error, status 500, in both cases. If the delete
  succeeded, no account with that identity is left and \<open>GetByEmail\<close> on that address
  finds nothing. Nothing of the kind holds when the delete failed.
\<close>

theorem mail_failure_rolls_back:
  assumes "CreateAndInvite app = mem_CreateAndInvite" and "Delete app = mem_Delete"
    and "trace (registerUserHandler lib app body w) =
           trace w @ pre @ CallSend t n em v sb (st, Some err) # post"
  shows "\<exists>uid derr.
           post = [LogError ''error sending welcome email'' err, CallDelete uid derr] @
                  (case derr of Some d \<Rightarrow> [LogError ''error deleting user'' d] | None \<Rightarrow> []) @
                  [Respond (internalServerError err)] \<and>
           status_of (internalServerError err) = 500 \<and>
           (\<exists>u h e. CallCreateAndInvite u h e (Inr uid) \<in> set pre \<and> Email u = em) \<and>
           (derr = None \<longrightarrow>
              mem_GetByEmail (store (registerUserHandler lib app body w)) em = Inl ErrNotFound \<and>
              \<not> list_ex (\<lambda>x. ID x = uid) (users (store (registerUserHandler lib app body w))))"
proof (cases rule: register_cases [of lib app body w])
  case (rejected err')
  with assms(3) have "pre @ CallSend t n em v sb (st, Some err) # post = [Respond (badRequestResponse err')]"
    by simp
  then have False by (cases pre) simp_all
  then show ?thesis ..
next
  case (hash_failed m p err')
  let ?ev = "CallSend t n em v sb (st, Some err)"
  from hash_failed assms(3) have "pre @ ?ev # post =
      (if reg_Username p = [] then [CallGenerateUsername (first_username p (rand w))] else []) @
         [Respond (internalServerError err')]" by simp
  moreover have "?ev \<in> set (pre @ ?ev # post)" by simp
  ultimately have "?ev \<in> set ((if reg_Username p = [] then [CallGenerateUsername (first_username p (rand w))] else []) @
         [Respond (internalServerError err')])"
    by (simp only:)
  then have False by (simp split: if_splits)
  then show ?thesis ..
next
  case (looped m p pw fl user' w3 L)
  let ?ev = "CallSend t n em v sb (st, Some err)"
  define G where "G = (if reg_Username p = [] then [CallGenerateUsername (first_username p (rand w))] else [])"
  define tok0 where "tok0 = plain_token p (rand w)"
  define hw where "hw = registerUserHandler lib app body w"
  define h0 where "h0 = EncodeToString (Sum256 lib tok0)"
  define u0 where "u0 = first_user p (rand w) pw"
  define w2 where "w2 = (if reg_Username p = []
          then w\<lparr>rand := snd (uuid_New (token_rander p (rand w))),
                 trace := trace w @ [CallGenerateUsername (first_username p (rand w))]\<rparr>
          else w\<lparr>rand := snd (uuid_New (token_rander p (rand w)))\<rparr>)"
  have lp: "create_loop app p h0 0 u0 w2 = (fl, user', w3)"
    unfolding h0_def u0_def tok0_def w2_def by (rule looped(5))
  have run: "loop_run p h0 (mail_exp (config app)) 0 u0 fl user' L"
    unfolding h0_def u0_def tok0_def by (rule looped(6))
  have tw3: "trace w3 = trace w @ G @ L" unfolding G_def by (rule looped(7))
  have hh: "hw = (if fl = Returned then w3 else after_loop app tok0 user' w3)"
    unfolding tok0_def hw_def by (rule looped(8))
  from register_looped_trace [OF tw3 hh] obtain A where
    A: "trace hw = trace w @ G @ L @ A"
       "fl = Returned \<longrightarrow> A = []"
       "fl = Proceed \<longrightarrow> trace (after_loop app tok0 user' w3) = trace w3 @ A"
    by (elim exE conjE)
  from A(1) assms(3) have eq: "pre @ ?ev # post = (G @ L) @ A" by (simp add: hw_def)
  have "?ev \<notin> set G" by (simp add: G_def)
  moreover have "?ev \<notin> set L" using loop_run_events [OF run, of ?ev] by auto
  ultimately have "?ev \<notin> set (G @ L)" by simp
  from split_after [OF eq this] obtain mm where mm: "A = mm @ ?ev # post" "pre = (G @ L) @ mm"
    by blast
  then have "A \<noteq> []" by simp
  with A(2) have fl: "fl = Proceed" by (cases fl) auto
  with hh have hw: "hw = after_loop app tok0 user' w3" by simp
  from fl A(3) have tA: "trace (after_loop app tok0 user' w3) = trace w3 @ A" by simp
  have idnz: "ID user' \<noteq> 0"
  proof
    assume "ID user' = 0"
    from after_loop_zero [OF this, of app tok0 w3] tA mm(1) show False
      by (cases mm) simp_all
  qed
  obtain st' r where s: "Send app (UserWelcomeTemplate app) (Username user') (Email user')
           \<lparr>vars_Username = Username user',
            vars_ActivationURL = frontendURL (config app) @ ''/confirm/'' @ tok0\<rparr>
           (env (config app) \<noteq> ''production'') = (st', r)"
    by (cases "Send app (UserWelcomeTemplate app) (Username user') (Email user')
           \<lparr>vars_Username = Username user',
            vars_ActivationURL = frontendURL (config app) @ ''/confirm/'' @ tok0\<rparr>
           (env (config app) \<noteq> ''production'')")
  have evA: "?ev \<in> set A" using mm(1) by simp
  have failed: "\<exists>err'. r = Some err'"
  proof (cases r)
    case None
    from after_loop_sent [OF idnz s [unfolded None], of w3] tA
    have "A = [CallSend (UserWelcomeTemplate app) (Username user') (Email user')
           \<lparr>vars_Username = Username user',
            vars_ActivationURL = frontendURL (config app) @ ''/confirm/'' @ tok0\<rparr>
           (env (config app) \<noteq> ''production'') (st', None),
         LogInfo ''Email sent'' st',
         Respond (jsonResponse StatusCreated (UserWithToken user' tok0))] @
        (case writeJSON app of Some err \<Rightarrow> [Respond (internalServerError err)] | None \<Rightarrow> [])"
      by simp
    with evA have False by (auto split: option.splits)
    then show ?thesis ..
  next
    case (Some a)
    then show ?thesis by simp
  qed
  then obtain err' where r: "r = Some err'" by blast
  define del where "del = mem_Delete (store w3) (ID user')"
  have al: "after_loop app tok0 user' w3 =
     w3\<lparr>store := snd del,
       trace := trace w3 @
        [CallSend (UserWelcomeTemplate app) (Username user') (Email user')
           \<lparr>vars_Username = Username user',
            vars_ActivationURL = frontendURL (config app) @ ''/confirm/'' @ tok0\<rparr>
           (env (config app) \<noteq> ''production'') (st', Some err'),
         LogError ''error sending welcome email'' err',
         CallDelete (ID user') (fst del)] @
        (case fst del of
           Some derr \<Rightarrow> [LogError ''error deleting user'' derr] | None \<Rightarrow> []) @
        [Respond (internalServerError err')]\<rparr>"
    using after_loop_mail_failed [OF idnz s [unfolded r], of w3] assms(2) by (simp add: del_def)
  define rest where "rest = [LogError ''error sending welcome email'' err', CallDelete (ID user') (fst del)] @
        (case fst del of
           Some derr \<Rightarrow> [LogError ''error deleting user'' derr] | None \<Rightarrow> []) @
        [Respond (internalServerError err')]"
  define ev' where "ev' = CallSend (UserWelcomeTemplate app) (Username user') (Email user')
           \<lparr>vars_Username = Username user',
            vars_ActivationURL = frontendURL (config app) @ ''/confirm/'' @ tok0\<rparr>
           (env (config app) \<noteq> ''production'') (st', Some err')"
  from al tA have A': "A = [ev'] @ rest" by (simp add: rest_def ev'_def)
  have nr: "?ev \<notin> set rest" by (auto simp: rest_def split: option.splits)
  with evA A' have same: "?ev = ev'" by simp
  from mm(1) A' have "mm @ ?ev # post = [?ev] @ rest" by (simp add: same)
  from split_before [OF this nr] obtain m' where "[?ev] = mm @ ?ev # m'" "post = m' @ rest"
    by blast
  then have mmnil: "mm = []" and postrest: "post = rest"
    by (cases mm; simp)+
  from same have ev: "em = Email user'" "err = err'" by (simp_all add: ev'_def)
  have post: "post = [LogError ''error sending welcome email'' err, CallDelete (ID user') (fst del)] @
                  (case fst del of Some d \<Rightarrow> [LogError ''error deleting user'' d] | None \<Rightarrow> []) @
                  [Respond (internalServerError err)]"
    using postrest ev(2) by (simp add: rest_def)
  have ne: "ID user' \<noteq> ID u0" using idnz by (simp add: u0_def first_user_def)
  with loop_run_success [OF run fl] obtain u ms where
    su: "L = ms @ [CallCreateAndInvite u h0 (mail_exp (config app)) (Inr (ID user'))]"
        "user' = u\<lparr>ID := ID user'\<rparr>"
    by blast
  have inpre: "CallCreateAndInvite u h0 (mail_exp (config app)) (Inr (ID user')) \<in> set pre"
    using su(1) mm(2) mmnil by simp
  have eu: "Email u = em" using su(2) ev(1) by (metis User.select_convs(6) User.surjective User.update_convs(1))
  from create_loop_store [OF lp [unfolded fl] ne] assms(1) obtain s0 u2 where
    cs: "mem_CreateAndInvite s0 u2 h0 (mail_exp (config app)) = (Inr (ID user'), store w3)"
        "Email u2 = Email u0" by auto
  have eu2: "Email u2 = em"
    using cs(2) loop_run_fields [OF run] ev(1) by simp
  have gone: "fst del = None \<longrightarrow>
              mem_GetByEmail (store hw) em = Inl ErrNotFound \<and>
              \<not> list_ex (\<lambda>x. ID x = ID user') (users (store hw))"
  proof
    assume "fst del = None"
    then have "mem_Delete (store w3) (ID user') = (None, snd del)"
      by (simp add: del_def prod_eq_iff)
    from mem_create_then_delete [OF cs(1) this] eu2 hw al
    show "mem_GetByEmail (store hw) em = Inl ErrNotFound \<and>
              \<not> list_ex (\<lambda>x. ID x = ID user') (users (store hw))"
      by simp
  qed
  from post inpre eu gone show ?thesis
    by (intro exI [of _ "ID user'"] exI [of _ "fst del"]) (auto simp: hw_def)
qed

theorem mail_failure_rolls_back_witness:
  "CreateAndInvite mail_down_app = mem_CreateAndInvite \<and> Delete mail_down_app = mem_Delete \<and>
   (trace (registerUserHandler demo_lib mail_down_app register_body demo_world) =
     trace demo_world @
     [CallGenerateUsername ''annlee0b3055'',
     CallCreateAndInvite
       \<lparr>ID = 0, Username = ''annlee0b3055'', FirstName = ''Ann'', LastName = ''Lee'', Country = ''NZ'', Email = ''ann@example.com'', Password = \<lparr>pw_hash = [98, 99, 100]\<rparr>, Role_Name = ''user''\<rparr>
       (EncodeToString (Sum256 demo_lib ''5b80a5ca-ef14-495e-83a8-cdf2173c6186'')) 259200000000000 (Inr 1)] @
     CallSend ''user_invitation.tmpl'' ''annlee0b3055'' ''ann@example.com''
       \<lparr>vars_Username = ''annlee0b3055'', vars_ActivationURL = ''http://localhost:5173/confirm/5b80a5ca-ef14-495e-83a8-cdf2173c6186''\<rparr>
       True (- 1, Some (Err ''dial tcp: connection refused'')) #
     [LogError ''error sending welcome email'' (Err ''dial tcp: connection refused''),
     CallDelete 1 None,
     Respond (internalServerError (Err ''dial tcp: connection refused''))]) \<and>
   mem_GetByEmail (store (registerUserHandler demo_lib mail_down_app register_body demo_world))
     ''ann@example.com'' = Inl ErrNotFound"
proof -
  have run: "trace (registerUserHandler demo_lib mail_down_app register_body demo_world) =
     trace demo_world @
     [CallGenerateUsername ''annlee0b3055'',
     CallCreateAndInvite
       \<lparr>ID = 0, Username = ''annlee0b3055'', FirstName = ''Ann'', LastName = ''Lee'', Country = ''NZ'', Email = ''ann@example.com'', Password = \<lparr>pw_hash = [98, 99, 100]\<rparr>, Role_Name = ''user''\<rparr>
       (EncodeToString (Sum256 demo_lib ''5b80a5ca-ef14-495e-83a8-cdf2173c6186'')) 259200000000000 (Inr 1)] @
     CallSend ''user_invitation.tmpl'' ''annlee0b3055'' ''ann@example.com''
       \<lparr>vars_Username = ''annlee0b3055'', vars_ActivationURL = ''http://localhost:5173/confirm/5b80a5ca-ef14-495e-83a8-cdf2173c6186''\<rparr>
       True (- 1, Some (Err ''dial tcp: connection refused'')) #
     [LogError ''error sending welcome email'' (Err ''dial tcp: connection refused''),
     CallDelete 1 None,
     Respond (internalServerError (Err ''dial tcp: connection refused''))]"
    by (simp add: mail_down_run demo_facts)
  from mail_failure_rolls_back [OF mem_apps(3) mem_apps(4) run] obtain uid derr where
    post: "[LogError ''error sending welcome email'' (Err ''dial tcp: connection refused''),
        CallDelete 1 None,
        Respond (internalServerError (Err ''dial tcp: connection refused''))] =
       [LogError ''error sending welcome email'' (Err ''dial tcp: connection refused''),
        CallDelete uid derr] @
       (case derr of Some d \<Rightarrow> [LogError ''error deleting user'' d] | None \<Rightarrow> []) @
       [Respond (internalServerError (Err ''dial tcp: connection refused''))]"
    and gone: "derr = None \<longrightarrow>
       mem_GetByEmail (store (registerUserHandler demo_lib mail_down_app register_body demo_world))
         ''ann@example.com'' = Inl ErrNotFound \<and>
       \<not> list_ex (\<lambda>x. ID x = uid)
           (users (store (registerUserHandler demo_lib mail_down_app register_body demo_world)))"
    by (elim exE conjE)
  from post have "derr = None" by simp
  with gone run mem_apps(3) mem_apps(4) show ?thesis by simp
qed

text \<open>
  Claim C2 as it is worded fails where the delete itself fails: the mailer is down, the
  repository refuses its second write, the response is the same internal error, and the
  account created in the request is still found by its address afterwards.
\<close>

theorem failed_delete_counterexample:
  "trace (registerUserHandler demo_lib mail_down_app register_body flaky_world) =
     [CallGenerateUsername ''annlee0b3055'',
     CallCreateAndInvite
       \<lparr>ID = 0, Username = ''annlee0b3055'', FirstName = ''Ann'', LastName = ''Lee'', Country = ''NZ'', Email = ''ann@example.com'', Password = \<lparr>pw_hash = [98, 99, 100]\<rparr>, Role_Name = ''user''\<rparr>
       (EncodeToString (Sum256 demo_lib ''5b80a5ca-ef14-495e-83a8-cdf2173c6186'')) 259200000000000 (Inr 1),
     CallSend ''user_invitation.tmpl'' ''annlee0b3055'' ''ann@example.com''
       \<lparr>vars_Username = ''annlee0b3055'', vars_ActivationURL = ''http://localhost:5173/confirm/5b80a5ca-ef14-495e-83a8-cdf2173c6186''\<rparr>
       True (- 1, Some (Err ''dial tcp: connection refused'')),
     LogError ''error sending welcome email'' (Err ''dial tcp: connection refused''),
     CallDelete 1 (Some (Err ''store: internal failure'')),
     LogError ''error deleting user'' (Err ''store: internal failure''),
     Respond (internalServerError (Err ''dial tcp: connection refused''))] \<and>
   mem_GetByEmail (store (registerUserHandler demo_lib mail_down_app register_body flaky_world))
     ''ann@example.com'' =
     Inr \<lparr>ID = 1, Username = ''annlee0b3055'', FirstName = ''Ann'', LastName = ''Lee'', Country = ''NZ'', Email = ''ann@example.com'', Password = \<lparr>pw_hash = [98, 99, 100]\<rparr>, Role_Name = ''user''\<rparr>"
  by (simp add: flaky_run flaky_store)

end
